theory Spec2Isabelle
  imports Complex_Main "HOL-Library.Word" "HOL-Library.AList"
begin

section \<open>Numbers and strings of the source language\<close>

text \<open>
  The program is TypeScript; every \<^verbatim>\<open>number\<close> is an IEEE-754 double. The embedding
  uses exact reals for finite numbers: rounding and overflow are not modelled, and the two
  zeros are told apart only in the projection module, where the program can observe the
  sign of a zero (see there). The only
  place where the builder can make a non-finite number out of finite ones is the division
  \<^verbatim>\<open>(magnitude - minMag) / magRange\<close> of \<^verbatim>\<open>magnitudeToRadius\<close> when
  \<^verbatim>\<open>magRange\<close> is zero; its result can be NaN, which then flows into radii, spike end
  points and label positions. Those values have the type \<open>jsnum\<close>.
\<close>

datatype jsnum = Fin real | NaN

text \<open>Arithmetic and comparison on \<open>jsnum\<close>: NaN propagates, and every comparison with NaN is false.\<close>

fun nadd :: "jsnum \<Rightarrow> jsnum \<Rightarrow> jsnum" where
  "nadd (Fin a) (Fin b) = Fin (a + b)"
| "nadd _ _ = NaN"

fun nsub :: "jsnum \<Rightarrow> jsnum \<Rightarrow> jsnum" where
  "nsub (Fin a) (Fin b) = Fin (a - b)"
| "nsub _ _ = NaN"

fun nmul :: "jsnum \<Rightarrow> jsnum \<Rightarrow> jsnum" where
  "nmul (Fin a) (Fin b) = Fin (a * b)"
| "nmul _ _ = NaN"

fun nlt :: "jsnum \<Rightarrow> jsnum \<Rightarrow> bool" where
  "nlt (Fin a) (Fin b) = (a < b)"
| "nlt _ _ = False"

fun nle :: "jsnum \<Rightarrow> jsnum \<Rightarrow> bool" where
  "nle (Fin a) (Fin b) = (a \<le> b)"
| "nle _ _ = False"

text \<open>
  A JavaScript string is a sequence of UTF-16 code units, and \<^verbatim>\<open>text.length\<close> counts
  them. \<open>ustr\<close> turns an ASCII literal into such a sequence.
\<close>

type_synonym jsstring = "16 word list"

definition ustr :: "string \<Rightarrow> jsstring" where
  "ustr s = map (\<lambda>c. of_nat (of_char c)) s"

definition degreeSign :: "16 word" where
  "degreeSign = 176"

section \<open>Projection (lib/projection/types.ts, lib/projection/azimuthal.ts)\<close>

text \<open>
  \<^verbatim>\<open>Math.atan2\<close>, which the inverse projection calls, tells a negative zero from a
  positive one, and the projection of the zenith is a pair of zeros whose signs depend on the
  azimuth. The projection module is therefore embedded over finite numbers with a signed
  zero: \<open>SNum r\<close> is the number \<open>r\<close> (\<open>SNum 0\<close> is \<open>+0\<close>) and \<open>NegZero\<close> is \<open>-0\<close>.
  \<open>val\<close> reads the value and \<open>signbit\<close> the sign. The operations compute exactly; a
  result that is zero gets the sign that IEEE-754 gives it (\<open>signed\<close>): the exclusive or of
  the signs for a product or a quotient, and for a difference \<open>-0\<close> only as \<open>(-0) - (+0)\<close>.
  \<open>sdiv\<close> is used with the non-zero literals 90 and 180 as divisors only. The sine of
  \<open>-0\<close> is \<open>-0\<close>; where the exact sine or cosine of another angle is zero (the rounded
  one of a double is not), the zero is \<open>+0\<close>.

  The geometry builder only adds, multiplies and compares the projected coordinates, none
  of which can tell the two zeros apart: it reads the coordinates by \<open>val\<close> and passes
  its own numbers with \<open>SNum\<close>.
\<close>

datatype snum = SNum real | NegZero

fun val :: "snum \<Rightarrow> real" where
  "val (SNum r) = r"
| "val NegZero = 0"

fun signbit :: "snum \<Rightarrow> bool" where
  "signbit (SNum r) = (r < 0)"
| "signbit NegZero = True"

definition signed :: "bool \<Rightarrow> real \<Rightarrow> snum" where
  "signed s v = (if v = 0 \<and> s then NegZero else SNum v)"

definition sneg :: "snum \<Rightarrow> snum" where
  "sneg a = signed (\<not> signbit a) (- val a)"

definition smul :: "snum \<Rightarrow> snum \<Rightarrow> snum" where
  "smul a b = signed (signbit a \<noteq> signbit b) (val a * val b)"

definition sdiv :: "snum \<Rightarrow> snum \<Rightarrow> snum" where
  "sdiv a b = signed (signbit a \<noteq> signbit b) (val a / val b)"

definition ssub :: "snum \<Rightarrow> snum \<Rightarrow> snum" where
  "ssub a b = signed (signbit a \<and> \<not> signbit b) (val a - val b)"

definition ssin :: "snum \<Rightarrow> snum" where
  "ssin a = (case a of NegZero \<Rightarrow> NegZero | SNum v \<Rightarrow> SNum (sin v))"

definition scos :: "snum \<Rightarrow> snum" where
  "scos a = SNum (cos (val a))"

record 'n Point2D =
  p_x :: 'n
  p_y :: 'n

record 'n ProjectionResult = "'n Point2D" +
  visible :: bool

record ProjectionConfig =
  centerAltitude :: snum
  maxRadius :: snum
  northUp :: bool
  eastRight :: bool

definition DEFAULT_PROJECTION_CONFIG :: ProjectionConfig where
  "DEFAULT_PROJECTION_CONFIG =
     \<lparr> centerAltitude = SNum 90, maxRadius = SNum 1, northUp = True, eastRight = True \<rparr>"

definition projectAzimuthalEquidistant ::
  "snum \<Rightarrow> snum \<Rightarrow> ProjectionConfig \<Rightarrow> snum ProjectionResult" where
  "projectAzimuthalEquidistant altitude azimuth config =
     (let angularDistance = ssub (centerAltitude config) altitude;
          r = smul (sdiv angularDistance (SNum 90)) (maxRadius config);
          azRad0 = sdiv (smul azimuth (SNum pi)) (SNum 180);
          azRad = (if \<not> eastRight config then sneg azRad0 else azRad0);
          x = smul r (ssin azRad);
          y = (if northUp config then smul (sneg r) (scos azRad) else smul r (scos azRad))
      in \<lparr> p_x = x, p_y = y, visible = (val altitude > 0) \<rparr>)"

text \<open>
  \<^verbatim>\<open>Math.atan2(y, x)\<close> on finite arguments, after the ECMAScript definition: for
  \<open>x < 0\<close> the result is on the side of \<open>pi\<close> for \<open>y > 0\<close> and \<open>y = +0\<close> and on the
  side of \<open>- pi\<close> for \<open>y < 0\<close> and \<open>y = -0\<close>; for a zero \<open>x\<close> and a non-zero \<open>y\<close>
  it is \<open>pi / 2\<close> or \<open>- pi / 2\<close>; and for two zeros it is a zero when \<open>x\<close> is \<open>+0\<close>,
  and \<open>pi\<close> or \<open>- pi\<close>, with the sign of \<open>y\<close>, when \<open>x\<close> is \<open>-0\<close>. The result is
  returned by value.
\<close>

definition atan2 :: "snum \<Rightarrow> snum \<Rightarrow> real" where
  "atan2 y x =
     (if 0 < val x then arctan (val y / val x)
      else if val x < 0 then
        (if 0 < val y \<or> y = SNum 0 then arctan (val y / val x) + pi
         else arctan (val y / val x) - pi)
      else if 0 < val y then pi / 2
      else if val y < 0 then - (pi / 2)
      else if x = NegZero then (if y = NegZero then - pi else pi)
      else 0)"

text \<open>
  The inverse projection. The radius \<open>r\<close> is a square root, so it is never negative and
  a zero \<open>r\<close> is \<open>+0\<close>. With a \<^verbatim>\<open>maxRadius\<close> of zero the quotient
  \<^verbatim>\<open>r / config.maxRadius\<close> is NaN for \<open>r = 0\<close> and an infinity with the sign of
  \<^verbatim>\<open>maxRadius\<close> otherwise, and so is the altitude, with the opposite sign. The two
  results are returned by value.
\<close>

datatype extnum = Finite real | PosInfinity | NegInfinity | NotANumber

record InverseResult =
  inv_altitude :: extnum
  inv_azimuth :: real

definition inverseAzimuthalEquidistant ::
  "(snum, 'a) Point2D_scheme \<Rightarrow> ProjectionConfig \<Rightarrow> InverseResult" where
  "inverseAzimuthalEquidistant point config =
     (let x = p_x point; y = p_y point;
          r = sqrt (val x * val x + val y * val y);
          alt = (if val (maxRadius config) = 0 then
                   (if r = 0 then NotANumber
                    else if signbit (maxRadius config) then PosInfinity else NegInfinity)
                 else
                   (let angularDistance = (r / val (maxRadius config)) * 90
                    in Finite (val (centerAltitude config) - angularDistance)));
          azRad0 = (if northUp config then atan2 x (sneg y) else atan2 x y);
          azRad = (if \<not> eastRight config then - azRad0 else azRad0);
          az0 = (azRad * 180) / pi;
          az = (if az0 < 0 then az0 + 360 else az0)
      in \<lparr> inv_altitude = alt, inv_azimuth = az \<rparr>)"

definition altitudeToRadius :: "snum \<Rightarrow> ProjectionConfig \<Rightarrow> snum" where
  "altitudeToRadius alt config =
     smul (sdiv (ssub (centerAltitude config) alt) (SNum 90)) (maxRadius config)"

text \<open>
  \<^verbatim>\<open>for (let az = 0; az < 360; az += step)\<close> with \<^verbatim>\<open>step = 360 / pointCount\<close>,
  for a count that is a natural number. For a count of zero the step is \<open>+Infinity\<close>: the
  body runs once, at azimuth 0, and the loop ends. The sums \<open>az + step\<close> are exact here,
  so that a positive count gives that many points; the doubles of the program round each
  sum, and for a step that is not a double (a count of 13, say) the last sum can stay below
  360 and the program then makes one point more. The builder calls with a count of 72: the
  step is 5 and every sum is exact.
\<close>

function altitudeCircleLoop ::
  "snum \<Rightarrow> nat \<Rightarrow> ProjectionConfig \<Rightarrow> real \<Rightarrow> snum Point2D list" where
  "altitudeCircleLoop alt pointCount config az =
     (if az < 360 then
        (let projected = projectAzimuthalEquidistant alt (SNum az) config
         in \<lparr> p_x = p_x projected, p_y = p_y projected \<rparr>
            # (if pointCount = 0 then []
               else altitudeCircleLoop alt pointCount config (az + 360 / real pointCount)))
      else [])"
  by pat_completeness auto
termination
proof (relation "measure (\<lambda>(alt, pointCount, config, az). nat \<lceil>(360 - az) * real pointCount / 360\<rceil>)")
  show "wf (measure (\<lambda>(alt, pointCount, config, az). nat \<lceil>(360 - az) * real pointCount / 360\<rceil>))"
    by simp
next
  fix alt :: snum and pointCount :: nat and config :: ProjectionConfig and az :: real
    and x :: "snum ProjectionResult"
  assume az: "az < 360" and n: "pointCount \<noteq> 0"
  define t where "t = (360 - az) * real pointCount / 360"
  have t: "0 < t" using az n by (simp add: t_def)
  have eq: "(360 - (az + 360 / real pointCount)) * real pointCount / 360 = t - 1"
    using n by (simp add: t_def field_simps)
  have "nat \<lceil>t - 1\<rceil> < nat \<lceil>t\<rceil>" using t by linarith
  then have "nat \<lceil>(360 - (az + 360 / real pointCount)) * real pointCount / 360\<rceil>
               < nat \<lceil>(360 - az) * real pointCount / 360\<rceil>"
    unfolding eq unfolding t_def .
  then show "((alt, pointCount, config, az + 360 / real pointCount), (alt, pointCount, config, az))
      \<in> measure (\<lambda>(alt, pointCount, config, az). nat \<lceil>(360 - az) * real pointCount / 360\<rceil>)"
    by (simp only: in_measure prod.case)
qed

declare altitudeCircleLoop.simps [simp del]

definition generateAltitudeCircle :: "snum \<Rightarrow> nat \<Rightarrow> ProjectionConfig \<Rightarrow> snum Point2D list" where
  "generateAltitudeCircle alt pointCount config = altitudeCircleLoop alt pointCount config 0"

section \<open>Primitives (lib/geometry/types.ts, lib/geometry/primitives.ts)\<close>

datatype Anchor = AStart | AMiddle | AEnd

datatype Baseline = BTop | BMiddle | BBottom

datatype RenderPrimitive =
    Circle (c_x: jsnum) (c_y: jsnum) (c_radius: jsnum) (c_id: "real option")
  | Line (l_x1: jsnum) (l_y1: jsnum) (l_x2: jsnum) (l_y2: jsnum)
  | Path (path_points: "real Point2D list") (path_closed: bool)
  | Text (t_x: jsnum) (t_y: jsnum) (t_text: jsstring) (t_anchor: Anchor) (t_baseline: Baseline)

definition createCircle :: "jsnum \<Rightarrow> jsnum \<Rightarrow> jsnum \<Rightarrow> real option \<Rightarrow> RenderPrimitive" where
  "createCircle x y radius ident = Circle x y radius ident"

definition createLine :: "jsnum \<Rightarrow> jsnum \<Rightarrow> jsnum \<Rightarrow> jsnum \<Rightarrow> RenderPrimitive" where
  "createLine x1 y1 x2 y2 = Line x1 y1 x2 y2"

definition createPath :: "real Point2D list \<Rightarrow> bool \<Rightarrow> RenderPrimitive" where
  "createPath points isClosed = Path points isClosed"

definition createText :: "jsnum \<Rightarrow> jsnum \<Rightarrow> jsstring \<Rightarrow> Anchor \<Rightarrow> Baseline \<Rightarrow> RenderPrimitive" where
  "createText x y text anchor baseline = Text x y text anchor baseline"

text \<open>
  \<^verbatim>\<open>magnitudeToRadius\<close>. With \<open>magRange = 0\<close> the quotient is \<open>+Infinity\<close>,
  \<open>-Infinity\<close> or NaN; \<^verbatim>\<open>Math.max(0, Math.min(1, _))\<close> turns the infinities into 1 and 0
  and keeps NaN.
\<close>

definition magnitudeToRadius :: "real \<Rightarrow> real \<Rightarrow> real \<Rightarrow> real \<Rightarrow> jsnum" where
  "magnitudeToRadius magnitude minRadius maxRadius' magnitudeLimit =
     (let minMag = - 3 / 2;
          magRange = magnitudeLimit - minMag
      in if magRange = 0 then
           (if 0 < magnitude - minMag then Fin (minRadius + sqrt (1 - 1) * (maxRadius' - minRadius))
            else if magnitude - minMag < 0 then Fin (minRadius + sqrt (1 - 0) * (maxRadius' - minRadius))
            else NaN)
         else
           (let normalized = (magnitude - minMag) / magRange;
                clamped = max 0 (min 1 normalized);
                sizeFactor = sqrt (1 - clamped)
            in Fin (minRadius + sizeFactor * (maxRadius' - minRadius))))"

section \<open>Errors\<close>

text \<open>
  An exception is a value: \<open>Thrown\<close> is whatever the astronomy library throws,
  \<open>RangeError\<close> is what \<^verbatim>\<open>Date.prototype.toISOString\<close> throws on an invalid date.
  \<open>bindE\<close> sequences two computations; an exception of the first one propagates.
\<close>

datatype error = Thrown jsstring | RangeError

definition bindE :: "error + 'a \<Rightarrow> ('a \<Rightarrow> error + 'b) \<Rightarrow> error + 'b" where
  "bindE m f = (case m of Inl e \<Rightarrow> Inl e | Inr v \<Rightarrow> f v)"

text \<open>A loop whose body may throw and pushes some elements onto one result array.\<close>

fun concatMapE :: "('a \<Rightarrow> error + 'b list) \<Rightarrow> 'a list \<Rightarrow> error + 'b list" where
  "concatMapE f [] = Inr []"
| "concatMapE f (a # as) = bindE (f a) (\<lambda>bs. bindE (concatMapE f as) (\<lambda>cs. Inr (bs @ cs)))"

section \<open>Observer, catalog and options (types/observer.ts, types/star.ts, types/render.ts)\<close>

text \<open>A \<^verbatim>\<open>Date\<close> holds a time value in milliseconds, or is invalid (time value NaN).\<close>

datatype Date = InvalidDate | DateAt int

record Observer =
  latitude :: real
  longitude :: real
  elevation :: real
  date :: Date

record CatalogStar =
  cs_hip :: real
  cs_ra :: real
  cs_dec :: real
  cs_mag :: real
  cs_name :: "jsstring option"

record ProjectedStar =
  ps_hip :: real
  ps_x :: real
  ps_y :: real
  ps_altitude :: real
  ps_azimuth :: real
  ps_magnitude :: real
  ps_radius :: jsnum
  ps_name :: "jsstring option"

datatype Theme = Dark | Light | Monochrome | Sepia

datatype GridStyle = GridNone | GridAltitude | GridEquatorial | GridBoth

datatype StarStyle = Dots | Glow | Spikes

record RenderOptions =
  magnitudeLimit :: real
  starSizeMin :: real
  starSizeMax :: real
  showConstellations :: bool
  showConstellationNames :: bool
  showPlanets :: bool
  showStarNames :: bool
  showHorizon :: bool
  showCardinals :: bool
  showGrid :: bool
  showDegreeRing :: bool
  showTopoContours :: bool
  showMapCoordinates :: bool
  showMapDate :: bool
  starStyle :: StarStyle
  gridStyle :: GridStyle
  theme :: Theme

section \<open>External collaborators\<close>

text \<open>
  The astronomy library (\<^verbatim>\<open>astronomy-engine\<close>), the constellation data file and the
  number and date formatting of the language are not part of the sources; they are
  parameters. Each library call may throw. \<open>'t\<close> is the library's time object, \<open>'o\<close> its
  observer object.
\<close>

datatype Body = Mercury | Venus | Mars | Jupiter | Saturn

text \<open>\<^verbatim>\<open>HorizontalCoordinates\<close> (lib/astronomy/coordinates.ts), which the library's \<^verbatim>\<open>Horizon\<close> result is read into.\<close>

record HorizontalCoordinates =
  altitude :: real
  azimuth :: real

record EquatorialCoordinates =
  eq_ra :: real
  eq_dec :: real

record RaDec =
  rd_ra :: real
  rd_dec :: real

record Constellation =
  cn_name :: jsstring
  cn_lines :: "RaDec list list"

record ('t, 'o) Externals =
  MakeTime :: "Date \<Rightarrow> error + 't"
  AstroObserver :: "real \<Rightarrow> real \<Rightarrow> real \<Rightarrow> error + 'o"
  Horizon :: "'t \<Rightarrow> 'o \<Rightarrow> real \<Rightarrow> real \<Rightarrow> error + HorizontalCoordinates"
  Equator :: "Body \<Rightarrow> 't \<Rightarrow> 'o \<Rightarrow> error + EquatorialCoordinates"
  constellationData :: "Constellation list"
  toFixed2 :: "real \<Rightarrow> jsstring"
  isoString :: "int \<Rightarrow> jsstring"

section \<open>Coordinates and planets (lib/astronomy/coordinates.ts, lib/astronomy/planets.ts)\<close>

definition raDecToAltAz ::
  "('t, 'o) Externals \<Rightarrow> real \<Rightarrow> real \<Rightarrow> Observer \<Rightarrow> error + HorizontalCoordinates" where
  "raDecToAltAz ext ra decl observer =
     bindE (AstroObserver ext (latitude observer) (longitude observer) (elevation observer))
       (\<lambda>astroObserver.
     bindE (MakeTime ext (date observer)) (\<lambda>time.
     let raHours = ra / 15 in
     bindE (Horizon ext time astroObserver raHours decl) (\<lambda>horizontal.
     Inr \<lparr> altitude = altitude horizontal, azimuth = azimuth horizontal \<rparr>)))"

definition isAboveHorizon :: "real \<Rightarrow> bool" where
  "isAboveHorizon alt = (alt > 0)"

record PlanetPosition = HorizontalCoordinates +
  pl_name :: jsstring
  pl_magnitude :: real

definition planetBodies :: "(Body \<times> jsstring \<times> real) list" where
  "planetBodies =
     [(Mercury, ustr ''Mercury'', 0), (Venus, ustr ''Venus'', - 4), (Mars, ustr ''Mars'', 0),
      (Jupiter, ustr ''Jupiter'', - 2), (Saturn, ustr ''Saturn'', 0)]"

text \<open>
  The loop of \<^verbatim>\<open>getPlanetPositions\<close>: the body of each iteration is a
  \<^verbatim>\<open>try\<close>; an exception of \<^verbatim>\<open>Equator\<close> or \<^verbatim>\<open>Horizon\<close> is caught and
  the iteration pushes nothing.
\<close>

fun planetLoop ::
  "('t, 'o) Externals \<Rightarrow> 't \<Rightarrow> 'o \<Rightarrow> (Body \<times> jsstring \<times> real) list \<Rightarrow> PlanetPosition list" where
  "planetLoop ext time astroObserver [] = []"
| "planetLoop ext time astroObserver ((body, name, mag) # rest) =
     (case bindE (Equator ext body time astroObserver)
             (\<lambda>equ. Horizon ext time astroObserver (eq_ra equ) (eq_dec equ)) of
        Inl err \<Rightarrow> planetLoop ext time astroObserver rest
      | Inr hor \<Rightarrow>
          (if altitude hor > 0
           then \<lparr> altitude = altitude hor, azimuth = azimuth hor,
                  pl_name = name, pl_magnitude = mag \<rparr> # planetLoop ext time astroObserver rest
           else planetLoop ext time astroObserver rest))"

definition getPlanetPositions :: "('t, 'o) Externals \<Rightarrow> Observer \<Rightarrow> error + PlanetPosition list" where
  "getPlanetPositions ext observer =
     bindE (MakeTime ext (date observer)) (\<lambda>time.
     bindE (AstroObserver ext (latitude observer) (longitude observer) (elevation observer))
       (\<lambda>astroObserver.
     Inr (planetLoop ext time astroObserver planetBodies)))"

section \<open>Observer utilities (lib/astronomy/observer.ts)\<close>

record Validation =
  valid :: bool
  errors :: "jsstring list"

definition validateObserver :: "Observer \<Rightarrow> Validation" where
  "validateObserver observer =
     (let e1 = (if latitude observer < - 90 \<or> latitude observer > 90
                then [ustr ''Latitude must be between -90 and 90 degrees''] else []);
          e2 = (if longitude observer < - 180 \<or> longitude observer > 180
                then [ustr ''Longitude must be between -180 and 180 degrees''] else []);
          e3 = (if elevation observer < - 500 \<or> elevation observer > 10000
                then [ustr ''Elevation must be between -500 and 10000 meters''] else []);
          e4 = (if date observer = InvalidDate then [ustr ''Invalid date''] else []);
          errs = e1 @ e2 @ e3 @ e4
      in \<lparr> valid = (length errs = 0), errors = errs \<rparr>)"

definition formatLocation :: "('t, 'o) Externals \<Rightarrow> Observer \<Rightarrow> jsstring" where
  "formatLocation ext observer =
     (let latDir = (if latitude observer \<ge> 0 then ustr ''N'' else ustr ''S'');
          lonDir = (if longitude observer \<ge> 0 then ustr ''E'' else ustr ''W'');
          lat = toFixed2 ext \<bar>latitude observer\<bar>;
          lon = toFixed2 ext \<bar>longitude observer\<bar>
      in lat @ [degreeSign] @ latDir @ ustr '', '' @ lon @ [degreeSign] @ lonDir)"

fun replaceFirst :: "'a \<Rightarrow> 'a \<Rightarrow> 'a list \<Rightarrow> 'a list" where
  "replaceFirst a b [] = []"
| "replaceFirst a b (c # cs) = (if c = a then b # cs else c # replaceFirst a b cs)"

definition toISOString :: "('t, 'o) Externals \<Rightarrow> Date \<Rightarrow> error + jsstring" where
  "toISOString ext d = (case d of InvalidDate \<Rightarrow> Inl RangeError | DateAt ms \<Rightarrow> Inr (isoString ext ms))"

definition formatDateTime :: "('t, 'o) Externals \<Rightarrow> Observer \<Rightarrow> error + jsstring" where
  "formatDateTime ext observer =
     bindE (toISOString ext (date observer)) (\<lambda>iso.
     Inr (take 19 (replaceFirst (of_nat (of_char CHR ''T'')) (of_nat (of_char CHR '' '')) iso)
          @ ustr '' UTC''))"

section \<open>Label collision detector (lib/geometry/builder.ts)\<close>

record BoundingBox =
  bb_x :: jsnum
  bb_y :: jsnum
  bb_width :: jsnum
  bb_height :: jsnum

record LabelCollisionDetector =
  placedLabels :: "BoundingBox list"
  padding :: real

definition estimateBoundingBox ::
  "LabelCollisionDetector \<Rightarrow> jsnum \<Rightarrow> jsnum \<Rightarrow> jsstring \<Rightarrow> Anchor \<Rightarrow> real \<Rightarrow> BoundingBox" where
  "estimateBoundingBox this x y text anchor fontSize =
     (let charWidth = fontSize * (6 / 10);
          width = real (length text) * charWidth;
          height = fontSize * (12 / 10);
          adjustedX = (if anchor = AMiddle then nsub x (Fin (width / 2))
                       else if anchor = AEnd then nsub x (Fin width)
                       else x)
      in \<lparr> bb_x = nsub adjustedX (Fin (padding this)),
           bb_y = nsub (nsub y (Fin (height / 2))) (Fin (padding this)),
           bb_width = Fin (width + padding this * 2),
           bb_height = Fin (height + padding this * 2) \<rparr>)"

definition intersects :: "BoundingBox \<Rightarrow> BoundingBox \<Rightarrow> bool" where
  "intersects a b =
     (\<not> (nlt (nadd (bb_x a) (bb_width a)) (bb_x b) \<or>
         nlt (nadd (bb_x b) (bb_width b)) (bb_x a) \<or>
         nlt (nadd (bb_y a) (bb_height a)) (bb_y b) \<or>
         nlt (nadd (bb_y b) (bb_height b)) (bb_y a)))"

fun noCollision :: "BoundingBox \<Rightarrow> BoundingBox list \<Rightarrow> bool" where
  "noCollision bbox [] = True"
| "noCollision bbox (placed # rest) = (if intersects bbox placed then False else noCollision bbox rest)"

definition canPlace ::
  "LabelCollisionDetector \<Rightarrow> jsnum \<Rightarrow> jsnum \<Rightarrow> jsstring \<Rightarrow> Anchor \<Rightarrow> real \<Rightarrow> bool" where
  "canPlace this x y text anchor fontSize =
     (let bbox = estimateBoundingBox this x y text anchor fontSize
      in noCollision bbox (placedLabels this))"

definition place ::
  "LabelCollisionDetector \<Rightarrow> jsnum \<Rightarrow> jsnum \<Rightarrow> jsstring \<Rightarrow> Anchor \<Rightarrow> real \<Rightarrow> LabelCollisionDetector" where
  "place this x y text anchor fontSize =
     (let bbox = estimateBoundingBox this x y text anchor fontSize
      in this \<lparr> placedLabels := placedLabels this @ [bbox] \<rparr>)"

definition tryPlace ::
  "LabelCollisionDetector \<Rightarrow> jsnum \<Rightarrow> jsnum \<Rightarrow> jsstring \<Rightarrow> Anchor \<Rightarrow> real
     \<Rightarrow> bool \<times> LabelCollisionDetector" where
  "tryPlace this x y text anchor fontSize =
     (if canPlace this x y text anchor fontSize
      then (True, place this x y text anchor fontSize)
      else (False, this))"

section \<open>Geometry model (lib/geometry/types.ts)\<close>

datatype LayerType =
    Background | TopoContours | Grid | HorizonLayer | Constellations | ConstellationNames
  | Stars | StarGlow | StarNames | Planets | Cardinals | DegreeRing | Metadata | HourIndices

record RenderLayer =
  layer_type :: LayerType
  primitives :: "RenderPrimitive list"
  layer_visible :: bool

record Bounds =
  b_width :: real
  b_height :: real
  centerX :: real
  centerY :: real
  b_radius :: real

record GeometryMetadata =
  starCount :: nat
  visibleStarCount :: nat
  timestamp :: Date
  location :: jsstring

text \<open>
  \<^verbatim>\<open>layers\<close> is a \<^verbatim>\<open>Map\<close>, which keeps its keys in insertion order: an association
  list, where \<^verbatim>\<open>set\<close> replaces the value of a key that is present and appends a new
  key at the end (\<open>AList.update\<close>).
\<close>

record StarMapGeometry =
  layers :: "(LayerType \<times> RenderLayer) list"
  bounds :: Bounds
  metadata :: GeometryMetadata

definition layers_set ::
  "LayerType \<Rightarrow> RenderPrimitive list \<Rightarrow> (LayerType \<times> RenderLayer) list
     \<Rightarrow> (LayerType \<times> RenderLayer) list" where
  "layers_set ty prims ls =
     AList.update ty \<lparr> layer_type = ty, primitives = prims, layer_visible = True \<rparr> ls"

definition layers_get :: "StarMapGeometry \<Rightarrow> LayerType \<Rightarrow> RenderLayer option" where
  "layers_get geometry ty = map_of (layers geometry) ty"

section \<open>Geometry builder (lib/geometry/builder.ts)\<close>

text \<open>
  \<^verbatim>\<open>buildStarMapGeometry\<close> is one long function that mutates \<^verbatim>\<open>layers\<close> and
  \<^verbatim>\<open>labelCollision\<close>. Each of its blocks is a definition here, in the order of the source;
  the two mutable objects are passed along in a \<open>BuildState\<close>.
\<close>

definition distanceFromCenter :: "real \<Rightarrow> real \<Rightarrow> real \<Rightarrow> real" where
  "distanceFromCenter center x y =
     (let dx = x - center; dy = y - center in sqrt (dx * dx + dy * dy))"

text \<open>Project all stars (the first loop of the builder).\<close>

fun projectStars ::
  "('t, 'o) Externals \<Rightarrow> Observer \<Rightarrow> RenderOptions \<Rightarrow> real \<Rightarrow> real \<Rightarrow> CatalogStar list
     \<Rightarrow> error + ProjectedStar list" where
  "projectStars ext observer options center scale [] = Inr []"
| "projectStars ext observer options center scale (star # rest) =
     (if cs_mag star > magnitudeLimit options
      then projectStars ext observer options center scale rest
      else
        bindE (raDecToAltAz ext (cs_ra star) (cs_dec star) observer) (\<lambda>coord.
        if altitude coord \<le> 0
        then projectStars ext observer options center scale rest
        else
          (let projected = projectAzimuthalEquidistant (SNum (altitude coord)) (SNum (azimuth coord))
                             DEFAULT_PROJECTION_CONFIG;
               radius = magnitudeToRadius (cs_mag star) (starSizeMin options)
                          (starSizeMax options) (magnitudeLimit options);
               projectedStar =
                 \<lparr> ps_hip = cs_hip star,
                   ps_x = center + val (p_x projected) * scale,
                   ps_y = center + val (p_y projected) * scale,
                   ps_altitude = altitude coord,
                   ps_azimuth = azimuth coord,
                   ps_magnitude = cs_mag star,
                   ps_radius = radius,
                   ps_name = cs_name star \<rparr>
           in bindE (projectStars ext observer options center scale rest) (\<lambda>more.
              Inr (projectedStar # more)))))"

record BuildState =
  st_layers :: "(LayerType \<times> RenderLayer) list"
  labelCollision :: LabelCollisionDetector

text \<open>Topographic contour lines.\<close>

definition topoStep :: "RenderOptions \<Rightarrow> real \<Rightarrow> real \<Rightarrow> BuildState \<Rightarrow> BuildState" where
  "topoStep options center scale st =
     (if showTopoContours options then
        (let altitudeSteps = [15, 30, 45, 60, 75];
             topoPrimitives =
               map (\<lambda>alt. let r = (90 - alt) / 90 * scale
                          in createCircle (Fin center) (Fin center) (Fin r) (Some alt)) altitudeSteps
         in st \<lparr> st_layers := layers_set TopoContours topoPrimitives (st_layers st) \<rparr>)
      else st)"

text \<open>The star layer: stars in the degree ring area are filtered out.\<close>

definition filterStars :: "real \<Rightarrow> real \<Rightarrow> ProjectedStar list \<Rightarrow> ProjectedStar list" where
  "filterStars center degreeRingInnerRadius projectedStars =
     filter (\<lambda>star. distanceFromCenter center (ps_x star) (ps_y star) < degreeRingInnerRadius)
       projectedStars"

definition starPrimitives :: "ProjectedStar list \<Rightarrow> RenderPrimitive list" where
  "starPrimitives filteredStars =
     map (\<lambda>star. createCircle (Fin (ps_x star)) (Fin (ps_y star)) (ps_radius star)
                    (Some (ps_hip star))) filteredStars"

definition starsStep :: "ProjectedStar list \<Rightarrow> BuildState \<Rightarrow> BuildState" where
  "starsStep filteredStars st =
     st \<lparr> st_layers := layers_set Stars (starPrimitives filteredStars) (st_layers st) \<rparr>"

text \<open>Glow or spikes for bright stars.\<close>

definition starEffect :: "StarStyle \<Rightarrow> ProjectedStar \<Rightarrow> RenderPrimitive list" where
  "starEffect style star =
     (let brightnessFactor = max (1 / 2) ((4 - ps_magnitude star) / 3)
      in if style = Glow then
           (let glowRadius = nmul (ps_radius star) (Fin (2 + brightnessFactor * (5 / 2)))
            in [createCircle (Fin (ps_x star)) (Fin (ps_y star)) glowRadius (Some (ps_hip star))])
         else
           (let spikeLength = nmul (ps_radius star) (Fin (2 + brightnessFactor * 2));
                numSpikes = (if ps_magnitude star < 3 / 2 then 6 else 4 :: nat);
                spikes =
                  map (\<lambda>i. let angle = (real i * pi * 2) / real numSpikes + pi / 4
                           in createLine
                                (nsub (Fin (ps_x star)) (nmul (Fin (cos angle)) spikeLength))
                                (nsub (Fin (ps_y star)) (nmul (Fin (sin angle)) spikeLength))
                                (nadd (Fin (ps_x star)) (nmul (Fin (cos angle)) spikeLength))
                                (nadd (Fin (ps_y star)) (nmul (Fin (sin angle)) spikeLength)))
                      [0..<numSpikes];
                smallGlow = nmul (ps_radius star) (Fin (3 / 2))
            in spikes
               @ [createCircle (Fin (ps_x star)) (Fin (ps_y star)) smallGlow (Some (ps_hip star))]))"

definition starGlowStep :: "RenderOptions \<Rightarrow> ProjectedStar list \<Rightarrow> BuildState \<Rightarrow> BuildState" where
  "starGlowStep options filteredStars st =
     (if starStyle options = Glow \<or> starStyle options = Spikes then
        (let brightStarsForEffect = filter (\<lambda>s. ps_magnitude s < 7 / 2) filteredStars;
             effectPrimitives = concat (map (starEffect (starStyle options)) brightStarsForEffect)
         in if length effectPrimitives > 0
            then st \<lparr> st_layers := layers_set StarGlow effectPrimitives (st_layers st) \<rparr>
            else st)
      else st)"

text \<open>
  Constellation lines. \<open>segmentLoop\<close> is the loop
  \<^verbatim>\<open>for (let i = 0; i < lineString.length - 1; i++)\<close> over the consecutive vertex pairs
  of one polyline.
\<close>

fun segmentLoop ::
  "('t, 'o) Externals \<Rightarrow> Observer \<Rightarrow> real \<Rightarrow> real \<Rightarrow> real \<Rightarrow> RaDec list
     \<Rightarrow> error + RenderPrimitive list" where
  "segmentLoop ext observer center scale degreeRingInnerRadius (point1 # point2 # rest) =
     bindE (raDecToAltAz ext (rd_ra point1) (rd_dec point1) observer) (\<lambda>coord1.
     bindE (raDecToAltAz ext (rd_ra point2) (rd_dec point2) observer) (\<lambda>coord2.
     let pushed =
       (if altitude coord1 > 0 \<and> altitude coord2 > 0 then
          (let proj1 = projectAzimuthalEquidistant (SNum (altitude coord1)) (SNum (azimuth coord1))
                         DEFAULT_PROJECTION_CONFIG;
               proj2 = projectAzimuthalEquidistant (SNum (altitude coord2)) (SNum (azimuth coord2))
                         DEFAULT_PROJECTION_CONFIG;
               x1 = center + val (p_x proj1) * scale;
               y1 = center + val (p_y proj1) * scale;
               x2 = center + val (p_x proj2) * scale;
               y2 = center + val (p_y proj2) * scale;
               dist1 = sqrt ((x1 - center)\<^sup>2 + (y1 - center)\<^sup>2);
               dist2 = sqrt ((x2 - center)\<^sup>2 + (y2 - center)\<^sup>2)
           in if dist1 < degreeRingInnerRadius \<and> dist2 < degreeRingInnerRadius
              then [createLine (Fin x1) (Fin y1) (Fin x2) (Fin y2)]
              else [])
        else [])
     in bindE (segmentLoop ext observer center scale degreeRingInnerRadius (point2 # rest))
          (\<lambda>more. Inr (pushed @ more))))"
| "segmentLoop ext observer center scale degreeRingInnerRadius _ = Inr []"

definition constellationLinesLoop ::
  "('t, 'o) Externals \<Rightarrow> Observer \<Rightarrow> real \<Rightarrow> real \<Rightarrow> real \<Rightarrow> error + RenderPrimitive list" where
  "constellationLinesLoop ext observer center scale degreeRingInnerRadius =
     concatMapE (\<lambda>constellation.
         let lineStrings = cn_lines constellation
         in if length lineStrings > 0
            then concatMapE (segmentLoop ext observer center scale degreeRingInnerRadius) lineStrings
            else Inr [])
       (constellationData ext)"

definition constellationsStep ::
  "('t, 'o) Externals \<Rightarrow> Observer \<Rightarrow> RenderOptions \<Rightarrow> real \<Rightarrow> real \<Rightarrow> real \<Rightarrow> BuildState
     \<Rightarrow> error + BuildState" where
  "constellationsStep ext observer options center scale degreeRingInnerRadius st =
     (if showConstellations options then
        bindE (constellationLinesLoop ext observer center scale degreeRingInnerRadius)
          (\<lambda>constellationLines.
        Inr (if length constellationLines > 0
             then st \<lparr> st_layers := layers_set Constellations constellationLines (st_layers st) \<rparr>
             else st))
      else Inr st)"

text \<open>Constellation names, placed with collision detection.\<close>

record ConstellationLabel =
  cl_name :: jsstring
  cl_x :: real
  cl_y :: real
  pointCount :: nat

definition visiblePointsOf ::
  "('t, 'o) Externals \<Rightarrow> Observer \<Rightarrow> real \<Rightarrow> real \<Rightarrow> RaDec list list \<Rightarrow> error + real Point2D list" where
  "visiblePointsOf ext observer center scale lineStrings =
     concatMapE (\<lambda>lineString.
         concatMapE (\<lambda>point.
             bindE (raDecToAltAz ext (rd_ra point) (rd_dec point) observer) (\<lambda>coord.
             Inr (if altitude coord > 0 then
                    (let proj = projectAzimuthalEquidistant (SNum (altitude coord)) (SNum (azimuth coord))
                                  DEFAULT_PROJECTION_CONFIG
                     in [\<lparr> p_x = center + val (p_x proj) * scale, p_y = center + val (p_y proj) * scale \<rparr>])
                  else [])))
           lineString)
       lineStrings"

definition constellationLabelOf ::
  "real \<Rightarrow> real \<Rightarrow> jsstring \<Rightarrow> real Point2D list \<Rightarrow> ConstellationLabel list" where
  "constellationLabelOf center degreeRingInnerRadius name visiblePoints =
     (if length visiblePoints \<ge> 2 then
        (let avgX = foldl (\<lambda>sum p. sum + p_x p) 0 visiblePoints / real (length visiblePoints);
             avgY = foldl (\<lambda>sum p. sum + p_y p) 0 visiblePoints / real (length visiblePoints);
             distFromCenter = sqrt ((avgX - center)\<^sup>2 + (avgY - center)\<^sup>2)
         in if distFromCenter < degreeRingInnerRadius * (85 / 100)
            then [\<lparr> cl_name = name, cl_x = avgX, cl_y = avgY - 15,
                    pointCount = length visiblePoints \<rparr>]
            else [])
      else [])"

definition constellationLabels ::
  "('t, 'o) Externals \<Rightarrow> Observer \<Rightarrow> real \<Rightarrow> real \<Rightarrow> real \<Rightarrow> error + ConstellationLabel list" where
  "constellationLabels ext observer center scale degreeRingInnerRadius =
     concatMapE (\<lambda>constellation.
         let lineStrings = cn_lines constellation
         in if length lineStrings > 0 then
              bindE (visiblePointsOf ext observer center scale lineStrings) (\<lambda>visiblePoints.
              Inr (constellationLabelOf center degreeRingInnerRadius (cn_name constellation)
                     visiblePoints))
            else Inr [])
       (constellationData ext)"

fun placeConstellationLabels ::
  "LabelCollisionDetector \<Rightarrow> ConstellationLabel list
     \<Rightarrow> RenderPrimitive list \<times> LabelCollisionDetector" where
  "placeConstellationLabels det [] = ([], det)"
| "placeConstellationLabels det (label # rest) =
     (let (ok, det1) = tryPlace det (Fin (cl_x label)) (Fin (cl_y label)) (cl_name label) AMiddle 11;
          pushed = (if ok then [createText (Fin (cl_x label)) (Fin (cl_y label)) (cl_name label)
                                  AMiddle BMiddle]
                    else []);
          (more, det2) = placeConstellationLabels det1 rest
      in (pushed @ more, det2))"

text \<open>
  \<^verbatim>\<open>Array.prototype.sort\<close> is stable; \<open>sort_key\<close> is a stable insertion sort. Sorting by
  \<^verbatim>\<open>b.pointCount - a.pointCount\<close> sorts by descending point count.
\<close>

definition constellationNamesStep ::
  "('t, 'o) Externals \<Rightarrow> Observer \<Rightarrow> RenderOptions \<Rightarrow> real \<Rightarrow> real \<Rightarrow> real \<Rightarrow> BuildState
     \<Rightarrow> error + BuildState" where
  "constellationNamesStep ext observer options center scale degreeRingInnerRadius st =
     (if showConstellationNames options then
        bindE (constellationLabels ext observer center scale degreeRingInnerRadius) (\<lambda>labels.
        let sorted_labels = sort_key (\<lambda>l. - int (pointCount l)) labels;
            (constellationNamePrimitives, det) =
              placeConstellationLabels (labelCollision st) sorted_labels;
            st1 = st \<lparr> labelCollision := det \<rparr>
        in Inr (if length constellationNamePrimitives > 0
                then st1 \<lparr> st_layers :=
                       layers_set ConstellationNames constellationNamePrimitives (st_layers st1) \<rparr>
                else st1))
      else Inr st)"

text \<open>Star names.\<close>

definition brightStars :: "real \<Rightarrow> real \<Rightarrow> ProjectedStar list \<Rightarrow> ProjectedStar list" where
  "brightStars center degreeRingInnerRadius projectedStars =
     sort_key ps_magnitude
       (filter (\<lambda>s. if ps_magnitude s > 5 / 2 \<or> ps_name s = None \<or> ps_name s = Some []
                     then False
                     else distanceFromCenter center (ps_x s) (ps_y s) < degreeRingInnerRadius)
          projectedStars)"

fun placeStarNames ::
  "LabelCollisionDetector \<Rightarrow> ProjectedStar list \<Rightarrow> RenderPrimitive list \<times> LabelCollisionDetector" where
  "placeStarNames det [] = ([], det)"
| "placeStarNames det (star # rest) =
     (let labelX = nadd (nadd (Fin (ps_x star)) (ps_radius star)) (Fin 8);
          labelY = nsub (nsub (Fin (ps_y star)) (ps_radius star)) (Fin 2);
          labelText = (case ps_name star of Some n \<Rightarrow> n | None \<Rightarrow> []);
          (ok, det1) = tryPlace det labelX labelY labelText AStart 9;
          pushed = (if ok then [createText labelX labelY labelText AStart BMiddle] else []);
          (more, det2) = placeStarNames det1 rest
      in (pushed @ more, det2))"

definition starNamesStep ::
  "RenderOptions \<Rightarrow> real \<Rightarrow> real \<Rightarrow> ProjectedStar list \<Rightarrow> BuildState \<Rightarrow> BuildState" where
  "starNamesStep options center degreeRingInnerRadius projectedStars st =
     (if showStarNames options then
        (let (starNamePrimitives, det) =
               placeStarNames (labelCollision st)
                 (brightStars center degreeRingInnerRadius projectedStars);
             st1 = st \<lparr> labelCollision := det \<rparr>
         in if length starNamePrimitives > 0
            then st1 \<lparr> st_layers := layers_set StarNames starNamePrimitives (st_layers st1) \<rparr>
            else st1)
      else st)"

text \<open>Planets.\<close>

fun placePlanets ::
  "real \<Rightarrow> real \<Rightarrow> real \<Rightarrow> LabelCollisionDetector \<Rightarrow> PlanetPosition list
     \<Rightarrow> RenderPrimitive list \<times> LabelCollisionDetector" where
  "placePlanets center scale degreeRingInnerRadius det [] = ([], det)"
| "placePlanets center scale degreeRingInnerRadius det (planet # rest) =
     (let projected = projectAzimuthalEquidistant (SNum (altitude planet)) (SNum (azimuth planet))
                        DEFAULT_PROJECTION_CONFIG;
          planetX = center + val (p_x projected) * scale;
          planetY = center + val (p_y projected) * scale
      in if distanceFromCenter center planetX planetY \<ge> degreeRingInnerRadius
         then placePlanets center scale degreeRingInnerRadius det rest
         else
           (let labelX = planetX + 5;
                labelY = planetY - 5;
                (ok, det1) = tryPlace det (Fin labelX) (Fin labelY) (pl_name planet) AStart 9;
                pushed = createCircle (Fin planetX) (Fin planetY) (Fin 3) (Some 0)
                         # (if ok then [createText (Fin labelX) (Fin labelY) (pl_name planet)
                                          AStart BMiddle]
                            else []);
                (more, det2) = placePlanets center scale degreeRingInnerRadius det1 rest
            in (pushed @ more, det2)))"

definition planetsStep ::
  "('t, 'o) Externals \<Rightarrow> Observer \<Rightarrow> RenderOptions \<Rightarrow> real \<Rightarrow> real \<Rightarrow> real \<Rightarrow> BuildState
     \<Rightarrow> error + BuildState" where
  "planetsStep ext observer options center scale degreeRingInnerRadius st =
     (if showPlanets options then
        bindE (getPlanetPositions ext observer) (\<lambda>planetPositions.
        let (planetPrimitives, det) =
              placePlanets center scale degreeRingInnerRadius (labelCollision st) planetPositions;
            st1 = st \<lparr> labelCollision := det \<rparr>
        in Inr (if length planetPrimitives > 0
                then st1 \<lparr> st_layers := layers_set Planets planetPrimitives (st_layers st1) \<rparr>
                else st1))
      else Inr st)"

text \<open>Horizon.\<close>

definition horizonStep :: "RenderOptions \<Rightarrow> real \<Rightarrow> real \<Rightarrow> BuildState \<Rightarrow> BuildState" where
  "horizonStep options center scale st =
     (if showHorizon options then
        (let horizonCircle = generateAltitudeCircle (SNum 0) 72 DEFAULT_PROJECTION_CONFIG;
             scaledHorizon = map (\<lambda>p. \<lparr> p_x = center + val (p_x p) * scale,
                                         p_y = center + val (p_y p) * scale \<rparr>) horizonCircle
         in st \<lparr> st_layers := layers_set HorizonLayer [createPath scaledHorizon True] (st_layers st) \<rparr>)
      else st)"

text \<open>
  Grid. \<open>gridPoints\<close> is the inner sampling loop (a sample is kept when its altitude is
  above -5 degrees, and drawn at an altitude of at least 0.5); \<open>gridSegments\<close> joins
  consecutive samples that are closer than the threshold.
\<close>

definition gridPoints ::
  "('t, 'o) Externals \<Rightarrow> Observer \<Rightarrow> real \<Rightarrow> real \<Rightarrow> (real \<times> real) list \<Rightarrow> error + real Point2D list" where
  "gridPoints ext observer center scale raDecs =
     concatMapE (\<lambda>(ra, decl).
         bindE (raDecToAltAz ext ra decl observer) (\<lambda>coord.
         Inr (if altitude coord > - 5 then
                (let projected = projectAzimuthalEquidistant (SNum (max (altitude coord) (1 / 2)))
                                   (SNum (azimuth coord)) DEFAULT_PROJECTION_CONFIG
                 in [\<lparr> p_x = center + val (p_x projected) * scale,
                       p_y = center + val (p_y projected) * scale \<rparr>])
              else [])))
       raDecs"

fun gridSegments :: "real \<Rightarrow> real Point2D list \<Rightarrow> RenderPrimitive list" where
  "gridSegments threshold (a # b # rest) =
     (let dx = p_x b - p_x a;
          dy = p_y b - p_y a;
          dist = sqrt (dx * dx + dy * dy)
      in (if dist < threshold
          then [createLine (Fin (p_x a)) (Fin (p_y a)) (Fin (p_x b)) (Fin (p_y b))]
          else [])
         @ gridSegments threshold (b # rest))"
| "gridSegments threshold _ = []"

definition equatorialGrid ::
  "('t, 'o) Externals \<Rightarrow> Observer \<Rightarrow> real \<Rightarrow> real \<Rightarrow> real \<Rightarrow> real
     \<Rightarrow> error + RenderPrimitive list" where
  "equatorialGrid ext observer center scale poleAlt poleAz =
     (let poleProjected = projectAzimuthalEquidistant (SNum poleAlt) (SNum poleAz) DEFAULT_PROJECTION_CONFIG;
          poleX = center + val (p_x poleProjected) * scale;
          poleY = center + val (p_y poleProjected) * scale;
          declinationSteps = [75, 60, 45, 30, 15, 0, - 15, - 30, - 45, - 60];
          numPoints = 72
      in bindE (concatMapE (\<lambda>decl.
                    bindE (gridPoints ext observer center scale
                             (map (\<lambda>i. ((real i / real numPoints) * 360, decl)) [0..<numPoints + 1]))
                      (\<lambda>points. Inr (gridSegments (scale * (3 / 10)) points)))
                  declinationSteps) (\<lambda>declinationCircles.
         bindE (concatMapE (\<lambda>ra.
                    bindE (gridPoints ext observer center scale
                             (map (\<lambda>k. (ra, 89 - 3 * real k)) [0..<60]))
                      (\<lambda>raPoints. Inr (gridSegments (scale * (2 / 10)) raPoints)))
                  (map (\<lambda>k. 30 * real k) [0..<12])) (\<lambda>raLines.
         let crossSize = scale * (2 / 100)
         in Inr (declinationCircles @ raLines
                 @ [createLine (Fin (poleX - crossSize)) (Fin poleY) (Fin (poleX + crossSize)) (Fin poleY),
                    createLine (Fin poleX) (Fin (poleY - crossSize)) (Fin poleX) (Fin (poleY + crossSize))]))))"

definition altAzGrid :: "real \<Rightarrow> real \<Rightarrow> RenderPrimitive list" where
  "altAzGrid center scale =
     map (\<lambda>alt. let r = (90 - alt) / 90 * scale
                in createCircle (Fin center) (Fin center) (Fin r) None) [15, 30, 45, 60, 75]
     @ map (\<lambda>k. let az = 30 * real k;
                    projected = projectAzimuthalEquidistant (SNum 0) (SNum az) DEFAULT_PROJECTION_CONFIG
                in createLine (Fin center) (Fin center)
                     (Fin (center + val (p_x projected) * scale)) (Fin (center + val (p_y projected) * scale)))
         [0..<12]"

definition gridStep ::
  "('t, 'o) Externals \<Rightarrow> Observer \<Rightarrow> RenderOptions \<Rightarrow> real \<Rightarrow> real \<Rightarrow> BuildState
     \<Rightarrow> error + BuildState" where
  "gridStep ext observer options center scale st =
     (if showGrid options then
        bindE (raDecToAltAz ext 0 90 observer) (\<lambda>pole.
        bindE (if altitude pole > 0
               then equatorialGrid ext observer center scale (altitude pole) (azimuth pole)
               else Inr (altAzGrid center scale)) (\<lambda>gridPrimitives.
        Inr (st \<lparr> st_layers := layers_set Grid gridPrimitives (st_layers st) \<rparr>)))
      else Inr st)"

text \<open>Cardinal markers: placed without a collision test.\<close>

definition cardinals :: "(jsstring \<times> real) list" where
  "cardinals = [(ustr ''N'', 0), (ustr ''E'', 90), (ustr ''S'', 180), (ustr ''W'', 270)]"

fun placeCardinals ::
  "real \<Rightarrow> real \<Rightarrow> LabelCollisionDetector \<Rightarrow> (jsstring \<times> real) list
     \<Rightarrow> RenderPrimitive list \<times> LabelCollisionDetector" where
  "placeCardinals center scale det [] = ([], det)"
| "placeCardinals center scale det ((label, az) # rest) =
     (let projected = projectAzimuthalEquidistant (SNum (- 5)) (SNum az) DEFAULT_PROJECTION_CONFIG;
          x = center + val (p_x projected) * scale;
          y = center + val (p_y projected) * scale;
          det1 = place det (Fin x) (Fin y) label AMiddle 14;
          (more, det2) = placeCardinals center scale det1 rest
      in (createText (Fin x) (Fin y) label AMiddle BMiddle # more, det2))"

definition cardinalsStep :: "RenderOptions \<Rightarrow> real \<Rightarrow> real \<Rightarrow> BuildState \<Rightarrow> BuildState" where
  "cardinalsStep options center scale st =
     (if showCardinals options then
        (let (cardinalPrimitives, det) = placeCardinals center scale (labelCollision st) cardinals
         in st \<lparr> labelCollision := det,
                st_layers := layers_set Cardinals cardinalPrimitives (st_layers st) \<rparr>)
      else st)"

text \<open>Degree ring. \<open>decimal\<close> is the decimal numeral of a natural number.\<close>

function decimal :: "nat \<Rightarrow> jsstring" where
  "decimal n = (if n < 10 then [of_nat (48 + n)] else decimal (n div 10) @ [of_nat (48 + n mod 10)])"
  by pat_completeness auto
termination
  by (relation "measure id") auto

fun degreeRingLoop ::
  "real \<Rightarrow> real \<Rightarrow> LabelCollisionDetector \<Rightarrow> nat list
     \<Rightarrow> RenderPrimitive list \<times> LabelCollisionDetector" where
  "degreeRingLoop center scale det [] = ([], det)"
| "degreeRingLoop center scale det (deg # rest) =
     (let ringOuterRadius = scale * 1;
          ringInnerRadius = scale * (96 / 100);
          innerBezelRadius = scale * (94 / 100);
          textRadius = scale * (88 / 100);
          cardinalDegrees = [0, 90, 180, 270];
          angle = (real deg - 90) * (pi / 180);
          cs = cos angle;
          sn = sin angle;
          isMajor = (deg mod 30 = 0);
          isMedium = (deg mod 10 = 0);
          isCardinal = (deg \<in> set cardinalDegrees);
          tickInnerRadius = (if isMajor then innerBezelRadius
                             else if isMedium then ringInnerRadius * (99 / 100)
                             else ringInnerRadius);
          tick = createLine (Fin (center + cs * tickInnerRadius)) (Fin (center + sn * tickInnerRadius))
                   (Fin (center + cs * ringOuterRadius)) (Fin (center + sn * ringOuterRadius))
      in if isMajor \<and> \<not> isCardinal then
           (let labelX = center + cs * textRadius;
                labelY = center + sn * textRadius;
                labelText = decimal deg @ [degreeSign];
                (ok, det1) = tryPlace det (Fin labelX) (Fin labelY) labelText AMiddle 8;
                pushed = tick # (if ok then [createText (Fin labelX) (Fin labelY) labelText
                                               AMiddle BMiddle]
                                 else []);
                (more, det2) = degreeRingLoop center scale det1 rest
            in (pushed @ more, det2))
         else
           (let (more, det2) = degreeRingLoop center scale det rest
            in (tick # more, det2)))"

definition degreeRingStep :: "RenderOptions \<Rightarrow> real \<Rightarrow> real \<Rightarrow> BuildState \<Rightarrow> BuildState" where
  "degreeRingStep options center scale st =
     (if showDegreeRing options then
        (let outerBezelRadius = scale * (102 / 100);
             ringOuterRadius = scale * 1;
             ringInnerRadius = scale * (96 / 100);
             innerBezelRadius = scale * (94 / 100);
             (ticks, det) = degreeRingLoop center scale (labelCollision st) (map (\<lambda>k. 2 * k) [0..<180]);
             degreeRingPrimitives =
               ticks @ [createCircle (Fin center) (Fin center) (Fin outerBezelRadius) None,
                        createCircle (Fin center) (Fin center) (Fin ringOuterRadius) None,
                        createCircle (Fin center) (Fin center) (Fin ringInnerRadius) None,
                        createCircle (Fin center) (Fin center) (Fin innerBezelRadius) None]
         in st \<lparr> labelCollision := det,
                st_layers := layers_set DegreeRing degreeRingPrimitives (st_layers st) \<rparr>)
      else st)"

text \<open>Metadata layer (coordinates and date).\<close>

definition metadataStep ::
  "('t, 'o) Externals \<Rightarrow> Observer \<Rightarrow> RenderOptions \<Rightarrow> real \<Rightarrow> real \<Rightarrow> BuildState
     \<Rightarrow> error + BuildState" where
  "metadataStep ext observer options center viewportSize st =
     (let coords = (if showMapCoordinates options
                    then [createText (Fin center) (Fin (viewportSize * (94 / 100)))
                            (formatLocation ext observer) AMiddle BMiddle]
                    else [])
      in bindE (if showMapDate options
                then bindE (formatDateTime ext observer) (\<lambda>s.
                     Inr [createText (Fin center) (Fin (viewportSize * (97 / 100))) s AMiddle BMiddle])
                else Inr []) (\<lambda>dateText.
         let metadataPrimitives = coords @ dateText
         in Inr (if length metadataPrimitives > 0
                 then st \<lparr> st_layers := layers_set Metadata metadataPrimitives (st_layers st) \<rparr>
                 else st)))"

text \<open>The builder. It runs the blocks in the order of the source.\<close>

definition buildState ::
  "('t, 'o) Externals \<Rightarrow> CatalogStar list \<Rightarrow> Observer \<Rightarrow> RenderOptions \<Rightarrow> real
     \<Rightarrow> error + (ProjectedStar list \<times> BuildState)" where
  "buildState ext stars observer options viewportSize =
     (let st0 = \<lparr> st_layers = [], labelCollision = \<lparr> placedLabels = [], padding = 8 \<rparr> \<rparr>;
          scale = viewportSize / 2 * (91 / 100);
          center = viewportSize / 2
      in bindE (projectStars ext observer options center scale stars) (\<lambda>projectedStars.
         let degreeRingInnerRadius = scale * (96 / 100);
             st1 = topoStep options center scale st0;
             filteredStars = filterStars center degreeRingInnerRadius projectedStars;
             st2 = starsStep filteredStars st1;
             st3 = starGlowStep options filteredStars st2
         in bindE (constellationsStep ext observer options center scale degreeRingInnerRadius st3)
              (\<lambda>st4.
            bindE (constellationNamesStep ext observer options center scale degreeRingInnerRadius st4)
              (\<lambda>st5.
            let st6 = starNamesStep options center degreeRingInnerRadius projectedStars st5
            in bindE (planetsStep ext observer options center scale degreeRingInnerRadius st6)
                 (\<lambda>st7.
               let st8 = horizonStep options center scale st7
               in bindE (gridStep ext observer options center scale st8) (\<lambda>st9.
                  let st10 = cardinalsStep options center scale st9;
                      st11 = degreeRingStep options center scale st10
                  in bindE (metadataStep ext observer options center viewportSize st11) (\<lambda>st12.
                     Inr (projectedStars, st12))))))))"

definition buildStarMapGeometry ::
  "('t, 'o) Externals \<Rightarrow> CatalogStar list \<Rightarrow> Observer \<Rightarrow> RenderOptions \<Rightarrow> real
     \<Rightarrow> error + StarMapGeometry" where
  "buildStarMapGeometry ext stars observer options viewportSize =
     bindE (buildState ext stars observer options viewportSize) (\<lambda>(projectedStars, st).
     let scale = viewportSize / 2 * (91 / 100);
         center = viewportSize / 2
     in Inr \<lparr> layers = st_layers st,
              bounds = \<lparr> b_width = viewportSize, b_height = viewportSize,
                         centerX = center, centerY = center, b_radius = scale \<rparr>,
              metadata = \<lparr> starCount = length stars,
                           visibleStarCount = length projectedStars,
                           timestamp = date observer,
                           location = formatLocation ext observer \<rparr> \<rparr>)"

text \<open>\<^verbatim>\<open>getProjectedStars\<close>: the same loop, in normalized coordinates.\<close>

definition getProjectedStars ::
  "('t, 'o) Externals \<Rightarrow> CatalogStar list \<Rightarrow> Observer \<Rightarrow> RenderOptions
     \<Rightarrow> error + ProjectedStar list" where
  "getProjectedStars ext stars observer options = projectStars ext observer options 0 1 stars"

section \<open>Notions of the specification\<close>

text \<open>
  The definitions of this section are not translations of source functions: they state,
  in the words of the specification, what the theorems below compare the builder with.
\<close>

text \<open>The visibility test: magnitude within the limit, and computed altitude above 0.\<close>

definition spec_visible ::
  "('t, 'o) Externals \<Rightarrow> Observer \<Rightarrow> RenderOptions \<Rightarrow> CatalogStar \<Rightarrow> bool" where
  "spec_visible ext observer options star =
     (cs_mag star \<le> magnitudeLimit options \<and>
      (case raDecToAltAz ext (cs_ra star) (cs_dec star) observer of
         Inl _ \<Rightarrow> False
       | Inr coord \<Rightarrow> altitude coord > 0))"

text \<open>The consecutive vertex pairs of every polyline of every constellation, in order.\<close>

definition spec_vertexPairs :: "Constellation list \<Rightarrow> (RaDec \<times> RaDec) list" where
  "spec_vertexPairs cs =
     concat (map (\<lambda>c. concat (map (\<lambda>ls. zip ls (tl ls)) (cn_lines c))) cs)"

text \<open>Where a point of the sky is drawn in the viewport.\<close>

definition spec_plot :: "real \<Rightarrow> real \<Rightarrow> 'a HorizontalCoordinates_scheme \<Rightarrow> real \<times> real" where
  "spec_plot center scale coord =
     (let proj = projectAzimuthalEquidistant (SNum (altitude coord)) (SNum (azimuth coord))
                   DEFAULT_PROJECTION_CONFIG
      in (center + val (p_x proj) * scale, center + val (p_y proj) * scale))"

text \<open>
  The segment of a vertex pair: the whole line between the two projected end points when
  both are above the horizon and strictly inside the ring-exclusion radius, and nothing
  otherwise.
\<close>

definition spec_segment ::
  "('t, 'o) Externals \<Rightarrow> Observer \<Rightarrow> real \<Rightarrow> real \<Rightarrow> RaDec \<times> RaDec \<Rightarrow> RenderPrimitive option" where
  "spec_segment ext observer center scale pair =
     (case (raDecToAltAz ext (rd_ra (fst pair)) (rd_dec (fst pair)) observer,
            raDecToAltAz ext (rd_ra (snd pair)) (rd_dec (snd pair)) observer) of
        (Inr coord1, Inr coord2) \<Rightarrow>
          (let (x1, y1) = spec_plot center scale coord1;
               (x2, y2) = spec_plot center scale coord2
           in if altitude coord1 > 0 \<and> altitude coord2 > 0
                 \<and> distanceFromCenter center x1 y1 < scale * (96 / 100)
                 \<and> distanceFromCenter center x2 y2 < scale * (96 / 100)
              then Some (createLine (Fin x1) (Fin y1) (Fin x2) (Fin y2))
              else None)
      | _ \<Rightarrow> None)"

text \<open>
  The estimated bounding boxes of the text primitives of a layer, for the font size of
  the layer's label class and the builder's padding of 8.
\<close>

fun labelBoxes :: "real \<Rightarrow> RenderPrimitive list \<Rightarrow> BoundingBox list" where
  "labelBoxes fontSize [] = []"
| "labelBoxes fontSize (Text x y txt anchor baseline # rest) =
     estimateBoundingBox \<lparr> placedLabels = [], padding = 8 \<rparr> x y txt anchor fontSize
     # labelBoxes fontSize rest"
| "labelBoxes fontSize (_ # rest) = labelBoxes fontSize rest"

text \<open>The marker and the label the builder draws for a planet.\<close>

definition spec_planetMarker :: "real \<Rightarrow> real \<Rightarrow> PlanetPosition \<Rightarrow> RenderPrimitive" where
  "spec_planetMarker center scale planet =
     (let (planetX, planetY) = spec_plot center scale planet
      in createCircle (Fin planetX) (Fin planetY) (Fin 3) (Some 0))"

definition spec_planetLabel :: "real \<Rightarrow> real \<Rightarrow> PlanetPosition \<Rightarrow> RenderPrimitive" where
  "spec_planetLabel center scale planet =
     (let (planetX, planetY) = spec_plot center scale planet
      in createText (Fin (planetX + 5)) (Fin (planetY - 5)) (pl_name planet) AStart BMiddle)"

text \<open>
  The position that \<^verbatim>\<open>getPlanetPositions\<close> reports for an entry of its body list: none when
  the provider throws for the body, in \<^verbatim>\<open>Equator\<close> or in \<^verbatim>\<open>Horizon\<close>, and none when it
  puts the body at or below the horizon.
\<close>

definition spec_bodyPosition ::
  "('t, 'o) Externals \<Rightarrow> 't \<Rightarrow> 'o \<Rightarrow> Body \<times> jsstring \<times> real \<Rightarrow> PlanetPosition option" where
  "spec_bodyPosition ext time astroObserver entry =
     (case Equator ext (fst entry) time astroObserver of
        Inl err \<Rightarrow> None
      | Inr equ \<Rightarrow>
          (case Horizon ext time astroObserver (eq_ra equ) (eq_dec equ) of
             Inl err \<Rightarrow> None
           | Inr hor \<Rightarrow>
               if 0 < altitude hor
               then Some \<lparr> altitude = altitude hor, azimuth = azimuth hor,
                           pl_name = fst (snd entry), pl_magnitude = snd (snd entry) \<rparr>
               else None))"

text \<open>A planet is drawn when its projected position is strictly inside the ring-exclusion radius.\<close>

definition spec_insideRing :: "real \<Rightarrow> real \<Rightarrow> PlanetPosition \<Rightarrow> bool" where
  "spec_insideRing center scale planet =
     (let (planetX, planetY) = spec_plot center scale planet
      in distanceFromCenter center planetX planetY < scale * (96 / 100))"

text \<open>The primitives of a layer of a geometry; none when the layer is absent.\<close>

definition spec_layerPrimitives :: "StarMapGeometry \<Rightarrow> LayerType \<Rightarrow> RenderPrimitive list" where
  "spec_layerPrimitives g ty = (case layers_get g ty of None \<Rightarrow> [] | Some layer \<Rightarrow> primitives layer)"

text \<open>
  What a placement loop guarantees about the detector \<open>det'\<close> and the primitives it
  returns, when it starts from the detector \<open>det\<close>: the boxes of the new text
  primitives are exactly the boxes added to the detector, none of them intersects a box
  that was placed before the loop, and no two of them intersect.
\<close>

definition placed_apart ::
  "real \<Rightarrow> LabelCollisionDetector \<Rightarrow> RenderPrimitive list \<Rightarrow> LabelCollisionDetector \<Rightarrow> bool" where
  "placed_apart fs det prims det' \<longleftrightarrow>
     padding det' = 8
   \<and> placedLabels det' = placedLabels det @ labelBoxes fs prims
   \<and> (\<forall>b\<in>set (labelBoxes fs prims). \<forall>c\<in>set (placedLabels det). \<not> intersects b c)
   \<and> sorted_wrt (\<lambda>a b. \<not> intersects a b) (labelBoxes fs prims)"

text \<open>Every layer other than the stars layer has at least one primitive.\<close>

definition nonempty_layers :: "(LayerType \<times> RenderLayer) list \<Rightarrow> bool" where
  "nonempty_layers ls \<longleftrightarrow> (\<forall>(k, l)\<in>set ls. k \<noteq> Stars \<longrightarrow> primitives l \<noteq> [])"

section \<open>Sample inputs\<close>

text \<open>
  A sample provider: it never throws for a star or a vertex, and places the point of right
  ascension \<open>ra\<close> and declination \<open>dec\<close> at azimuth \<open>ra\<close> and altitude \<open>dec\<close>. Its
  planets: Venus at altitude 30, azimuth 90; Jupiter below the horizon; Mars cannot be
  resolved (the call throws); Mercury and Saturn at altitude 10, azimuth 180.
  \<open>sampleToFixed2\<close> is \<^verbatim>\<open>toFixed(2)\<close> on a number that is not negative.
\<close>

definition sampleToFixed2 :: "real \<Rightarrow> jsstring" where
  "sampleToFixed2 r =
     (let n = nat \<lfloor>r * 100 + 1 / 2\<rfloor>
      in decimal (n div 100) @ ustr ''.''
         @ [of_nat (48 + (n mod 100) div 10), of_nat (48 + n mod 10)])"

definition sampleExternals :: "(unit, unit) Externals" where
  "sampleExternals =
     \<lparr> MakeTime = (\<lambda>d. Inr ()),
       AstroObserver = (\<lambda>lat lon el. Inr ()),
       Horizon = (\<lambda>t ob raHours decl. Inr \<lparr> altitude = decl, azimuth = raHours * 15 \<rparr>),
       Equator = (\<lambda>body t ob.
          case body of
            Venus \<Rightarrow> Inr \<lparr> eq_ra = 6, eq_dec = 30 \<rparr>
          | Jupiter \<Rightarrow> Inr \<lparr> eq_ra = 0, eq_dec = - 20 \<rparr>
          | Mars \<Rightarrow> Inl (Thrown (ustr ''Mars''))
          | _ \<Rightarrow> Inr \<lparr> eq_ra = 12, eq_dec = 10 \<rparr>),
       constellationData =
         [\<lparr> cn_name = ustr ''Tri'',
            cn_lines = [[\<lparr> rd_ra = 0, rd_dec = 60 \<rparr>, \<lparr> rd_ra = 90, rd_dec = 60 \<rparr>,
                         \<lparr> rd_ra = 180, rd_dec = - 10 \<rparr>, \<lparr> rd_ra = 180, rd_dec = 2 \<rparr>,
                         \<lparr> rd_ra = 270, rd_dec = 60 \<rparr>]] \<rparr>],
       toFixed2 = sampleToFixed2,
       isoString = (\<lambda>ms. ustr ''1970-01-01T00:00:00.000Z'') \<rparr>"

text \<open>
  A provider that validates its arguments: it throws for a latitude outside [-90, 90] and
  for an invalid date.
\<close>

definition strictExternals :: "(unit, unit) Externals" where
  "strictExternals =
     sampleExternals
       \<lparr> MakeTime := (\<lambda>d. if d = InvalidDate then Inl (Thrown (ustr ''date'')) else Inr ()),
         AstroObserver := (\<lambda>lat lon el.
            if lat < - 90 \<or> lat > 90 then Inl (Thrown (ustr ''latitude'')) else Inr ()) \<rparr>"

definition noOptions :: RenderOptions where
  "noOptions =
     \<lparr> magnitudeLimit = 6, starSizeMin = 1, starSizeMax = 2,
       showConstellations = False, showConstellationNames = False, showPlanets = False,
       showStarNames = False, showHorizon = False, showCardinals = False, showGrid = False,
       showDegreeRing = False, showTopoContours = False, showMapCoordinates = False,
       showMapDate = False, starStyle = Dots, gridStyle = GridNone, theme = Dark \<rparr>"

definition cardinalsOnly :: RenderOptions where
  "cardinalsOnly = noOptions \<lparr> showCardinals := True \<rparr>"

definition planetsOnly :: RenderOptions where
  "planetsOnly = noOptions \<lparr> showPlanets := True \<rparr>"

definition constellationsOnly :: RenderOptions where
  "constellationsOnly = noOptions \<lparr> showConstellations := True \<rparr>"

definition namesAndCardinals :: RenderOptions where
  "namesAndCardinals = noOptions \<lparr> magnitudeLimit := 2, showStarNames := True, showCardinals := True \<rparr>"

definition lowStar :: CatalogStar where
  "lowStar = \<lparr> cs_hip = 1, cs_ra = 0, cs_dec = 9 / 2, cs_mag = 2, cs_name = Some (ustr ''A'') \<rparr>"

definition sampleStars :: "CatalogStar list" where
  "sampleStars =
     [\<lparr> cs_hip = 1, cs_ra = 0, cs_dec = 45, cs_mag = 1, cs_name = None \<rparr>,
      \<lparr> cs_hip = 2, cs_ra = 10, cs_dec = 50, cs_mag = 7, cs_name = None \<rparr>,
      \<lparr> cs_hip = 3, cs_ra = 20, cs_dec = - 10, cs_mag = 2, cs_name = None \<rparr>,
      \<lparr> cs_hip = 4, cs_ra = 30, cs_dec = 0, cs_mag = 3, cs_name = None \<rparr>]"

definition greenwich :: Observer where
  "greenwich = \<lparr> latitude = 51, longitude = 0, elevation = 0, date = DateAt 0 \<rparr>"

definition badObserver :: Observer where
  "badObserver = \<lparr> latitude = 100, longitude = 200, elevation = 0, date = InvalidDate \<rparr>"

section \<open>Exceptions, layers and the steps of the builder\<close>

lemma bindE_simps [simp]: "bindE (Inr x) f = f x" "bindE (Inl e) f = Inl e"
  by (simp_all add: bindE_def)

lemma bindE_Inr_iff: "bindE m f = Inr y \<longleftrightarrow> (\<exists>x. m = Inr x \<and> f x = Inr y)"
  by (cases m) simp_all

lemma concatMapE_Inr_iff:
  "concatMapE f xs = Inr ys \<longleftrightarrow>
     (\<exists>yss. map f xs = map Inr yss \<and> ys = concat yss)"
proof (induction xs arbitrary: ys)
  case Nil
  then show ?case by auto
next
  case (Cons a as)
  show ?case
  proof
    assume "concatMapE f (a # as) = Inr ys"
    then obtain bs cs where b: "f a = Inr bs" and c: "concatMapE f as = Inr cs" and y: "ys = bs @ cs"
      by (auto simp: bindE_Inr_iff)
    from c Cons.IH obtain yss where "map f as = map Inr yss" "cs = concat yss" by blast
    then have "map f (a # as) = map Inr (bs # yss) \<and> ys = concat (bs # yss)"
      using b y by simp
    then show "\<exists>yss. map f (a # as) = map Inr yss \<and> ys = concat yss" by blast
  next
    assume "\<exists>yss. map f (a # as) = map Inr yss \<and> ys = concat yss"
    then obtain yss where m: "map f (a # as) = map Inr yss" and y: "ys = concat yss" by blast
    then obtain bs rest where yss: "yss = bs # rest" by (cases yss) auto
    with m have b: "f a = Inr bs" and r: "map f as = map Inr rest" by auto
    from r Cons.IH have "concatMapE f as = Inr (concat rest)" by blast
    then show "concatMapE f (a # as) = Inr ys" using b y yss by simp
  qed
qed

lemma layers_set_lookup:
  "map_of (layers_set ty prims ls) k =
     (if k = ty then Some \<lparr> layer_type = ty, primitives = prims, layer_visible = True \<rparr>
      else map_of ls k)"
  by (simp add: layers_set_def update_conv')

lemma topoStep_frame: "k \<noteq> TopoContours \<Longrightarrow>
   map_of (st_layers (topoStep options center scale st)) k = map_of (st_layers st) k"
  by (simp add: topoStep_def layers_set_lookup Let_def)

lemma starsStep_frame: "k \<noteq> Stars \<Longrightarrow>
   map_of (st_layers (starsStep fs st)) k = map_of (st_layers st) k"
  by (simp add: starsStep_def layers_set_lookup)

lemma starsStep_own:
   "map_of (st_layers (starsStep fs st)) Stars =
      Some \<lparr> layer_type = Stars, primitives = starPrimitives fs, layer_visible = True \<rparr>"
  by (simp add: starsStep_def layers_set_lookup)

lemma starGlowStep_frame: "k \<noteq> StarGlow \<Longrightarrow>
   map_of (st_layers (starGlowStep options fs st)) k = map_of (st_layers st) k"
  by (simp add: starGlowStep_def layers_set_lookup Let_def)

lemma constellationsStep_frame:
  "constellationsStep ext observer options center scale ring st = Inr st' \<Longrightarrow> k \<noteq> Constellations \<Longrightarrow>
   map_of (st_layers st') k = map_of (st_layers st) k"
  by (auto simp: constellationsStep_def layers_set_lookup bindE_Inr_iff split: if_splits)

lemma constellationNamesStep_frame:
  "constellationNamesStep ext observer options center scale ring st = Inr st' \<Longrightarrow> k \<noteq> ConstellationNames \<Longrightarrow>
   map_of (st_layers st') k = map_of (st_layers st) k"
  by (auto simp: constellationNamesStep_def layers_set_lookup bindE_Inr_iff Let_def split_beta split: if_splits)

lemma starNamesStep_frame: "k \<noteq> StarNames \<Longrightarrow>
   map_of (st_layers (starNamesStep options center ring ps st)) k = map_of (st_layers st) k"
  by (simp add: starNamesStep_def layers_set_lookup Let_def split_beta)

lemma planetsStep_frame:
  "planetsStep ext observer options center scale ring st = Inr st' \<Longrightarrow> k \<noteq> Planets \<Longrightarrow>
   map_of (st_layers st') k = map_of (st_layers st) k"
  by (auto simp: planetsStep_def layers_set_lookup bindE_Inr_iff Let_def split_beta split: if_splits)

lemma horizonStep_frame: "k \<noteq> HorizonLayer \<Longrightarrow>
   map_of (st_layers (horizonStep options center scale st)) k = map_of (st_layers st) k"
  by (simp add: horizonStep_def layers_set_lookup Let_def)

lemma gridStep_frame:
  "gridStep ext observer options center scale st = Inr st' \<Longrightarrow> k \<noteq> Grid \<Longrightarrow>
   map_of (st_layers st') k = map_of (st_layers st) k"
  by (auto simp: gridStep_def layers_set_lookup bindE_Inr_iff split: if_splits)

lemma cardinalsStep_frame: "k \<noteq> Cardinals \<Longrightarrow>
   map_of (st_layers (cardinalsStep options center scale st)) k = map_of (st_layers st) k"
  by (simp add: cardinalsStep_def layers_set_lookup Let_def split_beta)

lemma degreeRingStep_frame: "k \<noteq> DegreeRing \<Longrightarrow>
   map_of (st_layers (degreeRingStep options center scale st)) k = map_of (st_layers st) k"
  by (simp add: degreeRingStep_def layers_set_lookup Let_def split_beta)

lemma metadataStep_frame:
  "metadataStep ext observer options center v st = Inr st' \<Longrightarrow> k \<noteq> Metadata \<Longrightarrow>
   map_of (st_layers st') k = map_of (st_layers st) k"
  by (auto simp: metadataStep_def layers_set_lookup bindE_Inr_iff Let_def split: if_splits)

lemma buildState_InrD:
  assumes "buildState ext stars observer options v = Inr (ps, st)"
  obtains st4 st5 st7 st9 where
    "projectStars ext observer options (v / 2) (v / 2 * (91 / 100)) stars = Inr ps"
    "constellationsStep ext observer options (v / 2) (v / 2 * (91 / 100)) (v / 2 * (91 / 100) * (96 / 100))
       (starGlowStep options (filterStars (v / 2) (v / 2 * (91 / 100) * (96 / 100)) ps)
         (starsStep (filterStars (v / 2) (v / 2 * (91 / 100) * (96 / 100)) ps)
           (topoStep options (v / 2) (v / 2 * (91 / 100))
              \<lparr> st_layers = [], labelCollision = \<lparr> placedLabels = [], padding = 8 \<rparr> \<rparr>))) = Inr st4"
    "constellationNamesStep ext observer options (v / 2) (v / 2 * (91 / 100)) (v / 2 * (91 / 100) * (96 / 100)) st4 = Inr st5"
    "planetsStep ext observer options (v / 2) (v / 2 * (91 / 100)) (v / 2 * (91 / 100) * (96 / 100))
       (starNamesStep options (v / 2) (v / 2 * (91 / 100) * (96 / 100)) ps st5) = Inr st7"
    "gridStep ext observer options (v / 2) (v / 2 * (91 / 100)) (horizonStep options (v / 2) (v / 2 * (91 / 100)) st7) = Inr st9"
    "metadataStep ext observer options (v / 2) v
       (degreeRingStep options (v / 2) (v / 2 * (91 / 100)) (cardinalsStep options (v / 2) (v / 2 * (91 / 100)) st9)) = Inr st"
  using assms unfolding buildState_def Let_def bindE_Inr_iff by auto

section \<open>Numbers with a signed zero\<close>

text \<open>The operations compute the exact values.\<close>

lemma val_signed: "val (signed s v) = v"
  by (simp add: signed_def)

lemma val_ops:
  "val (sneg a) = - val a"
  "val (smul a b) = val a * val b"
  "val (sdiv a b) = val a / val b"
  "val (ssub a b) = val a - val b"
  "val (ssin a) = sin (val a)"
  "val (scos a) = cos (val a)"
  by (simp_all add: sneg_def smul_def sdiv_def ssub_def ssin_def scos_def val_signed split: snum.splits)

lemma project_default:
  "val (p_x (projectAzimuthalEquidistant (SNum alt) (SNum az) DEFAULT_PROJECTION_CONFIG))
     = ((90 - alt) / 90) * sin (az * pi / 180)"
  "val (p_y (projectAzimuthalEquidistant (SNum alt) (SNum az) DEFAULT_PROJECTION_CONFIG))
     = - (((90 - alt) / 90) * cos (az * pi / 180))"
  "visible (projectAzimuthalEquidistant (SNum alt) (SNum az) DEFAULT_PROJECTION_CONFIG) = (0 < alt)"
  by (simp_all add: projectAzimuthalEquidistant_def DEFAULT_PROJECTION_CONFIG_def Let_def val_ops)

text \<open>For a positive count the loop of \<^verbatim>\<open>generateAltitudeCircle\<close> makes that many points, at the multiples of the step.\<close>

lemma altitudeCircleLoop_samples:
  assumes "0 < n" "k \<le> n"
  shows "altitudeCircleLoop alt n config (real k * (360 / real n))
           = map (\<lambda>j. let projected = projectAzimuthalEquidistant alt (SNum (real j * (360 / real n))) config
                       in \<lparr> p_x = p_x projected, p_y = p_y projected \<rparr>) [k..<n]"
proof -
  define s where "s = 360 / real n"
  define pt where "pt = (\<lambda>az. let projected = projectAzimuthalEquidistant alt (SNum az) config
                               in \<lparr> p_x = p_x projected, p_y = p_y projected \<rparr>)"
  have unfold: "altitudeCircleLoop alt n config az
      = (if az < 360 then pt az # altitudeCircleLoop alt n config (az + s) else [])" for az
    using assms(1) by (subst altitudeCircleLoop.simps) (simp add: s_def pt_def Let_def)
  have bound: "real j * s < 360 \<longleftrightarrow> j < n" for j
    using assms(1) by (simp add: s_def field_simps)
  have nxt: "real j * s + s = real (Suc j) * s" for j
    by (simp only: of_nat_Suc distrib_right mult_1 add.commute)
  have "altitudeCircleLoop alt n config (real k * s) = map (\<lambda>j. pt (real j * s)) [k..<n]"
    using assms(2)
  proof (induction "n - k" arbitrary: k)
    case 0
    then have "\<not> k < n" by simp
    then show ?case by (subst unfold) (simp add: bound)
  next
    case (Suc d)
    then have k: "k < n" by simp
    have ih: "altitudeCircleLoop alt n config (real (Suc k) * s) = map (\<lambda>j. pt (real j * s)) [Suc k..<n]"
      using Suc.hyps(2) k by (intro Suc.hyps(1)) auto
    have "[k..<n] = k # [Suc k..<n]" using k by (simp add: upt_conv_Cons)
    then show ?case
      by (subst unfold) (simp only: bound k if_True nxt ih list.map)
  qed
  then show ?thesis by (simp only: s_def pt_def)
qed

text \<open>The horizon circle of the builder has 72 points, at the azimuths 0, 5, ..., 355.\<close>

lemma generateAltitudeCircle_72:
  "generateAltitudeCircle alt 72 config
     = map (\<lambda>j. let projected = projectAzimuthalEquidistant alt (SNum (real j * 5)) config
                 in \<lparr> p_x = p_x projected, p_y = p_y projected \<rparr>) [0..<72]"
  using altitudeCircleLoop_samples[of 72 0 alt config] by (simp add: generateAltitudeCircle_def)

section \<open>Projection round trip\<close>

lemma val_zero_cases: "val y = 0 \<Longrightarrow> y = SNum 0 \<or> y = NegZero"
  by (cases y) simp_all

lemma atan2_polar:
  assumes r: "0 < r" and a: "- pi < a" "a \<le> pi"
    and y: "val y = r * sin a" and x: "val x = r * cos a"
  shows "atan2 y x = (if a = pi \<and> y = NegZero then - pi else a)"
proof -
  have q: "val y / val x = tan a"
    using r by (simp add: tan_def x y)
  consider (mid) "- (pi / 2) < a" "a < pi / 2"
    | (top) "a = pi / 2" | (bot) "a = - (pi / 2)"
    | (left) "pi / 2 < a" "a < pi" | (rear) "a = pi" | (right) "a < - (pi / 2)"
    using a by linarith
  then show ?thesis
  proof cases
    case mid
    then have "0 < cos a" by (simp add: cos_gt_zero_pi)
    then have "0 < val x" using r by (simp add: x)
    moreover have "a \<noteq> pi" using mid pi_gt_zero by linarith
    ultimately show ?thesis using mid q by (simp add: atan2_def arctan_tan)
  next
    case top
    have v: "val x = 0" "val y = r" by (simp_all add: x y top)
    then have "y \<noteq> NegZero" using r by auto
    then show ?thesis using v r top by (simp add: atan2_def)
  next
    case bot
    have v: "val x = 0" "val y = - r" by (simp_all add: x y bot)
    then have "y \<noteq> NegZero" using r by auto
    then show ?thesis using v r bot by (simp add: atan2_def)
  next
    case left
    have c: "cos (a - pi) = - cos a" by (simp add: cos_diff)
    have "0 < cos (a - pi)" using left by (intro cos_gt_zero_pi) auto
    then have "cos a < 0" using c by linarith
    then have "r * cos a < 0" using r by (rule mult_pos_neg[rotated])
    then have neg: "val x < 0" by (simp add: x)
    have "0 < sin a" using left pi_gt_zero by (intro sin_gt_zero) auto
    then have s: "0 < val y" using r by (simp add: y)
    have "tan a = tan ((a - pi) + pi)" by simp
    also have "\<dots> = tan (a - pi)" by (rule tan_periodic_pi)
    finally have t: "arctan (tan a) = a - pi"
      using left by (simp add: arctan_tan)
    show ?thesis using neg s q t left by (simp add: atan2_def)
  next
    case rear
    have xv: "val x = - r" and yv: "val y = 0" by (simp_all add: x y rear)
    from val_zero_cases[OF yv] show ?thesis
      using xv yv r rear by (auto simp: atan2_def)
  next
    case right
    have c: "cos (a + pi) = - cos a" by (simp add: cos_add)
    have "0 < cos (a + pi)" using right a by (intro cos_gt_zero_pi) auto
    then have "cos a < 0" using c by linarith
    then have "r * cos a < 0" using r by (rule mult_pos_neg[rotated])
    then have neg: "val x < 0" by (simp add: x)
    have "sin (- a) = - sin a" by simp
    moreover have "0 < sin (- a)" using right a pi_gt_zero by (intro sin_gt_zero) auto
    ultimately have "sin a < 0" by linarith
    then have "r * sin a < 0" using r by (rule mult_pos_neg[rotated])
    then have s: "val y < 0" by (simp add: y)
    have t: "arctan (tan a) = a + pi"
    proof -
      have "tan a = tan (a + pi)" by simp
      moreover have "arctan (tan (a + pi)) = a + pi"
        using right a by (intro arctan_tan) auto
      ultimately show ?thesis by simp
    qed
    have "y \<noteq> SNum 0" using s by auto
    moreover have "a \<noteq> pi" using right pi_gt_zero by linarith
    ultimately show ?thesis using neg s q t by (simp add: atan2_def)
  qed
qed

lemma polar_norm:
  assumes r: "0 \<le> r"
  shows "sqrt ((r * sin a) * (r * sin a) + (r * cos a) * (r * cos a)) = r"
proof -
  have "(r * sin a) * (r * sin a) + (r * cos a) * (r * cos a)
          = (r * r) * (sin a * sin a + cos a * cos a)"
    by (simp only: distrib_left mult_ac)
  also have "\<dots> = r * r"
  proof -
    have "sin a * sin a + cos a * cos a = 1"
      using sin_cos_squared_add[of a] by (simp add: power2_eq_square)
    then show ?thesis by simp
  qed
  finally show ?thesis using r by simp
qed

lemma atan2_polar_full:
  assumes r: "0 < r" and a: "0 \<le> a" "a < 2 * pi"
    and y: "val y = r * sin a" and x: "val x = r * cos a"
  shows "atan2 y x = (if a < pi then a else if a = pi then (if y = NegZero then - pi else pi)
                      else a - 2 * pi)"
proof (cases "a \<le> pi")
  case True
  then show ?thesis using atan2_polar[OF r _ _ y x] a pi_gt_zero by auto
next
  case False
  have "sin (a - 2 * pi) = sin a" "cos (a - 2 * pi) = cos a"
    by (simp_all add: sin_diff cos_diff)
  then have "val y = r * sin (a - 2 * pi)" "val x = r * cos (a - 2 * pi)"
    using x y by simp_all
  from atan2_polar[OF r _ _ this] False a show ?thesis by auto
qed

text \<open>The polar form of the projected point under the default configuration.\<close>

lemma project_polar:
  assumes "val alt \<le> 90"
  shows "val (p_x (projectAzimuthalEquidistant alt az DEFAULT_PROJECTION_CONFIG))
           = ((90 - val alt) / 90) * sin (val az * pi / 180)"
    and "val (sneg (p_y (projectAzimuthalEquidistant alt az DEFAULT_PROJECTION_CONFIG)))
           = ((90 - val alt) / 90) * cos (val az * pi / 180)"
  by (simp_all add: projectAzimuthalEquidistant_def DEFAULT_PROJECTION_CONFIG_def Let_def val_ops)

text \<open>At the zenith both coordinates are zeros; the sign of the second one is the sign of the cosine.\<close>

lemma project_zenith:
  assumes "val alt = 90"
  shows "val (p_x (projectAzimuthalEquidistant alt az DEFAULT_PROJECTION_CONFIG)) = 0"
    and "sneg (p_y (projectAzimuthalEquidistant alt az DEFAULT_PROJECTION_CONFIG))
           = (if cos (val az * pi / 180) < 0 then NegZero else SNum 0)"
proof -
  have alt: "alt = SNum 90" using assms by (cases alt) simp_all
  show "val (p_x (projectAzimuthalEquidistant alt az DEFAULT_PROJECTION_CONFIG)) = 0"
    by (simp add: alt projectAzimuthalEquidistant_def DEFAULT_PROJECTION_CONFIG_def Let_def val_ops)
  show "sneg (p_y (projectAzimuthalEquidistant alt az DEFAULT_PROJECTION_CONFIG))
           = (if cos (val az * pi / 180) < 0 then NegZero else SNum 0)"
    by (simp add: alt projectAzimuthalEquidistant_def DEFAULT_PROJECTION_CONFIG_def Let_def
          ssub_def sdiv_def smul_def sneg_def scos_def signed_def)
qed

lemma cos_sign_degrees:
  assumes "0 \<le> az" "az < 360"
  shows "az < 90 \<or> 270 < az \<Longrightarrow> 0 < cos (az * pi / 180)"
    and "90 < az \<Longrightarrow> az < 270 \<Longrightarrow> cos (az * pi / 180) < 0"
proof -
  define a where "a = az * pi / 180"
  have az: "az = a * 180 / pi" using pi_gt_zero by (simp add: a_def)
  {
    assume "az < 90 \<or> 270 < az"
    then consider "az < 90" | "270 < az" by blast
    then show "0 < cos (az * pi / 180)"
    proof cases
      case 1
      then have "a < pi / 2" using pi_gt_zero by (simp add: a_def field_simps)
      moreover have "0 \<le> a" using assms pi_gt_zero by (simp add: a_def)
      ultimately show ?thesis unfolding a_def[symmetric] using pi_gt_zero
        by (intro cos_gt_zero_pi) linarith+
    next
      case 2
      then have "3 * pi / 2 < a" using pi_gt_zero by (simp add: a_def field_simps)
      moreover have "a < 2 * pi" using assms pi_gt_zero by (simp add: a_def field_simps)
      ultimately have "0 < cos (a - 2 * pi)" by (intro cos_gt_zero_pi) linarith+
      then show ?thesis unfolding a_def[symmetric] by (simp add: cos_diff)
    qed
  }
  {
    assume "90 < az" "az < 270"
    then have "pi / 2 < a" "a < 3 * pi / 2" using pi_gt_zero by (simp_all add: a_def field_simps)
    then have "0 < cos (a - pi)" by (intro cos_gt_zero_pi) linarith+
    then show "cos (az * pi / 180) < 0" unfolding a_def[symmetric] by (simp add: cos_diff)
  }
qed

lemma inverse_project:
  assumes "val alt \<le> 90" "0 \<le> val az" "val az < 360"
  shows "inv_altitude (inverseAzimuthalEquidistant
            (projectAzimuthalEquidistant alt az DEFAULT_PROJECTION_CONFIG)
            DEFAULT_PROJECTION_CONFIG) = Finite (val alt)"
    and "val alt < 90 \<Longrightarrow> inv_azimuth (inverseAzimuthalEquidistant
            (projectAzimuthalEquidistant alt az DEFAULT_PROJECTION_CONFIG)
            DEFAULT_PROJECTION_CONFIG) = val az"
    and "val alt = 90 \<Longrightarrow> inv_azimuth (inverseAzimuthalEquidistant
            (projectAzimuthalEquidistant alt az DEFAULT_PROJECTION_CONFIG)
            DEFAULT_PROJECTION_CONFIG) = (if cos (val az * pi / 180) < 0 then 180 else 0)"
proof -
  define r where "r = (90 - val alt) / 90"
  define a where "a = val az * pi / 180"
  define pr where "pr = projectAzimuthalEquidistant alt az DEFAULT_PROJECTION_CONFIG"
  have px: "val (p_x pr) = r * sin a" and py: "val (sneg (p_y pr)) = r * cos a"
    unfolding pr_def r_def a_def by (rule project_polar[OF assms(1)])+
  then have py': "val (p_y pr) = - (r * cos a)" by (simp add: val_ops)
  have r0: "0 \<le> r" using assms by (simp add: r_def)
  have nrm: "sqrt (val (p_x pr) * val (p_x pr) + val (p_y pr) * val (p_y pr)) = r"
    using polar_norm[OF r0, of a] by (simp add: px py')
  have a: "0 \<le> a" "a < 2 * pi" using assms pi_gt_zero by (simp_all add: a_def)
  show "inv_altitude (inverseAzimuthalEquidistant pr DEFAULT_PROJECTION_CONFIG) = Finite (val alt)"
    using nrm
    by (simp add: inverseAzimuthalEquidistant_def DEFAULT_PROJECTION_CONFIG_def Let_def r_def)
  {
    assume "val alt < 90"
    then have r: "0 < r" by (simp add: r_def)
    have at: "atan2 (p_x pr) (sneg (p_y pr))
        = (if a < pi then a else if a = pi then (if p_x pr = NegZero then - pi else pi)
           else a - 2 * pi)"
      by (rule atan2_polar_full[OF r a px py])
    have deg: "a * 180 / pi = val az" "(a - 2 * pi) * 180 / pi = val az - 360"
      using pi_gt_zero by (simp_all add: a_def field_simps)
    have lt: "a < pi \<longleftrightarrow> val az < 180" and eq: "a = pi \<longleftrightarrow> val az = 180"
      using pi_gt_zero by (simp_all add: a_def field_simps)
    show "inv_azimuth (inverseAzimuthalEquidistant pr DEFAULT_PROJECTION_CONFIG) = val az"
      using at deg lt eq assms
      by (auto simp: inverseAzimuthalEquidistant_def DEFAULT_PROJECTION_CONFIG_def Let_def)
  }
  {
    assume z: "val alt = 90"
    have x0: "val (p_x pr) = 0"
      and y0: "sneg (p_y pr) = (if cos (val az * pi / 180) < 0 then NegZero else SNum 0)"
      unfolding pr_def by (rule project_zenith[OF z])+
    have yv: "val (p_y pr) = 0"
      using arg_cong[OF y0, of val] by (simp add: val_ops split: if_splits)
    show "inv_azimuth (inverseAzimuthalEquidistant pr DEFAULT_PROJECTION_CONFIG)
            = (if cos (val az * pi / 180) < 0 then 180 else 0)"
      using x0 y0 yv pi_gt_zero
      by (simp add: inverseAzimuthalEquidistant_def DEFAULT_PROJECTION_CONFIG_def Let_def atan2_def)
  }
qed

text \<open>
  Claim C2, as stated, fails at the zenith: the point of altitude 90 and azimuth 45 is
  projected to the origin, and the inverse projection returns azimuth 0 there, 45 degrees
  away from the original azimuth.
\<close>

theorem roundtrip_zenith_counterexample:
  "\<not> \<bar>inv_azimuth (inverseAzimuthalEquidistant
          (projectAzimuthalEquidistant (SNum 90) (SNum 45) DEFAULT_PROJECTION_CONFIG)
          DEFAULT_PROJECTION_CONFIG) - 45\<bar> \<le> 1 / 1000000"
proof -
  have "0 < cos (45 * pi / 180)" using cos_sign_degrees(1)[of 45] by simp
  then show ?thesis using inverse_project(3)[of "SNum 90" "SNum 45"] by simp
qed

text \<open>
  Claim C2, amended: for every altitude in [0, 90] and azimuth in [0, 360), under the
  default configuration, the inverse projection of the projected point returns the
  original altitude, and it returns the original azimuth when the altitude is below 90. At
  altitude 90 the projected point is a pair of zeros and the azimuth is lost: the inverse
  projection returns 0 for an original azimuth below 90 or above 270, and 180 for one
  between 90 and 270 (nothing is stated at 90 and at 270, where the exact cosine is zero
  and the sign of the rounded one decides). In exact arithmetic the values are reproduced
  exactly, so also within the tolerance of 1e-6.
\<close>

theorem projection_roundtrip:
  assumes "0 \<le> val alt" "val alt \<le> 90" "0 \<le> val az" "val az < 360"
  shows "inv_altitude (inverseAzimuthalEquidistant
            (projectAzimuthalEquidistant alt az DEFAULT_PROJECTION_CONFIG)
            DEFAULT_PROJECTION_CONFIG) = Finite (val alt)
       \<and> (val alt < 90 \<longrightarrow>
            inv_azimuth (inverseAzimuthalEquidistant
              (projectAzimuthalEquidistant alt az DEFAULT_PROJECTION_CONFIG)
              DEFAULT_PROJECTION_CONFIG) = val az)
       \<and> (val alt = 90 \<and> (val az < 90 \<or> 270 < val az) \<longrightarrow>
            inv_azimuth (inverseAzimuthalEquidistant
              (projectAzimuthalEquidistant alt az DEFAULT_PROJECTION_CONFIG)
              DEFAULT_PROJECTION_CONFIG) = 0)
       \<and> (val alt = 90 \<and> 90 < val az \<and> val az < 270 \<longrightarrow>
            inv_azimuth (inverseAzimuthalEquidistant
              (projectAzimuthalEquidistant alt az DEFAULT_PROJECTION_CONFIG)
              DEFAULT_PROJECTION_CONFIG) = 180)"
proof (intro conjI impI)
  show "inv_altitude (inverseAzimuthalEquidistant
            (projectAzimuthalEquidistant alt az DEFAULT_PROJECTION_CONFIG)
            DEFAULT_PROJECTION_CONFIG) = Finite (val alt)"
    using assms by (intro inverse_project(1))
next
  assume "val alt < 90"
  then show "inv_azimuth (inverseAzimuthalEquidistant
              (projectAzimuthalEquidistant alt az DEFAULT_PROJECTION_CONFIG)
              DEFAULT_PROJECTION_CONFIG) = val az"
    using assms by (intro inverse_project(2))
next
  assume h: "val alt = 90 \<and> (val az < 90 \<or> 270 < val az)"
  then have "0 < cos (val az * pi / 180)" using cos_sign_degrees(1)[OF assms(3,4)] by blast
  then show "inv_azimuth (inverseAzimuthalEquidistant
              (projectAzimuthalEquidistant alt az DEFAULT_PROJECTION_CONFIG)
              DEFAULT_PROJECTION_CONFIG) = 0"
    using inverse_project(3)[of alt az] assms h by simp
next
  assume h: "val alt = 90 \<and> 90 < val az \<and> val az < 270"
  then have "cos (val az * pi / 180) < 0" using cos_sign_degrees(2)[OF assms(3,4)] by blast
  then show "inv_azimuth (inverseAzimuthalEquidistant
              (projectAzimuthalEquidistant alt az DEFAULT_PROJECTION_CONFIG)
              DEFAULT_PROJECTION_CONFIG) = 180"
    using inverse_project(3)[of alt az] assms h by simp
qed

text \<open>
  Claim C2, amended, on samples: altitude 30 and azimuth 200 are reproduced; at altitude 90
  the azimuth 200 comes back as 180, and the azimuth \<open>-0\<close> as 0.
\<close>

theorem projection_roundtrip_witness:
  "(inv_altitude (inverseAzimuthalEquidistant
      (projectAzimuthalEquidistant (SNum 30) (SNum 200) DEFAULT_PROJECTION_CONFIG)
      DEFAULT_PROJECTION_CONFIG) = Finite 30
   \<and> inv_azimuth (inverseAzimuthalEquidistant
      (projectAzimuthalEquidistant (SNum 30) (SNum 200) DEFAULT_PROJECTION_CONFIG)
      DEFAULT_PROJECTION_CONFIG) = 200)
   \<and> (inv_altitude (inverseAzimuthalEquidistant
      (projectAzimuthalEquidistant (SNum 90) (SNum 200) DEFAULT_PROJECTION_CONFIG)
      DEFAULT_PROJECTION_CONFIG) = Finite 90
   \<and> inv_azimuth (inverseAzimuthalEquidistant
      (projectAzimuthalEquidistant (SNum 90) (SNum 200) DEFAULT_PROJECTION_CONFIG)
      DEFAULT_PROJECTION_CONFIG) = 180)
   \<and> inv_azimuth (inverseAzimuthalEquidistant
      (projectAzimuthalEquidistant (SNum 90) NegZero DEFAULT_PROJECTION_CONFIG)
      DEFAULT_PROJECTION_CONFIG) = 0"
  using projection_roundtrip[of "SNum 30" "SNum 200"] projection_roundtrip[of "SNum 90" "SNum 200"]
    projection_roundtrip[of "SNum 90" NegZero]
  by simp


section \<open>Magnitude to radius\<close>

lemma magnitudeToRadius_ends:
  "limit \<noteq> - 3 / 2 \<Longrightarrow>
     magnitudeToRadius (- 3 / 2) mn mx limit = Fin mx \<and> magnitudeToRadius limit mn mx limit = Fin mn"
  by (simp add: magnitudeToRadius_def Let_def)

lemma magnitudeToRadius_mono:
  assumes "mn \<le> mx" "- 3 / 2 < limit" "m1 \<le> m2"
  shows "\<exists>r1 r2. magnitudeToRadius m1 mn mx limit = Fin r1
           \<and> magnitudeToRadius m2 mn mx limit = Fin r2 \<and> r2 \<le> r1"
proof -
  have pos: "0 < limit + 3 / 2" using assms by simp
  have "(m1 + 3 / 2) / (limit + 3 / 2) \<le> (m2 + 3 / 2) / (limit + 3 / 2)"
    using assms pos by (simp add: divide_right_mono)
  then have "max 0 (min 1 ((m1 + 3 / 2) / (limit + 3 / 2)))
               \<le> max 0 (min 1 ((m2 + 3 / 2) / (limit + 3 / 2)))"
    by (intro max.mono min.mono order_refl)
  then have "sqrt (1 - max 0 (min 1 ((m2 + 3 / 2) / (limit + 3 / 2))))
               \<le> sqrt (1 - max 0 (min 1 ((m1 + 3 / 2) / (limit + 3 / 2))))"
    by simp
  then have "sqrt (1 - max 0 (min 1 ((m2 + 3 / 2) / (limit + 3 / 2)))) * (mx - mn)
               \<le> sqrt (1 - max 0 (min 1 ((m1 + 3 / 2) / (limit + 3 / 2)))) * (mx - mn)"
    using assms by (simp add: mult_right_mono)
  then show ?thesis using pos by (simp add: magnitudeToRadius_def Let_def)
qed

text \<open>
  Claim C6, as stated for every minRadius, maxRadius and magnitudeLimit, fails: with
  minRadius 3 above maxRadius 1 the radius grows from 1 at magnitude -1.5 to 3 at
  magnitude 6; with a limit of -2, below -1.5, the radius grows from 1 at magnitude -3 to 3
  at magnitude -1; and with a limit of exactly -1.5 the radius at magnitude -1.5 is NaN.
\<close>

theorem magnitudeToRadius_counterexample:
  "\<not> nle (magnitudeToRadius 6 3 1 6) (magnitudeToRadius (- 3 / 2) 3 1 6)
   \<and> \<not> nle (magnitudeToRadius (- 1) 1 3 (- 2)) (magnitudeToRadius (- 3) 1 3 (- 2))
   \<and> magnitudeToRadius (- 3 / 2) 1 3 (- 3 / 2) = NaN"
  by (simp add: magnitudeToRadius_def Let_def)

text \<open>
  Claim C6, amended: for every magnitudeLimit other than -1.5,
  magnitudeToRadius(-1.5) = maxRadius and magnitudeToRadius(limit) = minRadius; and for
  minRadius \<open>\<le>\<close> maxRadius and magnitudeLimit above -1.5, magnitudeToRadius is
  non-increasing as a function of magnitude.
\<close>

theorem magnitudeToRadius_monotone:
  "(limit \<noteq> - 3 / 2 \<longrightarrow>
      magnitudeToRadius (- 3 / 2) mn mx limit = Fin mx
      \<and> magnitudeToRadius limit mn mx limit = Fin mn)
   \<and> (mn \<le> mx \<and> - 3 / 2 < limit \<and> m1 \<le> m2 \<longrightarrow>
        (\<exists>r1 r2. magnitudeToRadius m1 mn mx limit = Fin r1
            \<and> magnitudeToRadius m2 mn mx limit = Fin r2 \<and> r2 \<le> r1))"
  using magnitudeToRadius_ends[of limit mn mx] magnitudeToRadius_mono[of mn mx limit m1 m2]
  by blast

theorem magnitudeToRadius_monotone_witness:
  "magnitudeToRadius (- 3 / 2) 1 3 6 = Fin 3 \<and> magnitudeToRadius 6 1 3 6 = Fin 1
   \<and> (\<exists>r1 r2. magnitudeToRadius 0 1 3 6 = Fin r1 \<and> magnitudeToRadius 1 1 3 6 = Fin r2 \<and> r2 \<le> r1)"
  using magnitudeToRadius_monotone[of 6 1 3 0 1] by simp

section \<open>Visibility filter\<close>

lemma projectStars_Inr:
  "projectStars ext observer options center scale stars = Inr ps \<Longrightarrow>
     map ps_hip ps = map cs_hip (filter (spec_visible ext observer options) stars)
   \<and> map ps_magnitude ps = map cs_mag (filter (spec_visible ext observer options) stars)
   \<and> (\<forall>p\<in>set ps. 0 < ps_altitude p \<and> ps_magnitude p \<le> magnitudeLimit options)"
proof (induction stars arbitrary: ps)
  case Nil
  then show ?case by simp
next
  case (Cons star rest)
  show ?case
  proof (cases "cs_mag star > magnitudeLimit options")
    case True
    then have "projectStars ext observer options center scale rest = Inr ps"
      using Cons.prems by simp
    from Cons.IH[OF this] True show ?thesis by (simp add: spec_visible_def)
  next
    case False
    then obtain coord where c: "raDecToAltAz ext (cs_ra star) (cs_dec star) observer = Inr coord"
      using Cons.prems by (auto simp: bindE_Inr_iff)
    show ?thesis
    proof (cases "altitude coord \<le> 0")
      case True
      then have "projectStars ext observer options center scale rest = Inr ps"
        using Cons.prems False c by simp
      from Cons.IH[OF this] True c show ?thesis by (simp add: spec_visible_def)
    next
      case up: False
      then obtain more where m: "projectStars ext observer options center scale rest = Inr more"
        and ps: "ps = \<lparr> ps_hip = cs_hip star,
                   ps_x = center + val (p_x (projectAzimuthalEquidistant (SNum (altitude coord)) (SNum (azimuth coord)) DEFAULT_PROJECTION_CONFIG)) * scale,
                   ps_y = center + val (p_y (projectAzimuthalEquidistant (SNum (altitude coord)) (SNum (azimuth coord)) DEFAULT_PROJECTION_CONFIG)) * scale,
                   ps_altitude = altitude coord,
                   ps_azimuth = azimuth coord,
                   ps_magnitude = cs_mag star,
                   ps_radius = magnitudeToRadius (cs_mag star) (starSizeMin options)
                          (starSizeMax options) (magnitudeLimit options),
                   ps_name = cs_name star \<rparr> # more"
        using Cons.prems False c by (auto simp: bindE_Inr_iff Let_def)
      from Cons.IH[OF m] up False c ps show ?thesis by (simp add: spec_visible_def)
    qed
  qed
qed

lemma final_stars_layer:
  assumes "buildState ext stars observer options v = Inr (ps, st)"
  shows "map_of (st_layers st) Stars =
     Some \<lparr> layer_type = Stars,
            primitives = starPrimitives (filterStars (v / 2) (v / 2 * (91 / 100) * (96 / 100)) ps),
            layer_visible = True \<rparr>"
proof -
  from assms obtain st4 st5 st7 st9 where
    s4: "constellationsStep ext observer options (v / 2) (v / 2 * (91 / 100)) (v / 2 * (91 / 100) * (96 / 100))
       (starGlowStep options (filterStars (v / 2) (v / 2 * (91 / 100) * (96 / 100)) ps)
         (starsStep (filterStars (v / 2) (v / 2 * (91 / 100) * (96 / 100)) ps)
           (topoStep options (v / 2) (v / 2 * (91 / 100))
              \<lparr> st_layers = [], labelCollision = \<lparr> placedLabels = [], padding = 8 \<rparr> \<rparr>))) = Inr st4"
    and s5: "constellationNamesStep ext observer options (v / 2) (v / 2 * (91 / 100)) (v / 2 * (91 / 100) * (96 / 100)) st4 = Inr st5"
    and s7: "planetsStep ext observer options (v / 2) (v / 2 * (91 / 100)) (v / 2 * (91 / 100) * (96 / 100))
       (starNamesStep options (v / 2) (v / 2 * (91 / 100) * (96 / 100)) ps st5) = Inr st7"
    and s9: "gridStep ext observer options (v / 2) (v / 2 * (91 / 100)) (horizonStep options (v / 2) (v / 2 * (91 / 100)) st7) = Inr st9"
    and s12: "metadataStep ext observer options (v / 2) v
       (degreeRingStep options (v / 2) (v / 2 * (91 / 100)) (cardinalsStep options (v / 2) (v / 2 * (91 / 100)) st9)) = Inr st"
    by (rule buildState_InrD)
  have "map_of (st_layers st) Stars = map_of (st_layers st9) Stars"
    using metadataStep_frame[OF s12, of Stars]
    by (simp add: degreeRingStep_frame cardinalsStep_frame)
  also have "\<dots> = map_of (st_layers st7) Stars"
    using gridStep_frame[OF s9, of Stars] by (simp add: horizonStep_frame)
  also have "\<dots> = map_of (st_layers st5) Stars"
    using planetsStep_frame[OF s7, of Stars] by (simp add: starNamesStep_frame)
  also have "\<dots> = map_of (st_layers st4) Stars"
    using constellationNamesStep_frame[OF s5, of Stars] by simp
  also have "\<dots> = Some \<lparr> layer_type = Stars,
            primitives = starPrimitives (filterStars (v / 2) (v / 2 * (91 / 100) * (96 / 100)) ps),
            layer_visible = True \<rparr>"
    using constellationsStep_frame[OF s4, of Stars]
    by (simp add: starGlowStep_frame starsStep_own)
  finally show ?thesis .
qed

lemma buildStarMapGeometry_InrD:
  assumes "buildStarMapGeometry ext stars observer options v = Inr g"
  obtains ps st where "buildState ext stars observer options v = Inr (ps, st)"
    "layers g = st_layers st" "visibleStarCount (metadata g) = length ps"
    "starCount (metadata g) = length stars"
    "timestamp (metadata g) = date observer" "location (metadata g) = formatLocation ext observer"
  using assms unfolding buildStarMapGeometry_def bindE_Inr_iff by (auto simp: Let_def)

text \<open>
  Claim C5: the geometry built by buildStarMapGeometry contains no star whose computed
  altitude is \<open>\<le> 0\<close> and no star whose magnitude exceeds options.magnitudeLimit. Whenever
  the builder returns a geometry: its list of projected stars comes, in order, from exactly
  the catalog stars that pass both tests; every projected star has altitude above 0 and
  magnitude within the limit; metadata.visibleStarCount is the number of catalog stars that
  pass both tests; and every circle of the stars layer is the circle of a projected star.
\<close>

theorem visibility_filter:
  assumes "buildStarMapGeometry ext stars observer options v = Inr g"
  shows "\<exists>ps. projectStars ext observer options (v / 2) (v / 2 * (91 / 100)) stars = Inr ps
     \<and> map ps_hip ps = map cs_hip (filter (spec_visible ext observer options) stars)
     \<and> (\<forall>p\<in>set ps. 0 < ps_altitude p \<and> ps_magnitude p \<le> magnitudeLimit options)
     \<and> visibleStarCount (metadata g) = length (filter (spec_visible ext observer options) stars)
     \<and> (\<exists>layer. layers_get g Stars = Some layer
          \<and> (\<forall>c\<in>set (primitives layer). \<exists>p\<in>set ps.
                c = createCircle (Fin (ps_x p)) (Fin (ps_y p)) (ps_radius p) (Some (ps_hip p))))"
proof -
  from assms obtain ps st where b: "buildState ext stars observer options v = Inr (ps, st)"
    and l: "layers g = st_layers st" and n: "visibleStarCount (metadata g) = length ps"
    by (rule buildStarMapGeometry_InrD)
  from b have p: "projectStars ext observer options (v / 2) (v / 2 * (91 / 100)) stars = Inr ps"
    by (rule buildState_InrD)
  note f = projectStars_Inr[OF p]
  have len: "length ps = length (filter (spec_visible ext observer options) stars)"
    using f arg_cong[of "map ps_hip ps" _ length] by (metis length_map)
  have lay: "layers_get g Stars = Some \<lparr> layer_type = Stars,
            primitives = starPrimitives (filterStars (v / 2) (v / 2 * (91 / 100) * (96 / 100)) ps),
            layer_visible = True \<rparr>"
    using final_stars_layer[OF b] l by (simp add: layers_get_def)
  have "\<forall>c\<in>set (starPrimitives (filterStars (v / 2) (v / 2 * (91 / 100) * (96 / 100)) ps)). \<exists>p\<in>set ps.
                c = createCircle (Fin (ps_x p)) (Fin (ps_y p)) (ps_radius p) (Some (ps_hip p))"
    by (auto simp: starPrimitives_def filterStars_def)
  with p f len n lay show ?thesis by auto
qed

section \<open>Constellation lines\<close>

lemma concatMapE_Inr_map:
  assumes "concatMapE f xs = Inr ys"
    and "\<And>x y. x \<in> set xs \<Longrightarrow> f x = Inr y \<Longrightarrow> y = h x"
  shows "ys = concat (map h xs)"
  using assms
proof (induction xs arbitrary: ys)
  case Nil
  then show ?case by simp
next
  case (Cons a as)
  from Cons.prems(1) obtain bs cs where b: "f a = Inr bs" and c: "concatMapE f as = Inr cs"
    and y: "ys = bs @ cs"
    by (auto simp: bindE_Inr_iff)
  have "bs = h a" using Cons.prems(2)[of a bs] b by simp
  moreover have "cs = concat (map h as)"
    using Cons.IH[OF c] Cons.prems(2) by simp
  ultimately show ?case using y by simp
qed

lemma map_filter_concat:
  "List.map_filter f (concat xss) = concat (map (List.map_filter f) xss)"
  by (induction xss) (simp_all add: map_filter_def)

lemma segmentLoop_Inr:
  "segmentLoop ext observer center scale (scale * (96 / 100)) ls = Inr prims \<Longrightarrow>
     prims = List.map_filter (spec_segment ext observer center scale) (zip ls (tl ls))"
proof (induction ls arbitrary: prims rule: induct_list012)
  case 1
  then show ?case by (simp add: map_filter_simps)
next
  case (2 x)
  then show ?case by (simp add: map_filter_simps)
next
  case (3 point1 point2 rest)
  from "3.prems" obtain coord1 coord2 more where
    c1: "raDecToAltAz ext (rd_ra point1) (rd_dec point1) observer = Inr coord1" and
    c2: "raDecToAltAz ext (rd_ra point2) (rd_dec point2) observer = Inr coord2" and
    m: "segmentLoop ext observer center scale (scale * (96 / 100)) (point2 # rest) = Inr more"
    by (auto simp: bindE_Inr_iff Let_def)
  have more: "more = List.map_filter (spec_segment ext observer center scale)
                  (zip (point2 # rest) (tl (point2 # rest)))"
    by (rule "3.IH"(2)[OF m])
  define pushed where "pushed =
       (if altitude coord1 > 0 \<and> altitude coord2 > 0 then
          (let proj1 = projectAzimuthalEquidistant (SNum (altitude coord1)) (SNum (azimuth coord1))
                         DEFAULT_PROJECTION_CONFIG;
               proj2 = projectAzimuthalEquidistant (SNum (altitude coord2)) (SNum (azimuth coord2))
                         DEFAULT_PROJECTION_CONFIG;
               x1 = center + val (p_x proj1) * scale;
               y1 = center + val (p_y proj1) * scale;
               x2 = center + val (p_x proj2) * scale;
               y2 = center + val (p_y proj2) * scale;
               dist1 = sqrt ((x1 - center)\<^sup>2 + (y1 - center)\<^sup>2);
               dist2 = sqrt ((x2 - center)\<^sup>2 + (y2 - center)\<^sup>2)
           in if dist1 < scale * (96 / 100) \<and> dist2 < scale * (96 / 100)
              then [createLine (Fin x1) (Fin y1) (Fin x2) (Fin y2)]
              else [])
        else [])"
  have prims: "pushed @ more = prims"
    using "3.prems"
    by (simp only: segmentLoop.simps c1 c2 bindE_simps m Let_def pushed_def sum.inject)
  have head: "pushed = (case spec_segment ext observer center scale (point1, point2) of
                          None \<Rightarrow> [] | Some l \<Rightarrow> [l])"
    using c1 c2
    by (simp add: pushed_def spec_segment_def spec_plot_def distanceFromCenter_def
          power2_eq_square Let_def)
  show ?case
    unfolding prims[symmetric] head more
    by (simp add: map_filter_simps split: option.splits)
qed

lemma constellationLinesLoop_Inr:
  assumes "constellationLinesLoop ext observer center scale (scale * (96 / 100)) = Inr prims"
  shows "prims = List.map_filter (spec_segment ext observer center scale)
                   (spec_vertexPairs (constellationData ext))"
proof -
  have inner: "ys = List.map_filter (spec_segment ext observer center scale)
                      (concat (map (\<lambda>ls. zip ls (tl ls)) (cn_lines c)))"
    if "(if length (cn_lines c) > 0
         then concatMapE (segmentLoop ext observer center scale (scale * (96 / 100))) (cn_lines c)
         else Inr []) = Inr ys" for c ys
  proof (cases "length (cn_lines c) > 0")
    case True
    with that have "concatMapE (segmentLoop ext observer center scale (scale * (96 / 100))) (cn_lines c) = Inr ys"
      by simp
    then have "ys = concat (map (\<lambda>ls. List.map_filter (spec_segment ext observer center scale) (zip ls (tl ls))) (cn_lines c))"
      by (rule concatMapE_Inr_map) (rule segmentLoop_Inr)
    then show ?thesis by (simp add: map_filter_concat comp_def)
  next
    case False
    with that show ?thesis by (simp add: map_filter_simps)
  qed
  from assms have "prims = concat (map (\<lambda>c. List.map_filter (spec_segment ext observer center scale)
                      (concat (map (\<lambda>ls. zip ls (tl ls)) (cn_lines c)))) (constellationData ext))"
    unfolding constellationLinesLoop_def Let_def
    by (rule concatMapE_Inr_map) (rule inner)
  then show ?thesis by (simp add: spec_vertexPairs_def map_filter_concat comp_def)
qed

lemma final_constellations_layer:
  assumes "buildState ext stars observer options v = Inr (ps, st)"
  shows "map_of (st_layers st) Constellations =
     (if showConstellations options \<and>
         List.map_filter (spec_segment ext observer (v / 2) (v / 2 * (91 / 100)))
           (spec_vertexPairs (constellationData ext)) \<noteq> []
      then Some \<lparr> layer_type = Constellations,
             primitives = List.map_filter (spec_segment ext observer (v / 2) (v / 2 * (91 / 100)))
               (spec_vertexPairs (constellationData ext)),
             layer_visible = True \<rparr>
      else None)"
proof -
  from assms obtain st4 st5 st7 st9 where
    s4: "constellationsStep ext observer options (v / 2) (v / 2 * (91 / 100)) (v / 2 * (91 / 100) * (96 / 100))
       (starGlowStep options (filterStars (v / 2) (v / 2 * (91 / 100) * (96 / 100)) ps)
         (starsStep (filterStars (v / 2) (v / 2 * (91 / 100) * (96 / 100)) ps)
           (topoStep options (v / 2) (v / 2 * (91 / 100))
              \<lparr> st_layers = [], labelCollision = \<lparr> placedLabels = [], padding = 8 \<rparr> \<rparr>))) = Inr st4"
    and s5: "constellationNamesStep ext observer options (v / 2) (v / 2 * (91 / 100)) (v / 2 * (91 / 100) * (96 / 100)) st4 = Inr st5"
    and s7: "planetsStep ext observer options (v / 2) (v / 2 * (91 / 100)) (v / 2 * (91 / 100) * (96 / 100))
       (starNamesStep options (v / 2) (v / 2 * (91 / 100) * (96 / 100)) ps st5) = Inr st7"
    and s9: "gridStep ext observer options (v / 2) (v / 2 * (91 / 100)) (horizonStep options (v / 2) (v / 2 * (91 / 100)) st7) = Inr st9"
    and s12: "metadataStep ext observer options (v / 2) v
       (degreeRingStep options (v / 2) (v / 2 * (91 / 100)) (cardinalsStep options (v / 2) (v / 2 * (91 / 100)) st9)) = Inr st"
    by (rule buildState_InrD)
  define st3 where "st3 = starGlowStep options (filterStars (v / 2) (v / 2 * (91 / 100) * (96 / 100)) ps)
         (starsStep (filterStars (v / 2) (v / 2 * (91 / 100) * (96 / 100)) ps)
           (topoStep options (v / 2) (v / 2 * (91 / 100))
              \<lparr> st_layers = [], labelCollision = \<lparr> placedLabels = [], padding = 8 \<rparr> \<rparr>))"
  have before: "map_of (st_layers st3) Constellations = None"
    by (simp add: st3_def starGlowStep_frame starsStep_frame topoStep_frame)
  have "map_of (st_layers st) Constellations = map_of (st_layers st9) Constellations"
    using metadataStep_frame[OF s12, of Constellations]
    by (simp add: degreeRingStep_frame cardinalsStep_frame)
  also have "\<dots> = map_of (st_layers st7) Constellations"
    using gridStep_frame[OF s9, of Constellations] by (simp add: horizonStep_frame)
  also have "\<dots> = map_of (st_layers st5) Constellations"
    using planetsStep_frame[OF s7, of Constellations] by (simp add: starNamesStep_frame)
  also have "\<dots> = map_of (st_layers st4) Constellations"
    using constellationNamesStep_frame[OF s5, of Constellations] by simp
  finally have fin: "map_of (st_layers st) Constellations = map_of (st_layers st4) Constellations" .
  show ?thesis
  proof (cases "showConstellations options")
    case False
    with s4 have "st4 = st3" by (simp add: constellationsStep_def st3_def)
    with fin before False show ?thesis by simp
  next
    case True
    with s4 obtain ls where
      l: "constellationLinesLoop ext observer (v / 2) (v / 2 * (91 / 100)) (v / 2 * (91 / 100) * (96 / 100)) = Inr ls"
      and st4: "st4 = (if length ls > 0
             then st3 \<lparr> st_layers := layers_set Constellations ls (st_layers st3) \<rparr>
             else st3)"
      by (auto simp: constellationsStep_def st3_def bindE_Inr_iff)
    note ls = constellationLinesLoop_Inr[OF l]
    show ?thesis using fin st4 before True ls by (auto simp: layers_set_lookup)
  qed
qed

text \<open>
  Claim C7: for every constellation polyline and every consecutive vertex pair, the
  builder emits the line segment in the constellations layer if and only if both projected
  end points have altitude above 0 and both lie strictly inside the ring-exclusion radius
  (0.96 times the scale, from the center); a segment is emitted whole or not at all. The
  primitives of the constellations layer (none when the layer is absent) are, in order, the
  segments of the vertex pairs that qualify; the step runs when showConstellations is set.
\<close>

theorem constellation_segments:
  assumes "buildStarMapGeometry ext stars observer options v = Inr g"
  shows "(case layers_get g Constellations of None \<Rightarrow> [] | Some layer \<Rightarrow> primitives layer) =
           (if showConstellations options
            then List.map_filter (spec_segment ext observer (v / 2) (v / 2 * (91 / 100)))
                   (spec_vertexPairs (constellationData ext))
            else [])"
proof -
  from assms obtain ps st where b: "buildState ext stars observer options v = Inr (ps, st)"
    and l: "layers g = st_layers st"
    by (rule buildStarMapGeometry_InrD)
  show ?thesis using final_constellations_layer[OF b] l by (simp add: layers_get_def)
qed

section \<open>Planets\<close>

lemma planetLoop_above:
  "\<forall>p\<in>set (planetLoop ext time astroObserver bodies). 0 < altitude p"
  by (induction ext time astroObserver bodies rule: planetLoop.induct) (auto split: sum.splits)

lemma getPlanetPositions_above:
  "getPlanetPositions ext observer = Inr pls \<Longrightarrow> \<forall>p\<in>set pls. 0 < altitude p"
  by (auto simp: getPlanetPositions_def bindE_Inr_iff planetLoop_above)

lemma placePlanets_prims:
  "placePlanets center scale ring det pls = (prims, det') \<Longrightarrow>
     \<forall>prim\<in>set prims. \<exists>p\<in>set pls.
        prim = spec_planetMarker center scale p \<or> prim = spec_planetLabel center scale p"
proof (induction pls arbitrary: det prims det')
  case Nil
  then show ?case by simp
next
  case (Cons planet rest)
  define planetX where "planetX = center + val (p_x (projectAzimuthalEquidistant (SNum (altitude planet)) (SNum (azimuth planet)) DEFAULT_PROJECTION_CONFIG)) * scale"
  define planetY where "planetY = center + val (p_y (projectAzimuthalEquidistant (SNum (altitude planet)) (SNum (azimuth planet)) DEFAULT_PROJECTION_CONFIG)) * scale"
  have marker: "spec_planetMarker center scale planet = createCircle (Fin planetX) (Fin planetY) (Fin 3) (Some 0)"
    by (simp add: spec_planetMarker_def spec_plot_def Let_def planetX_def planetY_def)
  have label: "spec_planetLabel center scale planet =
      createText (Fin (planetX + 5)) (Fin (planetY - 5)) (pl_name planet) AStart BMiddle"
    by (simp add: spec_planetLabel_def spec_plot_def Let_def planetX_def planetY_def)
  show ?case
  proof (cases "distanceFromCenter center planetX planetY \<ge> ring")
    case True
    then have "placePlanets center scale ring det rest = (prims, det')"
      using Cons.prems by (simp add: Let_def planetX_def planetY_def)
    from Cons.IH[OF this] show ?thesis by auto
  next
    case False
    obtain ok det1 where t: "tryPlace det (Fin (planetX + 5)) (Fin (planetY - 5)) (pl_name planet) AStart 9 = (ok, det1)"
      by fastforce
    obtain more det2 where r: "placePlanets center scale ring det1 rest = (more, det2)"
      by fastforce
    have prims: "prims = createCircle (Fin planetX) (Fin planetY) (Fin 3) (Some 0)
                         # (if ok then [createText (Fin (planetX + 5)) (Fin (planetY - 5)) (pl_name planet)
                                          AStart BMiddle]
                            else []) @ more"
      using Cons.prems False t r by (simp add: Let_def planetX_def[symmetric] planetY_def[symmetric])
    from Cons.IH[OF r] show ?thesis unfolding prims using marker label by auto
  qed
qed

lemma planetsStep_layer:
  assumes s7: "planetsStep ext observer options center scale ring st6 = Inr st7"
    and before: "map_of (st_layers st6) Planets = None"
    and fin: "map_of (st_layers st7) Planets = Some layer"
  shows "\<exists>pls. getPlanetPositions ext observer = Inr pls \<and>
           (\<forall>prim\<in>set (primitives layer). \<exists>p\<in>set pls.
               prim = spec_planetMarker center scale p \<or> prim = spec_planetLabel center scale p)"
proof -
  have sp: "showPlanets options"
  proof (rule ccontr)
    assume "\<not> showPlanets options"
    with s7 have "st7 = st6" by (simp add: planetsStep_def)
    with fin before show False by simp
  qed
  with s7 obtain pls where g: "getPlanetPositions ext observer = Inr pls"
    and st7: "(let (planetPrimitives, det) =
              placePlanets center scale ring (labelCollision st6) pls;
            st1 = st6 \<lparr> labelCollision := det \<rparr>
        in (if length planetPrimitives > 0
                then st1 \<lparr> st_layers := layers_set Planets planetPrimitives (st_layers st1) \<rparr>
                else st1)) = st7"
    by (auto simp: planetsStep_def bindE_Inr_iff Let_def split_beta)
  obtain prims det where pp: "placePlanets center scale ring (labelCollision st6) pls = (prims, det)"
    by fastforce
  have "primitives layer = prims"
    using fin st7 pp before by (auto simp: layers_set_lookup Let_def split: if_splits)
  with placePlanets_prims[OF pp] g show ?thesis by blast
qed

lemma planetLoop_spec:
  "planetLoop ext time astroObserver bodies
     = List.map_filter (spec_bodyPosition ext time astroObserver) bodies"
  by (induction ext time astroObserver bodies rule: planetLoop.induct)
     (auto simp: List.map_filter_simps spec_bodyPosition_def bindE_def split: sum.splits)

lemma spec_bodyPosition_fail:
  assumes "bindE (Equator ext b time astroObserver)
             (\<lambda>equ. Horizon ext time astroObserver (eq_ra equ) (eq_dec equ)) = Inl e"
  shows "List.map_filter (spec_bodyPosition ext time astroObserver) bodies
       = List.map_filter (spec_bodyPosition ext time astroObserver)
           (filter (\<lambda>entry. fst entry \<noteq> b) bodies)"
proof -
  have "spec_bodyPosition ext time astroObserver entry = None" if "fst entry = b" for entry
    using assms that by (auto simp: spec_bodyPosition_def bindE_def split: sum.splits)
  then show ?thesis
    by (induction bodies) (auto simp: List.map_filter_simps split: option.splits)
qed


lemma placePlanets_markers:
  "placePlanets center scale (scale * (96 / 100)) det pls = (prims, det') \<Longrightarrow>
     filter is_Circle prims
       = map (spec_planetMarker center scale) (filter (spec_insideRing center scale) pls)"
proof (induction pls arbitrary: det prims det')
  case Nil
  then show ?case by simp
next
  case (Cons planet rest)
  define ring where "ring = scale * (96 / 100)"
  define planetX where "planetX = center + val (p_x (projectAzimuthalEquidistant (SNum (altitude planet)) (SNum (azimuth planet)) DEFAULT_PROJECTION_CONFIG)) * scale"
  define planetY where "planetY = center + val (p_y (projectAzimuthalEquidistant (SNum (altitude planet)) (SNum (azimuth planet)) DEFAULT_PROJECTION_CONFIG)) * scale"
  have marker: "spec_planetMarker center scale planet = createCircle (Fin planetX) (Fin planetY) (Fin 3) (Some 0)"
    by (simp add: spec_planetMarker_def spec_plot_def Let_def planetX_def planetY_def)
  have inside: "spec_insideRing center scale planet \<longleftrightarrow> distanceFromCenter center planetX planetY < ring"
    by (simp add: spec_insideRing_def spec_plot_def Let_def planetX_def planetY_def ring_def)
  note prems = Cons.prems[folded ring_def]
  note IH = Cons.IH[folded ring_def]
  show ?case
  proof (cases "distanceFromCenter center planetX planetY \<ge> ring")
    case True
    then have "placePlanets center scale ring det rest = (prims, det')"
      using prems by (simp add: Let_def planetX_def planetY_def)
    from IH[OF this] True inside show ?thesis by simp
  next
    case False
    obtain ok det1 where t: "tryPlace det (Fin (planetX + 5)) (Fin (planetY - 5)) (pl_name planet) AStart 9 = (ok, det1)"
      by fastforce
    obtain others det2 where r: "placePlanets center scale ring det1 rest = (others, det2)"
      by fastforce
    have prims: "prims = createCircle (Fin planetX) (Fin planetY) (Fin 3) (Some 0)
                         # (if ok then [createText (Fin (planetX + 5)) (Fin (planetY - 5)) (pl_name planet)
                                          AStart BMiddle]
                            else []) @ others"
      using prems False t r by (simp add: Let_def planetX_def[symmetric] planetY_def[symmetric])
    from IH[OF r] False inside marker show ?thesis
      by (simp add: prims createCircle_def createText_def)
  qed
qed

lemma planetsStep_markers:
  assumes s7: "planetsStep ext observer options center scale (scale * (96 / 100)) st6 = Inr st7"
    and before: "map_of (st_layers st6) Planets = None"
    and sp: "showPlanets options"
    and gp: "getPlanetPositions ext observer = Inr pls"
  shows "filter is_Circle (case map_of (st_layers st7) Planets of None \<Rightarrow> [] | Some layer \<Rightarrow> primitives layer)
       = map (spec_planetMarker center scale) (filter (spec_insideRing center scale) pls)"
proof -
  obtain prims det where pp: "placePlanets center scale (scale * (96 / 100)) (labelCollision st6) pls = (prims, det)"
    by fastforce
  have st7: "st_layers st7 = (if prims \<noteq> [] then layers_set Planets prims (st_layers st6)
                               else st_layers st6)"
    using s7 sp gp pp by (auto simp: planetsStep_def Let_def)
  have "(case map_of (st_layers st7) Planets of None \<Rightarrow> [] | Some layer \<Rightarrow> primitives layer) = prims"
    using before by (cases prims) (simp_all add: st7 layers_set_lookup)
  then show ?thesis using placePlanets_markers[OF pp] by simp
qed

lemma final_planets_layer:
  assumes "buildState ext stars observer options v = Inr (ps, st)"
    and "map_of (st_layers st) Planets = Some layer"
  shows "\<exists>pls. getPlanetPositions ext observer = Inr pls \<and>
           (\<forall>prim\<in>set (primitives layer). \<exists>p\<in>set pls.
               prim = spec_planetMarker (v / 2) (v / 2 * (91 / 100)) p
             \<or> prim = spec_planetLabel (v / 2) (v / 2 * (91 / 100)) p)"
proof -
  from assms(1) obtain st4 st5 st7 st9 where
    s4: "constellationsStep ext observer options (v / 2) (v / 2 * (91 / 100)) (v / 2 * (91 / 100) * (96 / 100))
       (starGlowStep options (filterStars (v / 2) (v / 2 * (91 / 100) * (96 / 100)) ps)
         (starsStep (filterStars (v / 2) (v / 2 * (91 / 100) * (96 / 100)) ps)
           (topoStep options (v / 2) (v / 2 * (91 / 100))
              \<lparr> st_layers = [], labelCollision = \<lparr> placedLabels = [], padding = 8 \<rparr> \<rparr>))) = Inr st4"
    and s5: "constellationNamesStep ext observer options (v / 2) (v / 2 * (91 / 100)) (v / 2 * (91 / 100) * (96 / 100)) st4 = Inr st5"
    and s7: "planetsStep ext observer options (v / 2) (v / 2 * (91 / 100)) (v / 2 * (91 / 100) * (96 / 100))
       (starNamesStep options (v / 2) (v / 2 * (91 / 100) * (96 / 100)) ps st5) = Inr st7"
    and s9: "gridStep ext observer options (v / 2) (v / 2 * (91 / 100)) (horizonStep options (v / 2) (v / 2 * (91 / 100)) st7) = Inr st9"
    and s12: "metadataStep ext observer options (v / 2) v
       (degreeRingStep options (v / 2) (v / 2 * (91 / 100)) (cardinalsStep options (v / 2) (v / 2 * (91 / 100)) st9)) = Inr st"
    by (rule buildState_InrD)
  define st6 where "st6 = starNamesStep options (v / 2) (v / 2 * (91 / 100) * (96 / 100)) ps st5"
  have "map_of (st_layers st6) Planets = map_of (st_layers st4) Planets"
    using constellationNamesStep_frame[OF s5, of Planets] by (simp add: st6_def starNamesStep_frame)
  also have "\<dots> = None"
    using constellationsStep_frame[OF s4, of Planets]
    by (simp add: starGlowStep_frame starsStep_frame topoStep_frame)
  finally have before: "map_of (st_layers st6) Planets = None" .
  have "map_of (st_layers st) Planets = map_of (st_layers st9) Planets"
    using metadataStep_frame[OF s12, of Planets]
    by (simp add: degreeRingStep_frame cardinalsStep_frame)
  also have "\<dots> = map_of (st_layers st7) Planets"
    using gridStep_frame[OF s9, of Planets] by (simp add: horizonStep_frame)
  finally have fin: "map_of (st_layers st7) Planets = Some layer" using assms(2) by simp
  show ?thesis
    by (rule planetsStep_layer[OF s7[folded st6_def] before fin])
qed

text \<open>
  Claim C10: every planet returned by getPlanetPositions has altitude strictly above 0,
  so every primitive of the planets layer of a built geometry is the marker or the label
  of a planet that is above the horizon.
\<close>

theorem planets_above_horizon:
  assumes "buildStarMapGeometry ext stars observer options v = Inr g"
  shows "(\<forall>pls. getPlanetPositions ext observer = Inr pls \<longrightarrow> (\<forall>p\<in>set pls. 0 < altitude p))
     \<and> (\<forall>layer. layers_get g Planets = Some layer \<longrightarrow>
          (\<exists>pls. getPlanetPositions ext observer = Inr pls \<and>
             (\<forall>prim\<in>set (primitives layer). \<exists>p\<in>set pls. 0 < altitude p \<and>
                 (prim = spec_planetMarker (v / 2) (v / 2 * (91 / 100)) p
                  \<or> prim = spec_planetLabel (v / 2) (v / 2 * (91 / 100)) p))))"
proof -
  from assms obtain ps st where b: "buildState ext stars observer options v = Inr (ps, st)"
    and l: "layers g = st_layers st"
    by (rule buildStarMapGeometry_InrD)
  show ?thesis
    using final_planets_layer[OF b] l getPlanetPositions_above[of ext observer]
    by (fastforce simp: layers_get_def)
qed

section \<open>When the builder returns\<close>

lemma bindE_Inl_iff: "bindE m f = Inl e \<longleftrightarrow> m = Inl e \<or> (\<exists>x. m = Inr x \<and> f x = Inl e)"
  by (cases m) simp_all

lemma concatMapE_total:
  assumes "\<And>x. x \<in> set xs \<Longrightarrow> \<exists>y. f x = Inr y"
  shows "\<exists>ys. concatMapE f xs = Inr ys"
  using assms
proof (induction xs)
  case Nil
  then show ?case by simp
next
  case (Cons a as)
  from Cons.prems[of a] obtain y where "f a = Inr y" by auto
  moreover from Cons obtain ys where "concatMapE f as = Inr ys" by auto
  ultimately show ?case by simp
qed

lemma concatMapE_Inl:
  "concatMapE f xs = Inl e \<Longrightarrow> \<exists>x\<in>set xs. f x = Inl e"
  by (induction xs) (auto simp: bindE_Inl_iff)

lemma projectStars_total:
  assumes "\<And>ra decl. \<exists>c. raDecToAltAz ext ra decl observer = Inr c"
  shows "\<exists>ps. projectStars ext observer options center scale stars = Inr ps"
proof (induction stars)
  case Nil
  then show ?case by simp
next
  case (Cons star rest)
  from assms obtain c where "raDecToAltAz ext (cs_ra star) (cs_dec star) observer = Inr c" by blast
  with Cons show ?case by (auto simp: Let_def)
qed

lemma segmentLoop_total:
  assumes "\<And>ra decl. \<exists>c. raDecToAltAz ext ra decl observer = Inr c"
  shows "\<exists>prims. segmentLoop ext observer center scale ring ls = Inr prims"
proof (induction ls rule: induct_list012)
  case 1
  then show ?case by simp
next
  case (2 x)
  then show ?case by simp
next
  case (3 point1 point2 rest)
  from assms obtain c1 where c1: "raDecToAltAz ext (rd_ra point1) (rd_dec point1) observer = Inr c1" by blast
  from assms obtain c2 where c2: "raDecToAltAz ext (rd_ra point2) (rd_dec point2) observer = Inr c2" by blast
  from "3.IH"(2) obtain more where "segmentLoop ext observer center scale ring (point2 # rest) = Inr more"
    by blast
  with c1 c2 show ?case by (simp add: Let_def)
qed

lemma constellationsStep_total:
  assumes "\<And>ra decl. \<exists>c. raDecToAltAz ext ra decl observer = Inr c"
  shows "\<exists>st'. constellationsStep ext observer options center scale ring st = Inr st'"
proof -
  have "\<exists>ls. constellationLinesLoop ext observer center scale ring = Inr ls"
    unfolding constellationLinesLoop_def Let_def
    by (intro concatMapE_total) (auto intro!: concatMapE_total segmentLoop_total[OF assms])
  then show ?thesis by (auto simp: constellationsStep_def)
qed

lemma visiblePointsOf_total:
  assumes "\<And>ra decl. \<exists>c. raDecToAltAz ext ra decl observer = Inr c"
  shows "\<exists>vps. visiblePointsOf ext observer center scale lineStrings = Inr vps"
  unfolding visiblePointsOf_def
proof (intro concatMapE_total)
  fix lineString point
  from assms obtain c where "raDecToAltAz ext (rd_ra point) (rd_dec point) observer = Inr c" by blast
  then show "\<exists>y. bindE (raDecToAltAz ext (rd_ra point) (rd_dec point) observer) (\<lambda>coord.
             Inr (if altitude coord > 0 then
                    (let proj = projectAzimuthalEquidistant (SNum (altitude coord)) (SNum (azimuth coord))
                                  DEFAULT_PROJECTION_CONFIG
                     in [\<lparr> p_x = center + val (p_x proj) * scale, p_y = center + val (p_y proj) * scale \<rparr>])
                  else [])) = Inr y"
    by simp
qed

lemma constellationNamesStep_total:
  assumes "\<And>ra decl. \<exists>c. raDecToAltAz ext ra decl observer = Inr c"
  shows "\<exists>st'. constellationNamesStep ext observer options center scale ring st = Inr st'"
proof -
  have "\<exists>ls. constellationLabels ext observer center scale ring = Inr ls"
    unfolding constellationLabels_def Let_def
  proof (intro concatMapE_total)
    fix c
    obtain vps where "visiblePointsOf ext observer center scale (cn_lines c) = Inr vps"
      using visiblePointsOf_total[OF assms] by blast
    then show "\<exists>y. (if 0 < length (cn_lines c)
              then bindE (visiblePointsOf ext observer center scale (cn_lines c))
                    (\<lambda>visiblePoints. Inr (constellationLabelOf center ring (cn_name c) visiblePoints))
              else Inr []) = Inr y"
      by simp
  qed
  then show ?thesis by (auto simp: constellationNamesStep_def Let_def split_beta)
qed

lemma getPlanetPositions_total:
  assumes "\<exists>c. raDecToAltAz ext ra decl observer = Inr c"
  shows "\<exists>pls. getPlanetPositions ext observer = Inr pls"
  using assms by (auto simp: raDecToAltAz_def getPlanetPositions_def bindE_Inr_iff)

lemma planetsStep_total:
  assumes "\<And>ra decl. \<exists>c. raDecToAltAz ext ra decl observer = Inr c"
  shows "\<exists>st'. planetsStep ext observer options center scale ring st = Inr st'"
proof -
  obtain pls where "getPlanetPositions ext observer = Inr pls"
    using getPlanetPositions_total[OF assms[of 0 0]] by blast
  then show ?thesis by (auto simp: planetsStep_def Let_def split_beta)
qed

lemma gridPoints_total:
  assumes "\<And>ra decl. \<exists>c. raDecToAltAz ext ra decl observer = Inr c"
  shows "\<exists>pts. gridPoints ext observer center scale raDecs = Inr pts"
  unfolding gridPoints_def
proof (intro concatMapE_total)
  fix x :: "real \<times> real"
  obtain ra decl where x: "x = (ra, decl)" by (cases x)
  from assms obtain c where "raDecToAltAz ext ra decl observer = Inr c" by blast
  then show "\<exists>y. (case x of (ra, decl) \<Rightarrow>
         bindE (raDecToAltAz ext ra decl observer) (\<lambda>coord.
         Inr (if altitude coord > - 5 then
                (let projected = projectAzimuthalEquidistant (SNum (max (altitude coord) (1 / 2)))
                                   (SNum (azimuth coord)) DEFAULT_PROJECTION_CONFIG
                 in [\<lparr> p_x = center + val (p_x projected) * scale,
                       p_y = center + val (p_y projected) * scale \<rparr>])
              else []))) = Inr y"
    using x by simp
qed

lemma equatorialGrid_total:
  assumes "\<And>ra decl. \<exists>c. raDecToAltAz ext ra decl observer = Inr c"
  shows "\<exists>prims. equatorialGrid ext observer center scale poleAlt poleAz = Inr prims"
proof -
  have a: "\<exists>ys. concatMapE (\<lambda>decl.
                    bindE (gridPoints ext observer center scale
                             (map (\<lambda>i. ((real i / real 72) * 360, decl)) [0..<72 + 1]))
                      (\<lambda>points. Inr (gridSegments (scale * (3 / 10)) points))) ds = Inr ys" for ds
  proof (intro concatMapE_total)
    fix decl :: real
    obtain pts where "gridPoints ext observer center scale
                             (map (\<lambda>i. ((real i / real 72) * 360, decl)) [0..<72 + 1]) = Inr pts"
      using gridPoints_total[OF assms] by blast
    then show "\<exists>y. bindE (gridPoints ext observer center scale
                             (map (\<lambda>i. ((real i / real 72) * 360, decl)) [0..<72 + 1]))
                      (\<lambda>points. Inr (gridSegments (scale * (3 / 10)) points)) = Inr y"
      by simp
  qed
  have b: "\<exists>ys. concatMapE (\<lambda>ra.
                    bindE (gridPoints ext observer center scale
                             (map (\<lambda>k. (ra, 89 - 3 * real k)) [0..<60]))
                      (\<lambda>raPoints. Inr (gridSegments (scale * (2 / 10)) raPoints))) rs = Inr ys" for rs
  proof (intro concatMapE_total)
    fix ra :: real
    obtain pts where "gridPoints ext observer center scale
                             (map (\<lambda>k. (ra, 89 - 3 * real k)) [0..<60]) = Inr pts"
      using gridPoints_total[OF assms] by blast
    then show "\<exists>y. bindE (gridPoints ext observer center scale
                             (map (\<lambda>k. (ra, 89 - 3 * real k)) [0..<60]))
                      (\<lambda>raPoints. Inr (gridSegments (scale * (2 / 10)) raPoints)) = Inr y"
      by simp
  qed
  from a obtain ys where ys: "concatMapE (\<lambda>decl.
                    bindE (gridPoints ext observer center scale
                             (map (\<lambda>i. ((real i / real 72) * 360, decl)) [0..<72 + 1]))
                      (\<lambda>points. Inr (gridSegments (scale * (3 / 10)) points)))
                    [75, 60, 45, 30, 15, 0, - 15, - 30, - 45, - 60] = Inr ys" by blast
  from b obtain zs where zs: "concatMapE (\<lambda>ra.
                    bindE (gridPoints ext observer center scale
                             (map (\<lambda>k. (ra, 89 - 3 * real k)) [0..<60]))
                      (\<lambda>raPoints. Inr (gridSegments (scale * (2 / 10)) raPoints)))
                    (map (\<lambda>k. 30 * real k) [0..<12]) = Inr zs" by blast
  show ?thesis
    unfolding equatorialGrid_def Let_def ys zs bindE_simps by blast
qed

lemma gridStep_total:
  assumes "\<And>ra decl. \<exists>c. raDecToAltAz ext ra decl observer = Inr c"
  shows "\<exists>st'. gridStep ext observer options center scale st = Inr st'"
proof -
  from assms obtain pole where p: "raDecToAltAz ext 0 90 observer = Inr pole" by blast
  obtain prims where "equatorialGrid ext observer center scale (altitude pole) (azimuth pole) = Inr prims"
    using equatorialGrid_total[OF assms] by blast
  with p show ?thesis by (auto simp: gridStep_def)
qed

lemma metadataStep_total:
  assumes "showMapDate options \<longrightarrow> date observer \<noteq> InvalidDate"
  shows "\<exists>st'. metadataStep ext observer options center v st = Inr st'"
proof (cases "showMapDate options")
  case True
  with assms obtain ms where "date observer = DateAt ms" by (cases "date observer") auto
  then show ?thesis by (simp add: metadataStep_def formatDateTime_def toISOString_def Let_def)
next
  case False
  then show ?thesis by (simp add: metadataStep_def Let_def)
qed

lemma buildState_total:
  assumes tot: "\<And>ra decl. \<exists>c. raDecToAltAz ext ra decl observer = Inr c"
    and d: "showMapDate options \<longrightarrow> date observer \<noteq> InvalidDate"
  shows "\<exists>ps st. buildState ext stars observer options v = Inr (ps, st)"
proof -
  obtain ps where ps: "projectStars ext observer options (v / 2) (v / 2 * (91 / 100)) stars = Inr ps"
    using projectStars_total[OF tot] by blast
  define st3 where "st3 = starGlowStep options (filterStars (v / 2) (v / 2 * (91 / 100) * (96 / 100)) ps)
         (starsStep (filterStars (v / 2) (v / 2 * (91 / 100) * (96 / 100)) ps)
           (topoStep options (v / 2) (v / 2 * (91 / 100))
              \<lparr> st_layers = [], labelCollision = \<lparr> placedLabels = [], padding = 8 \<rparr> \<rparr>))"
  obtain st4 where s4: "constellationsStep ext observer options (v / 2) (v / 2 * (91 / 100)) (v / 2 * (91 / 100) * (96 / 100)) st3 = Inr st4"
    using constellationsStep_total[OF tot] by blast
  obtain st5 where s5: "constellationNamesStep ext observer options (v / 2) (v / 2 * (91 / 100)) (v / 2 * (91 / 100) * (96 / 100)) st4 = Inr st5"
    using constellationNamesStep_total[OF tot] by blast
  obtain st7 where s7: "planetsStep ext observer options (v / 2) (v / 2 * (91 / 100)) (v / 2 * (91 / 100) * (96 / 100))
       (starNamesStep options (v / 2) (v / 2 * (91 / 100) * (96 / 100)) ps st5) = Inr st7"
    using planetsStep_total[OF tot] by blast
  obtain st9 where s9: "gridStep ext observer options (v / 2) (v / 2 * (91 / 100)) (horizonStep options (v / 2) (v / 2 * (91 / 100)) st7) = Inr st9"
    using gridStep_total[OF tot] by blast
  obtain st12 where s12: "metadataStep ext observer options (v / 2) v
       (degreeRingStep options (v / 2) (v / 2 * (91 / 100)) (cardinalsStep options (v / 2) (v / 2 * (91 / 100)) st9)) = Inr st12"
    using metadataStep_total[OF d] by blast
  show ?thesis
    unfolding buildState_def Let_def ps bindE_simps s4[unfolded st3_def] s5 s7 s9 s12 by blast
qed

lemma buildStarMapGeometry_total:
  assumes tot: "\<And>ra decl. \<exists>c. raDecToAltAz ext ra decl observer = Inr c"
    and d: "showMapDate options \<longrightarrow> date observer \<noteq> InvalidDate"
  shows "\<exists>g. buildStarMapGeometry ext stars observer options v = Inr g"
proof -
  obtain ps st where "buildState ext stars observer options v = Inr (ps, st)"
    using buildState_total[OF tot d] by blast
  then show ?thesis by (simp add: buildStarMapGeometry_def Let_def)
qed

section \<open>Where an exception comes from\<close>

lemma concatMapE_InlE:
  assumes "concatMapE f xs = Inl e"
  obtains x where "x \<in> set xs" "f x = Inl e"
  using concatMapE_Inl[OF assms] by auto

lemma projectStars_Inl:
  "projectStars ext observer options center scale stars = Inl e \<Longrightarrow>
     \<exists>ra decl. raDecToAltAz ext ra decl observer = Inl e"
  by (induction stars) (auto simp: bindE_Inl_iff Let_def split: if_splits)

lemma segmentLoop_Inl:
  "segmentLoop ext observer center scale ring ls = Inl e \<Longrightarrow>
     \<exists>ra decl. raDecToAltAz ext ra decl observer = Inl e"
  by (induction ls rule: induct_list012) (auto simp: bindE_Inl_iff Let_def)

lemma constellationsStep_Inl:
  assumes "constellationsStep ext observer options center scale ring st = Inl e"
  shows "\<exists>ra decl. raDecToAltAz ext ra decl observer = Inl e"
proof -
  from assms have "constellationLinesLoop ext observer center scale ring = Inl e"
    by (auto simp: constellationsStep_def bindE_Inl_iff split: if_splits)
  then obtain c :: Constellation where "(if length (cn_lines c) > 0
            then concatMapE (segmentLoop ext observer center scale ring) (cn_lines c)
            else Inr []) = Inl e"
    unfolding constellationLinesLoop_def Let_def
    by (rule concatMapE_InlE)
  then have "concatMapE (segmentLoop ext observer center scale ring) (cn_lines c) = Inl e"
    by (simp split: if_splits)
  then obtain ls where "segmentLoop ext observer center scale ring ls = Inl e"
    by (rule concatMapE_InlE)
  then show ?thesis by (rule segmentLoop_Inl)
qed

lemma constellationNamesStep_Inl:
  assumes "constellationNamesStep ext observer options center scale ring st = Inl e"
  shows "\<exists>ra decl. raDecToAltAz ext ra decl observer = Inl e"
proof -
  from assms have "constellationLabels ext observer center scale ring = Inl e"
    by (auto simp: constellationNamesStep_def bindE_Inl_iff Let_def split_beta split: if_splits)
  then obtain c :: Constellation where "(if length (cn_lines c) > 0 then
              bindE (visiblePointsOf ext observer center scale (cn_lines c)) (\<lambda>visiblePoints.
              Inr (constellationLabelOf center ring (cn_name c) visiblePoints))
            else Inr []) = Inl e"
    unfolding constellationLabels_def Let_def
    by (rule concatMapE_InlE)
  then have "visiblePointsOf ext observer center scale (cn_lines c) = Inl e"
    by (simp add: bindE_Inl_iff split: if_splits)
  then obtain ls :: "RaDec list" where "concatMapE (\<lambda>point.
             bindE (raDecToAltAz ext (rd_ra point) (rd_dec point) observer) (\<lambda>coord.
             Inr (if altitude coord > 0 then
                    (let proj = projectAzimuthalEquidistant (SNum (altitude coord)) (SNum (azimuth coord))
                                  DEFAULT_PROJECTION_CONFIG
                     in [\<lparr> p_x = center + val (p_x proj) * scale, p_y = center + val (p_y proj) * scale \<rparr>])
                  else []))) ls = Inl e"
    unfolding visiblePointsOf_def by (rule concatMapE_InlE)
  then obtain point :: RaDec where "bindE (raDecToAltAz ext (rd_ra point) (rd_dec point) observer) (\<lambda>coord.
             Inr (if altitude coord > 0 then
                    (let proj = projectAzimuthalEquidistant (SNum (altitude coord)) (SNum (azimuth coord))
                                  DEFAULT_PROJECTION_CONFIG
                     in [\<lparr> p_x = center + val (p_x proj) * scale, p_y = center + val (p_y proj) * scale \<rparr>])
                  else [])) = Inl e"
    by (rule concatMapE_InlE)
  then have "raDecToAltAz ext (rd_ra point) (rd_dec point) observer = Inl e"
    by (simp add: bindE_Inl_iff)
  then show ?thesis by (intro exI)
qed

lemma planetsStep_Inl:
  "planetsStep ext observer options center scale ring st = Inl e \<Longrightarrow>
     getPlanetPositions ext observer = Inl e"
  by (auto simp: planetsStep_def bindE_Inl_iff Let_def split_beta split: if_splits)

lemma gridPoints_Inl:
  assumes "gridPoints ext observer center scale raDecs = Inl e"
  shows "\<exists>ra decl. raDecToAltAz ext ra decl observer = Inl e"
proof -
  from assms obtain x where "(case x of (ra, decl) \<Rightarrow>
         bindE (raDecToAltAz ext ra decl observer) (\<lambda>coord.
         Inr (if altitude coord > - 5 then
                (let projected = projectAzimuthalEquidistant (SNum (max (altitude coord) (1 / 2)))
                                   (SNum (azimuth coord)) DEFAULT_PROJECTION_CONFIG
                 in [\<lparr> p_x = center + val (p_x projected) * scale,
                       p_y = center + val (p_y projected) * scale \<rparr>])
              else []))) = Inl e"
    unfolding gridPoints_def by (rule concatMapE_InlE)
  then have "raDecToAltAz ext (fst x) (snd x) observer = Inl e"
    by (simp add: bindE_Inl_iff split_beta)
  then show ?thesis by (intro exI)
qed

lemma equatorialGrid_Inl:
  "equatorialGrid ext observer center scale poleAlt poleAz = Inl e \<Longrightarrow>
     \<exists>ra decl. raDecToAltAz ext ra decl observer = Inl e"
  unfolding equatorialGrid_def Let_def
  by (auto dest!: concatMapE_Inl gridPoints_Inl simp: bindE_Inl_iff)

lemma gridStep_Inl:
  "gridStep ext observer options center scale st = Inl e \<Longrightarrow>
     \<exists>ra decl. raDecToAltAz ext ra decl observer = Inl e"
  by (auto simp: gridStep_def bindE_Inl_iff dest: equatorialGrid_Inl split: if_splits)

lemma metadataStep_Inl:
  "metadataStep ext observer options center v st = Inl e \<Longrightarrow>
     e = RangeError \<and> date observer = InvalidDate"
  by (auto simp: metadataStep_def formatDateTime_def toISOString_def bindE_Inl_iff Let_def
        split: if_splits Date.splits)

lemma buildState_Inl:
  assumes "buildState ext stars observer options v = Inl e"
  shows "(\<exists>ra decl. raDecToAltAz ext ra decl observer = Inl e)
       \<or> getPlanetPositions ext observer = Inl e
       \<or> (e = RangeError \<and> date observer = InvalidDate)"
  using assms unfolding buildState_def Let_def bindE_Inl_iff
  by (elim disjE exE conjE)
     (blast dest: projectStars_Inl constellationsStep_Inl constellationNamesStep_Inl
        planetsStep_Inl gridStep_Inl metadataStep_Inl)+

lemma raDecToAltAz_Inl:
  "raDecToAltAz ext ra decl observer = Inl e \<Longrightarrow>
     AstroObserver ext (latitude observer) (longitude observer) (elevation observer) = Inl e
   \<or> MakeTime ext (date observer) = Inl e
   \<or> (\<exists>t ob r d. Horizon ext t ob r d = Inl e)"
  by (auto simp: raDecToAltAz_def bindE_Inl_iff Let_def)

lemma getPlanetPositions_Inl:
  "getPlanetPositions ext observer = Inl e \<Longrightarrow>
     AstroObserver ext (latitude observer) (longitude observer) (elevation observer) = Inl e
   \<or> MakeTime ext (date observer) = Inl e"
  by (auto simp: getPlanetPositions_def bindE_Inl_iff)

lemma buildStarMapGeometry_Inl:
  assumes "buildStarMapGeometry ext stars observer options v = Inl e"
  shows "AstroObserver ext (latitude observer) (longitude observer) (elevation observer) = Inl e
   \<or> MakeTime ext (date observer) = Inl e
   \<or> (\<exists>t ob r d. Horizon ext t ob r d = Inl e)
   \<or> (e = RangeError \<and> date observer = InvalidDate)"
proof -
  from assms have "buildState ext stars observer options v = Inl e"
    by (auto simp: buildStarMapGeometry_def bindE_Inl_iff Let_def split_beta)
  from buildState_Inl[OF this] show ?thesis
    using raDecToAltAz_Inl getPlanetPositions_Inl by blast
qed

text \<open>
  Claim C3, amended: buildStarMapGeometry makes no range check of its own and never
  clamps. An exception that leaves it is an exception of an external call (the library's
  observer constructor, MakeTime or Horizon, or the date formatting of an invalid date);
  a geometry it returns carries the observer's instant and location as given; and for
  every observer, in range or not, it returns a geometry when the coordinate provider
  answers for that observer and the date text, if requested, can be formatted.
\<close>

theorem observer_not_validated:
  "(buildStarMapGeometry ext stars observer options v = Inl e \<longrightarrow>
      AstroObserver ext (latitude observer) (longitude observer) (elevation observer) = Inl e
      \<or> MakeTime ext (date observer) = Inl e
      \<or> (\<exists>t ob r d. Horizon ext t ob r d = Inl e)
      \<or> (e = RangeError \<and> date observer = InvalidDate))
   \<and> (buildStarMapGeometry ext stars observer options v = Inr g \<longrightarrow>
        timestamp (metadata g) = date observer
        \<and> location (metadata g) = formatLocation ext observer)
   \<and> ((\<forall>ra decl. \<exists>c. raDecToAltAz ext ra decl observer = Inr c)
        \<and> (showMapDate options \<longrightarrow> date observer \<noteq> InvalidDate) \<longrightarrow>
        (\<exists>g'. buildStarMapGeometry ext stars observer options v = Inr g'))"
proof (intro conjI impI)
  assume "buildStarMapGeometry ext stars observer options v = Inl e"
  then show "AstroObserver ext (latitude observer) (longitude observer) (elevation observer) = Inl e
      \<or> MakeTime ext (date observer) = Inl e
      \<or> (\<exists>t ob r d. Horizon ext t ob r d = Inl e)
      \<or> (e = RangeError \<and> date observer = InvalidDate)"
    by (rule buildStarMapGeometry_Inl)
next
  assume a: "buildStarMapGeometry ext stars observer options v = Inr g"
  show "timestamp (metadata g) = date observer"
    using a by (rule buildStarMapGeometry_InrD)
  show "location (metadata g) = formatLocation ext observer"
    using a by (rule buildStarMapGeometry_InrD)
next
  assume "(\<forall>ra decl. \<exists>c. raDecToAltAz ext ra decl observer = Inr c)
        \<and> (showMapDate options \<longrightarrow> date observer \<noteq> InvalidDate)"
  then show "\<exists>g'. buildStarMapGeometry ext stars observer options v = Inr g'"
    using buildStarMapGeometry_total[of ext observer options stars v] by blast
qed

section \<open>A planet that cannot be resolved\<close>

lemma projectStars_showPlanets:
  "projectStars ext observer (options \<lparr> showPlanets := p \<rparr>) center scale stars
     = projectStars ext observer options center scale stars"
  by (induction stars) (simp_all add: Let_def bindE_def split: sum.splits)

lemma steps_showPlanets:
  "topoStep (options \<lparr> showPlanets := p \<rparr>) center scale st = topoStep options center scale st"
  "starGlowStep (options \<lparr> showPlanets := p \<rparr>) fs st = starGlowStep options fs st"
  "constellationsStep ext observer (options \<lparr> showPlanets := p \<rparr>) center scale ring st
     = constellationsStep ext observer options center scale ring st"
  "constellationNamesStep ext observer (options \<lparr> showPlanets := p \<rparr>) center scale ring st
     = constellationNamesStep ext observer options center scale ring st"
  "starNamesStep (options \<lparr> showPlanets := p \<rparr>) center ring ps st
     = starNamesStep options center ring ps st"
  "horizonStep (options \<lparr> showPlanets := p \<rparr>) center scale st = horizonStep options center scale st"
  "gridStep ext observer (options \<lparr> showPlanets := p \<rparr>) center scale st
     = gridStep ext observer options center scale st"
  "cardinalsStep (options \<lparr> showPlanets := p \<rparr>) center scale st
     = cardinalsStep options center scale st"
  "degreeRingStep (options \<lparr> showPlanets := p \<rparr>) center scale st
     = degreeRingStep options center scale st"
  "metadataStep ext observer (options \<lparr> showPlanets := p \<rparr>) center v st
     = metadataStep ext observer options center v st"
  by (simp_all add: topoStep_def starGlowStep_def constellationsStep_def constellationNamesStep_def
        starNamesStep_def horizonStep_def gridStep_def cardinalsStep_def degreeRingStep_def
        metadataStep_def)

text \<open>Whether the grid and the metadata steps return does not depend on the state they start from.\<close>

lemma gridStep_returns:
  "gridStep ext observer options center scale st = Inr st' \<Longrightarrow>
     \<exists>st''. gridStep ext observer options center scale st2 = Inr st''"
  by (auto simp: gridStep_def bindE_Inr_iff split: if_splits)

lemma metadataStep_returns:
  "metadataStep ext observer options center v st = Inr st' \<Longrightarrow>
     \<exists>st''. metadataStep ext observer options center v st2 = Inr st''"
  by (auto simp: metadataStep_def bindE_Inr_iff Let_def split: if_splits)

text \<open>The steps after the planets step: what they write does not depend on the layers and the detector they start from, the labels of the degree ring apart.\<close>

lemma placeCardinals_prims:
  "fst (placeCardinals center scale det cs) = fst (placeCardinals center scale det' cs)"
  by (induction cs arbitrary: det det') (auto simp: Let_def split_beta)

lemma horizonStep_agree:
  "map_of (st_layers sa) k = map_of (st_layers sb) k \<Longrightarrow>
   map_of (st_layers (horizonStep options center scale sa)) k
     = map_of (st_layers (horizonStep options center scale sb)) k"
  by (simp add: horizonStep_def layers_set_lookup Let_def)

lemma gridStep_agree:
  "gridStep ext observer options center scale sa = Inr sa' \<Longrightarrow>
   gridStep ext observer options center scale sb = Inr sb' \<Longrightarrow>
   map_of (st_layers sa) k = map_of (st_layers sb) k \<Longrightarrow>
   map_of (st_layers sa') k = map_of (st_layers sb') k"
proof (cases "showGrid options")
  case False
  then show "gridStep ext observer options center scale sa = Inr sa' \<Longrightarrow>
   gridStep ext observer options center scale sb = Inr sb' \<Longrightarrow>
   map_of (st_layers sa) k = map_of (st_layers sb) k \<Longrightarrow>
   map_of (st_layers sa') k = map_of (st_layers sb') k"
    by (simp add: gridStep_def)
next
  case True
  assume a: "gridStep ext observer options center scale sa = Inr sa'"
    and b: "gridStep ext observer options center scale sb = Inr sb'"
    and k: "map_of (st_layers sa) k = map_of (st_layers sb) k"
  from a True obtain pole prims where
    p: "raDecToAltAz ext 0 90 observer = Inr pole"
    and g: "(if altitude pole > 0
               then equatorialGrid ext observer center scale (altitude pole) (azimuth pole)
               else Inr (altAzGrid center scale)) = Inr prims"
    and sa': "sa \<lparr> st_layers := layers_set Grid prims (st_layers sa) \<rparr> = sa'"
    by (simp add: gridStep_def bindE_Inr_iff) blast
  have sb': "sb \<lparr> st_layers := layers_set Grid prims (st_layers sb) \<rparr> = sb'"
    using b True p g by (simp add: gridStep_def)
  show "map_of (st_layers sa') k = map_of (st_layers sb') k"
    using k by (simp add: sa'[symmetric] sb'[symmetric] layers_set_lookup)
qed

lemma cardinalsStep_agree:
  "map_of (st_layers sa) k = map_of (st_layers sb) k \<Longrightarrow>
   map_of (st_layers (cardinalsStep options center scale sa)) k
     = map_of (st_layers (cardinalsStep options center scale sb)) k"
  using placeCardinals_prims[of center scale "labelCollision sa" cardinals "labelCollision sb"]
  by (simp add: cardinalsStep_def layers_set_lookup Let_def split_beta)

lemma degreeRingStep_agree:
  "map_of (st_layers sa) k = map_of (st_layers sb) k \<Longrightarrow>
   (k \<noteq> DegreeRing \<longrightarrow>
      map_of (st_layers (degreeRingStep options center scale sa)) k
        = map_of (st_layers (degreeRingStep options center scale sb)) k)
   \<and> (map_of (st_layers (degreeRingStep options center scale sa)) k = None
        \<longleftrightarrow> map_of (st_layers (degreeRingStep options center scale sb)) k = None)"
  by (simp add: degreeRingStep_def layers_set_lookup Let_def split_beta)

lemma metadataStep_agree:
  "metadataStep ext observer options center v sa = Inr sa' \<Longrightarrow>
   metadataStep ext observer options center v sb = Inr sb' \<Longrightarrow>
   (map_of (st_layers sa) k = map_of (st_layers sb) k \<longrightarrow>
      map_of (st_layers sa') k = map_of (st_layers sb') k)
   \<and> ((map_of (st_layers sa) k = None \<longleftrightarrow> map_of (st_layers sb) k = None) \<longrightarrow>
      (map_of (st_layers sa') k = None \<longleftrightarrow> map_of (st_layers sb') k = None))"
  by (auto simp: metadataStep_def layers_set_lookup bindE_Inr_iff Let_def split: if_splits)

lemma buildState_planets:
  assumes rest: "buildState ext stars observer (options \<lparr> showPlanets := False \<rparr>) v = Inr (ps, st0)"
    and gp: "getPlanetPositions ext observer = Inr pls"
  shows "\<exists>st. buildState ext stars observer options v = Inr (ps, st)
     \<and> (\<forall>k. k \<noteq> Planets \<longrightarrow>
            (k \<noteq> DegreeRing \<longrightarrow> map_of (st_layers st) k = map_of (st_layers st0) k)
          \<and> (map_of (st_layers st) k = None \<longleftrightarrow> map_of (st_layers st0) k = None))
     \<and> (showPlanets options \<longrightarrow>
          filter is_Circle (case map_of (st_layers st) Planets of None \<Rightarrow> []
                            | Some layer \<Rightarrow> primitives layer)
            = map (spec_planetMarker (v / 2) (v / 2 * (91 / 100)))
                (filter (spec_insideRing (v / 2) (v / 2 * (91 / 100))) pls))"
proof -
  define center where "center = v / 2"
  define scale where "scale = v / 2 * (91 / 100)"
  define ring where "ring = scale * (96 / 100)"
  define st3 where "st3 = starGlowStep options (filterStars center ring ps)
         (starsStep (filterStars center ring ps)
           (topoStep options center scale
              \<lparr> st_layers = [], labelCollision = \<lparr> placedLabels = [], padding = 8 \<rparr> \<rparr>))"
  define st6 where "st6 = starNamesStep options center ring ps"
  from rest obtain st4 st5 st7 st9 where
    p: "projectStars ext observer options center scale stars = Inr ps"
    and s4: "constellationsStep ext observer options center scale ring st3 = Inr st4"
    and s5: "constellationNamesStep ext observer options center scale ring st4 = Inr st5"
    and s7: "st7 = st6 st5"
    and s9: "gridStep ext observer options center scale (horizonStep options center scale st7) = Inr st9"
    and s12: "metadataStep ext observer options center v
               (degreeRingStep options center scale (cardinalsStep options center scale st9)) = Inr st0"
    unfolding center_def scale_def ring_def st3_def st6_def
    by (rule buildState_InrD) (simp add: steps_showPlanets projectStars_showPlanets planetsStep_def)
  obtain st7' where s7': "planetsStep ext observer options center scale ring (st6 st5) = Inr st7'"
  proof -
    have "\<exists>st7'. planetsStep ext observer options center scale ring (st6 st5) = Inr st7'"
      by (cases "showPlanets options") (simp_all add: planetsStep_def gp Let_def split_beta)
    then show ?thesis using that by blast
  qed
  obtain st9' where s9': "gridStep ext observer options center scale
                            (horizonStep options center scale st7') = Inr st9'"
    using gridStep_returns[OF s9] by blast
  obtain st12' where s12': "metadataStep ext observer options center v
               (degreeRingStep options center scale (cardinalsStep options center scale st9')) = Inr st12'"
    using metadataStep_returns[OF s12] by blast
  have bs: "buildState ext stars observer options v = Inr (ps, st12')"
    unfolding buildState_def Let_def
    using p s4 s5 s7' s9' s12'
    by (simp add: center_def scale_def ring_def st3_def st6_def)
  have others: "(k \<noteq> DegreeRing \<longrightarrow> map_of (st_layers st12') k = map_of (st_layers st0) k)
          \<and> (map_of (st_layers st12') k = None \<longleftrightarrow> map_of (st_layers st0) k = None)"
    if k: "k \<noteq> Planets" for k
  proof -
    have a7: "map_of (st_layers st7') k = map_of (st_layers st7) k"
      using planetsStep_frame[OF s7' k] by (simp add: s7)
    have a9: "map_of (st_layers st9') k = map_of (st_layers st9) k"
      by (rule gridStep_agree[OF s9' s9 horizonStep_agree[OF a7]])
    have a10: "map_of (st_layers (cardinalsStep options center scale st9')) k
             = map_of (st_layers (cardinalsStep options center scale st9)) k"
      by (rule cardinalsStep_agree[OF a9])
    note a11 = degreeRingStep_agree[OF a10, of options center scale]
    from metadataStep_agree[OF s12' s12, of k] a11 show ?thesis by blast
  qed
  have before: "map_of (st_layers (st6 st5)) Planets = None"
  proof -
    have "map_of (st_layers (st6 st5)) Planets = map_of (st_layers st4) Planets"
      using constellationNamesStep_frame[OF s5, of Planets] by (simp add: st6_def starNamesStep_frame)
    also have "\<dots> = None"
      using constellationsStep_frame[OF s4, of Planets]
      by (simp add: st3_def starGlowStep_frame starsStep_frame topoStep_frame)
    finally show ?thesis .
  qed
  have fin: "map_of (st_layers st12') Planets = map_of (st_layers st7') Planets"
  proof -
    have "map_of (st_layers st12') Planets = map_of (st_layers st9') Planets"
      using metadataStep_frame[OF s12', of Planets]
      by (simp add: degreeRingStep_frame cardinalsStep_frame)
    also have "\<dots> = map_of (st_layers st7') Planets"
      using gridStep_frame[OF s9', of Planets] by (simp add: horizonStep_frame)
    finally show ?thesis .
  qed
  have markers: "filter is_Circle (case map_of (st_layers st12') Planets of None \<Rightarrow> []
                            | Some layer \<Rightarrow> primitives layer)
            = map (spec_planetMarker center scale) (filter (spec_insideRing center scale) pls)"
    if sp: "showPlanets options"
    unfolding fin
    by (rule planetsStep_markers[OF s7'[unfolded ring_def] before sp gp])
  show ?thesis
    using bs others markers unfolding center_def scale_def by blast
qed

text \<open>
  Claim C8: if the ephemeris provider throws while resolving one planet's position, that
  single planet is omitted and the build completes normally. When the provider throws for
  the body \<open>b\<close> (in \<^verbatim>\<open>Equator\<close> or in \<^verbatim>\<open>Horizon\<close>), getPlanetPositions returns,
  in the order of its body list, the position of every other body that the provider resolves
  above the horizon. And if the build without the planets step returns a geometry, so does
  the build with it: the two have the same bounds and metadata and the same layers, the
  planets layer and the degree ring apart (the degree ring is present in both or in
  neither; its labels give way to planet labels); with the planets turned on, the circles
  of the planets layer are, in order, the markers of the returned planets that lie inside
  the ring-exclusion radius; and every primitive of the planets layer is the marker or the
  label of a returned planet.
\<close>

theorem planet_failure_omits_one_body:
  assumes mk: "MakeTime ext (date observer) = Inr time"
    and ao: "AstroObserver ext (latitude observer) (longitude observer) (elevation observer)
               = Inr astroObserver"
    and fail: "bindE (Equator ext b time astroObserver)
                 (\<lambda>equ. Horizon ext time astroObserver (eq_ra equ) (eq_dec equ)) = Inl e"
    and rest: "buildStarMapGeometry ext stars observer (options \<lparr> showPlanets := False \<rparr>) v = Inr g0"
  shows "\<exists>pls g.
       pls = List.map_filter (spec_bodyPosition ext time astroObserver)
               (filter (\<lambda>entry. fst entry \<noteq> b) planetBodies)
     \<and> getPlanetPositions ext observer = Inr pls
     \<and> buildStarMapGeometry ext stars observer options v = Inr g
     \<and> bounds g = bounds g0 \<and> metadata g = metadata g0
     \<and> (\<forall>k. k \<noteq> Planets \<longrightarrow>
            (k \<noteq> DegreeRing \<longrightarrow> layers_get g k = layers_get g0 k)
          \<and> (layers_get g k = None \<longleftrightarrow> layers_get g0 k = None))
     \<and> (showPlanets options \<longrightarrow>
          filter is_Circle (spec_layerPrimitives g Planets)
            = map (spec_planetMarker (v / 2) (v / 2 * (91 / 100)))
                (filter (spec_insideRing (v / 2) (v / 2 * (91 / 100))) pls))
     \<and> (\<forall>prim\<in>set (spec_layerPrimitives g Planets). \<exists>p\<in>set pls.
            prim = spec_planetMarker (v / 2) (v / 2 * (91 / 100)) p
          \<or> prim = spec_planetLabel (v / 2) (v / 2 * (91 / 100)) p)"
proof -
  define pls where "pls = List.map_filter (spec_bodyPosition ext time astroObserver)
               (filter (\<lambda>entry. fst entry \<noteq> b) planetBodies)"
  have gp: "getPlanetPositions ext observer = Inr pls"
    using spec_bodyPosition_fail[OF fail, of planetBodies] mk ao
    by (simp add: getPlanetPositions_def planetLoop_spec pls_def)
  from rest obtain ps st0 where
    bs0: "buildState ext stars observer (options \<lparr> showPlanets := False \<rparr>) v = Inr (ps, st0)"
    and l0: "layers g0 = st_layers st0"
    by (rule buildStarMapGeometry_InrD)
  from buildState_planets[OF bs0 gp] obtain st where
    bs: "buildState ext stars observer options v = Inr (ps, st)"
    and others: "\<forall>k. k \<noteq> Planets \<longrightarrow>
            (k \<noteq> DegreeRing \<longrightarrow> map_of (st_layers st) k = map_of (st_layers st0) k)
          \<and> (map_of (st_layers st) k = None \<longleftrightarrow> map_of (st_layers st0) k = None)"
    and markers: "showPlanets options \<longrightarrow>
          filter is_Circle (case map_of (st_layers st) Planets of None \<Rightarrow> []
                            | Some layer \<Rightarrow> primitives layer)
            = map (spec_planetMarker (v / 2) (v / 2 * (91 / 100)))
                (filter (spec_insideRing (v / 2) (v / 2 * (91 / 100))) pls)"
    by blast
  define g where "g = \<lparr> layers = st_layers st,
              bounds = \<lparr> b_width = v, b_height = v,
                         centerX = v / 2, centerY = v / 2, b_radius = v / 2 * (91 / 100) \<rparr>,
              metadata = \<lparr> starCount = length stars,
                           visibleStarCount = length ps,
                           timestamp = date observer,
                           location = formatLocation ext observer \<rparr> \<rparr>"
  have g: "buildStarMapGeometry ext stars observer options v = Inr g"
    using bs by (simp add: buildStarMapGeometry_def Let_def g_def)
  have g0: "g0 = \<lparr> layers = st_layers st0,
              bounds = \<lparr> b_width = v, b_height = v,
                         centerX = v / 2, centerY = v / 2, b_radius = v / 2 * (91 / 100) \<rparr>,
              metadata = \<lparr> starCount = length stars,
                           visibleStarCount = length ps,
                           timestamp = date observer,
                           location = formatLocation ext observer \<rparr> \<rparr>"
    using rest bs0 by (simp add: buildStarMapGeometry_def Let_def)
  have l: "layers g = st_layers st" by (simp add: g_def)
  have upper: "\<forall>prim\<in>set (spec_layerPrimitives g Planets). \<exists>p\<in>set pls.
            prim = spec_planetMarker (v / 2) (v / 2 * (91 / 100)) p
          \<or> prim = spec_planetLabel (v / 2) (v / 2 * (91 / 100)) p"
  proof (cases "map_of (st_layers st) Planets")
    case None
    then show ?thesis by (simp add: spec_layerPrimitives_def layers_get_def l)
  next
    case (Some layer)
    from final_planets_layer[OF bs Some] gp
    have "\<forall>prim\<in>set (primitives layer). \<exists>p\<in>set pls.
            prim = spec_planetMarker (v / 2) (v / 2 * (91 / 100)) p
          \<or> prim = spec_planetLabel (v / 2) (v / 2 * (91 / 100)) p"
      by simp
    then show ?thesis by (simp add: spec_layerPrimitives_def layers_get_def l Some)
  qed
  have same: "bounds g = bounds g0" "metadata g = metadata g0"
    by (simp_all add: g_def g0)
  have frame: "\<forall>k. k \<noteq> Planets \<longrightarrow>
            (k \<noteq> DegreeRing \<longrightarrow> layers_get g k = layers_get g0 k)
          \<and> (layers_get g k = None \<longleftrightarrow> layers_get g0 k = None)"
    using others by (simp add: layers_get_def l l0)
  have circles: "showPlanets options \<longrightarrow>
          filter is_Circle (spec_layerPrimitives g Planets)
            = map (spec_planetMarker (v / 2) (v / 2 * (91 / 100)))
                (filter (spec_insideRing (v / 2) (v / 2 * (91 / 100))) pls)"
    using markers by (simp add: spec_layerPrimitives_def layers_get_def l)
  show ?thesis
    by (intro exI[of _ pls] exI[of _ g] conjI pls_def gp g same frame circles upper)
qed


section \<open>Label placement\<close>

lemma intersects_commute: "intersects a b = intersects b a"
  by (auto simp: intersects_def)

lemma noCollision_iff: "noCollision bbox placed \<longleftrightarrow> (\<forall>c\<in>set placed. \<not> intersects bbox c)"
  by (induction placed) auto

lemma estimateBoundingBox_padding:
  "padding det = 8 \<Longrightarrow>
     estimateBoundingBox det x y txt anchor fontSize =
     estimateBoundingBox \<lparr> placedLabels = [], padding = 8 \<rparr> x y txt anchor fontSize"
  by (simp add: estimateBoundingBox_def)

lemma tryPlace_cases:
  assumes "tryPlace det x y txt anchor fontSize = (ok, det1)"
  shows "padding det1 = padding det"
    and "ok \<Longrightarrow> placedLabels det1 = placedLabels det @ [estimateBoundingBox det x y txt anchor fontSize]"
    and "ok \<Longrightarrow> \<forall>c\<in>set (placedLabels det). \<not> intersects (estimateBoundingBox det x y txt anchor fontSize) c"
    and "\<not> ok \<Longrightarrow> det1 = det"
  using assms
  by (auto simp: tryPlace_def canPlace_def place_def noCollision_iff Let_def split: if_splits)

lemma labelBoxes_append: "labelBoxes fs (xs @ ys) = labelBoxes fs xs @ labelBoxes fs ys"
  by (induction fs xs rule: labelBoxes.induct) auto

lemma placed_apart_Nil: "padding det = 8 \<Longrightarrow> placed_apart fs det [] det"
  by (simp add: placed_apart_def)

lemma placed_apart_skip:
  assumes "placed_apart fs det others det'" "labelBoxes fs pushed = []"
  shows "placed_apart fs det (pushed @ others) det'"
  using assms by (simp add: placed_apart_def labelBoxes_append)

lemma placed_apart_step:
  assumes t: "tryPlace det x y txt anchor fs = (ok, det1)" and p: "padding det = 8"
    and others: "placed_apart fs det1 others det'"
    and pushed: "labelBoxes fs pushed =
                   (if ok then [estimateBoundingBox \<lparr> placedLabels = [], padding = 8 \<rparr> x y txt anchor fs] else [])"
  shows "placed_apart fs det (pushed @ others) det'"
proof (cases ok)
  case False
  with tryPlace_cases(4)[OF t] have "det1 = det" by simp
  with others pushed False show ?thesis by (simp add: placed_apart_def labelBoxes_append)
next
  case True
  define bbox where "bbox = estimateBoundingBox \<lparr> placedLabels = [], padding = 8 \<rparr> x y txt anchor fs"
  have e: "estimateBoundingBox det x y txt anchor fs = bbox"
    using estimateBoundingBox_padding[OF p] by (simp add: bbox_def)
  have pl: "placedLabels det1 = placedLabels det @ [bbox]"
    using tryPlace_cases(2)[OF t True] e by simp
  have free: "\<forall>c\<in>set (placedLabels det). \<not> intersects bbox c"
    using tryPlace_cases(3)[OF t True] e by simp
  have pb: "labelBoxes fs pushed = [bbox]" using pushed True by (simp add: bbox_def)
  from others have m1: "padding det' = 8"
    and m2: "placedLabels det' = placedLabels det1 @ labelBoxes fs others"
    and m3: "\<forall>b\<in>set (labelBoxes fs others). \<forall>c\<in>set (placedLabels det1). \<not> intersects b c"
    and m4: "sorted_wrt (\<lambda>a b. \<not> intersects a b) (labelBoxes fs others)"
    by (simp_all add: placed_apart_def)
  have "\<forall>b\<in>set (labelBoxes fs others). \<not> intersects bbox b"
    using m3 pl intersects_commute by auto
  then show ?thesis
    using m1 m2 m3 m4 pl free pb by (auto simp: placed_apart_def labelBoxes_append)
qed

lemma placeConstellationLabels_apart:
  "placeConstellationLabels det ls = (prims, det') \<Longrightarrow> padding det = 8 \<Longrightarrow>
     placed_apart 11 det prims det'"
proof (induction ls arbitrary: det prims det')
  case Nil
  then show ?case by (simp add: placed_apart_Nil)
next
  case (Cons label rest)
  obtain ok det1 where t: "tryPlace det (Fin (cl_x label)) (Fin (cl_y label)) (cl_name label) AMiddle 11 = (ok, det1)"
    by fastforce
  obtain others det2 where r: "placeConstellationLabels det1 rest = (others, det2)" by fastforce
  define pushed where "pushed = (if ok then [createText (Fin (cl_x label)) (Fin (cl_y label)) (cl_name label)
                                  AMiddle BMiddle] else [])"
  have res: "prims = pushed @ others" "det' = det2"
    using Cons.prems(1) t r by (simp_all add: pushed_def)
  have p1: "padding det1 = 8" using tryPlace_cases(1)[OF t] Cons.prems(2) by simp
  have "placed_apart 11 det1 others det2" by (rule Cons.IH[OF r p1])
  then show ?case unfolding res
    by (rule placed_apart_step[OF t Cons.prems(2)]) (simp add: pushed_def createText_def)
qed

lemma placeStarNames_apart:
  "placeStarNames det ss = (prims, det') \<Longrightarrow> padding det = 8 \<Longrightarrow>
     placed_apart 9 det prims det'"
proof (induction ss arbitrary: det prims det')
  case Nil
  then show ?case by (simp add: placed_apart_Nil)
next
  case (Cons star rest)
  define labelX where "labelX = nadd (nadd (Fin (ps_x star)) (ps_radius star)) (Fin 8)"
  define labelY where "labelY = nsub (nsub (Fin (ps_y star)) (ps_radius star)) (Fin 2)"
  define labelText where "labelText = (case ps_name star of Some n \<Rightarrow> n | None \<Rightarrow> [])"
  obtain ok det1 where t: "tryPlace det labelX labelY labelText AStart 9 = (ok, det1)"
    by fastforce
  obtain others det2 where r: "placeStarNames det1 rest = (others, det2)" by fastforce
  define pushed where "pushed = (if ok then [createText labelX labelY labelText AStart BMiddle] else [])"
  have res: "prims = pushed @ others" "det' = det2"
    using Cons.prems(1) t r
    by (simp_all add: pushed_def Let_def labelX_def[symmetric] labelY_def[symmetric] labelText_def[symmetric])
  have p1: "padding det1 = 8" using tryPlace_cases(1)[OF t] Cons.prems(2) by simp
  have "placed_apart 9 det1 others det2" by (rule Cons.IH[OF r p1])
  then show ?case unfolding res
    by (rule placed_apart_step[OF t Cons.prems(2)]) (simp add: pushed_def createText_def)
qed

lemma placePlanets_apart:
  "placePlanets center scale ring det pls = (prims, det') \<Longrightarrow> padding det = 8 \<Longrightarrow>
     placed_apart 9 det prims det'"
proof (induction pls arbitrary: det prims det')
  case Nil
  then show ?case by (simp add: placed_apart_Nil)
next
  case (Cons planet rest)
  define planetX where "planetX = center + val (p_x (projectAzimuthalEquidistant (SNum (altitude planet)) (SNum (azimuth planet)) DEFAULT_PROJECTION_CONFIG)) * scale"
  define planetY where "planetY = center + val (p_y (projectAzimuthalEquidistant (SNum (altitude planet)) (SNum (azimuth planet)) DEFAULT_PROJECTION_CONFIG)) * scale"
  show ?case
  proof (cases "distanceFromCenter center planetX planetY \<ge> ring")
    case True
    then have "placePlanets center scale ring det rest = (prims, det')"
      using Cons.prems by (simp add: Let_def planetX_def planetY_def)
    from Cons.IH[OF this Cons.prems(2)] show ?thesis .
  next
    case False
    obtain ok det1 where t: "tryPlace det (Fin (planetX + 5)) (Fin (planetY - 5)) (pl_name planet) AStart 9 = (ok, det1)"
      by fastforce
    obtain others det2 where r: "placePlanets center scale ring det1 rest = (others, det2)"
      by fastforce
    define pushed where "pushed = createCircle (Fin planetX) (Fin planetY) (Fin 3) (Some 0)
                         # (if ok then [createText (Fin (planetX + 5)) (Fin (planetY - 5)) (pl_name planet)
                                          AStart BMiddle]
                            else [])"
    have res: "prims = pushed @ others" "det' = det2"
      using Cons.prems(1) False t r
      by (simp_all add: pushed_def Let_def planetX_def[symmetric] planetY_def[symmetric])
    have p1: "padding det1 = 8" using tryPlace_cases(1)[OF t] Cons.prems(2) by simp
    have "placed_apart 9 det1 others det2" by (rule Cons.IH[OF r p1])
    then show ?thesis unfolding res
      by (rule placed_apart_step[OF t Cons.prems(2)])
         (simp add: pushed_def createText_def createCircle_def)
  qed
qed

lemma degreeRingLoop_apart:
  "degreeRingLoop center scale det degs = (prims, det') \<Longrightarrow> padding det = 8 \<Longrightarrow>
     placed_apart 8 det prims det'"
proof (induction degs arbitrary: det prims det')
  case Nil
  then show ?case by (simp add: placed_apart_Nil)
next
  case (Cons deg rest)
  define cs where "cs = cos ((real deg - 90) * (pi / 180))"
  define sn where "sn = sin ((real deg - 90) * (pi / 180))"
  define tickInnerRadius where "tickInnerRadius =
      (if deg mod 30 = 0 then scale * (94 / 100)
       else if deg mod 10 = 0 then scale * (96 / 100) * (99 / 100)
       else scale * (96 / 100))"
  define tick where "tick = createLine (Fin (center + cs * tickInnerRadius)) (Fin (center + sn * tickInnerRadius))
                   (Fin (center + cs * (scale * 1))) (Fin (center + sn * (scale * 1)))"
  show ?case
  proof (cases "deg mod 30 = 0 \<and> \<not> deg \<in> set [0, 90, 180, 270]")
    case False
    obtain others det2 where r: "degreeRingLoop center scale det rest = (others, det2)" by fastforce
    from Cons.prems(1)
    have "(case degreeRingLoop center scale det rest of (ps, y) \<Rightarrow> (tick # ps, y)) = (prims, det')"
      by (simp only: degreeRingLoop.simps Let_def False if_False simp_thms tick_def tickInnerRadius_def
            cs_def sn_def)
    then have res: "prims = [tick] @ others" "det' = det2"
      using r by simp_all
    have "placed_apart 8 det others det2" by (rule Cons.IH[OF r Cons.prems(2)])
    then show ?thesis unfolding res
      by (rule placed_apart_skip) (simp add: tick_def createLine_def)
  next
    case True
    define labelX where "labelX = center + cs * (scale * (88 / 100))"
    define labelY where "labelY = center + sn * (scale * (88 / 100))"
    define labelText where "labelText = decimal deg @ [degreeSign]"
    obtain ok det1 where t: "tryPlace det (Fin labelX) (Fin labelY) labelText AMiddle 8 = (ok, det1)"
      by fastforce
    obtain others det2 where r: "degreeRingLoop center scale det1 rest = (others, det2)" by fastforce
    define pushed where "pushed = tick # (if ok then [createText (Fin labelX) (Fin labelY) labelText
                                               AMiddle BMiddle] else [])"
    from Cons.prems(1)
    have "(case tryPlace det (Fin labelX) (Fin labelY) labelText AMiddle 8 of
             (ok, det1) \<Rightarrow>
               (case degreeRingLoop center scale det1 rest of
                  (ps, y) \<Rightarrow>
                    ((tick # (if ok then [createText (Fin labelX) (Fin labelY) labelText
                                               AMiddle BMiddle] else [])) @ ps, y)))
           = (prims, det')"
      by (simp only: degreeRingLoop.simps Let_def True if_True simp_thms tick_def tickInnerRadius_def
            cs_def sn_def labelX_def labelY_def labelText_def)
    then have res: "prims = pushed @ others" "det' = det2"
      using t r by (simp_all add: pushed_def)
    have p1: "padding det1 = 8" using tryPlace_cases(1)[OF t] Cons.prems(2) by simp
    have "placed_apart 8 det1 others det2" by (rule Cons.IH[OF r p1])
    then show ?thesis unfolding res
      by (rule placed_apart_step[OF t Cons.prems(2)])
         (simp add: pushed_def tick_def createText_def createLine_def)
  qed
qed

lemma topoStep_det: "labelCollision (topoStep options center scale st) = labelCollision st"
  by (simp add: topoStep_def Let_def)

lemma starsStep_det: "labelCollision (starsStep fs st) = labelCollision st"
  by (simp add: starsStep_def)

lemma starGlowStep_det: "labelCollision (starGlowStep options fs st) = labelCollision st"
  by (simp add: starGlowStep_def Let_def)

lemma constellationsStep_det:
  "constellationsStep ext observer options center scale ring st = Inr st' \<Longrightarrow>
     labelCollision st' = labelCollision st"
  by (auto simp: constellationsStep_def bindE_Inr_iff split: if_splits)

lemma horizonStep_det: "labelCollision (horizonStep options center scale st) = labelCollision st"
  by (simp add: horizonStep_def Let_def)

lemma gridStep_det:
  "gridStep ext observer options center scale st = Inr st' \<Longrightarrow>
     labelCollision st' = labelCollision st"
  by (auto simp: gridStep_def bindE_Inr_iff split: if_splits)

lemma constellationNamesStep_apart:
  assumes s: "constellationNamesStep ext observer options center scale ring st = Inr st'"
    and p: "padding (labelCollision st) = 8"
    and n: "map_of (st_layers st) ConstellationNames = None"
  shows "padding (labelCollision st') = 8"
    and "map_of (st_layers st') ConstellationNames = Some layer \<Longrightarrow>
           sorted_wrt (\<lambda>a b. \<not> intersects a b) (labelBoxes 11 (primitives layer))"
proof -
  show "padding (labelCollision st') = 8"
  proof (cases "showConstellationNames options")
    case False
    with s p show ?thesis by (simp add: constellationNamesStep_def)
  next
    case True
    with s obtain labels where
      st': "(let (prims, det) = placeConstellationLabels (labelCollision st)
                     (sort_key (\<lambda>l. - int (pointCount l)) labels);
                 st1 = st \<lparr> labelCollision := det \<rparr>
             in (if length prims > 0
                 then st1 \<lparr> st_layers := layers_set ConstellationNames prims (st_layers st1) \<rparr>
                 else st1)) = st'"
      by (auto simp: constellationNamesStep_def bindE_Inr_iff Let_def split_beta)
    obtain prims det where pl: "placeConstellationLabels (labelCollision st)
                     (sort_key (\<lambda>l. - int (pointCount l)) labels) = (prims, det)"
      by fastforce
    from placeConstellationLabels_apart[OF pl p] st' pl show ?thesis
      by (auto simp: placed_apart_def Let_def)
  qed
next
  assume l: "map_of (st_layers st') ConstellationNames = Some layer"
  have sc: "showConstellationNames options"
  proof (rule ccontr)
    assume "\<not> showConstellationNames options"
    with s have "st' = st" by (simp add: constellationNamesStep_def)
    with l n show False by simp
  qed
  with s obtain labels where
    st': "(let (prims, det) = placeConstellationLabels (labelCollision st)
                   (sort_key (\<lambda>l. - int (pointCount l)) labels);
               st1 = st \<lparr> labelCollision := det \<rparr>
           in (if length prims > 0
               then st1 \<lparr> st_layers := layers_set ConstellationNames prims (st_layers st1) \<rparr>
               else st1)) = st'"
    by (auto simp: constellationNamesStep_def bindE_Inr_iff Let_def split_beta)
  obtain prims det where pl: "placeConstellationLabels (labelCollision st)
                   (sort_key (\<lambda>l. - int (pointCount l)) labels) = (prims, det)"
    by fastforce
  have "primitives layer = prims"
    using l st' pl n by (auto simp: layers_set_lookup Let_def split: if_splits)
  with placeConstellationLabels_apart[OF pl p]
  show "sorted_wrt (\<lambda>a b. \<not> intersects a b) (labelBoxes 11 (primitives layer))"
    by (simp add: placed_apart_def)
qed

lemma starNamesStep_apart:
  assumes p: "padding (labelCollision st) = 8"
    and n: "map_of (st_layers st) StarNames = None"
  shows "padding (labelCollision (starNamesStep options center ring ps st)) = 8"
    and "map_of (st_layers (starNamesStep options center ring ps st)) StarNames = Some layer \<Longrightarrow>
           sorted_wrt (\<lambda>a b. \<not> intersects a b) (labelBoxes 9 (primitives layer))"
proof -
  obtain prims det where pl: "placeStarNames (labelCollision st) (brightStars center ring ps) = (prims, det)"
    by fastforce
  note a = placeStarNames_apart[OF pl p]
  show "padding (labelCollision (starNamesStep options center ring ps st)) = 8"
    using a p pl by (auto simp: starNamesStep_def placed_apart_def Let_def)
  assume l: "map_of (st_layers (starNamesStep options center ring ps st)) StarNames = Some layer"
  have "primitives layer = prims"
    using l pl n by (auto simp: starNamesStep_def layers_set_lookup Let_def split: if_splits)
  with a show "sorted_wrt (\<lambda>a b. \<not> intersects a b) (labelBoxes 9 (primitives layer))"
    by (simp add: placed_apart_def)
qed

lemma planetsStep_apart:
  assumes s: "planetsStep ext observer options center scale ring st = Inr st'"
    and p: "padding (labelCollision st) = 8"
    and n: "map_of (st_layers st) Planets = None"
  shows "padding (labelCollision st') = 8"
    and "map_of (st_layers st') Planets = Some layer \<Longrightarrow>
           sorted_wrt (\<lambda>a b. \<not> intersects a b) (labelBoxes 9 (primitives layer))"
proof -
  show "padding (labelCollision st') = 8"
  proof (cases "showPlanets options")
    case False
    with s p show ?thesis by (simp add: planetsStep_def)
  next
    case True
    with s obtain pls where
      st': "(let (prims, det) = placePlanets center scale ring (labelCollision st) pls;
                 st1 = st \<lparr> labelCollision := det \<rparr>
             in (if length prims > 0
                 then st1 \<lparr> st_layers := layers_set Planets prims (st_layers st1) \<rparr>
                 else st1)) = st'"
      by (auto simp: planetsStep_def bindE_Inr_iff Let_def split_beta)
    obtain prims det where pl: "placePlanets center scale ring (labelCollision st) pls = (prims, det)"
      by fastforce
    from placePlanets_apart[OF pl p] st' pl show ?thesis
      by (auto simp: placed_apart_def Let_def)
  qed
next
  assume l: "map_of (st_layers st') Planets = Some layer"
  have sc: "showPlanets options"
  proof (rule ccontr)
    assume "\<not> showPlanets options"
    with s have "st' = st" by (simp add: planetsStep_def)
    with l n show False by simp
  qed
  with s obtain pls where
    st': "(let (prims, det) = placePlanets center scale ring (labelCollision st) pls;
               st1 = st \<lparr> labelCollision := det \<rparr>
           in (if length prims > 0
               then st1 \<lparr> st_layers := layers_set Planets prims (st_layers st1) \<rparr>
               else st1)) = st'"
    by (auto simp: planetsStep_def bindE_Inr_iff Let_def split_beta)
  obtain prims det where pl: "placePlanets center scale ring (labelCollision st) pls = (prims, det)"
    by fastforce
  have "primitives layer = prims"
    using l st' pl n by (auto simp: layers_set_lookup Let_def split: if_splits)
  with placePlanets_apart[OF pl p]
  show "sorted_wrt (\<lambda>a b. \<not> intersects a b) (labelBoxes 9 (primitives layer))"
    by (simp add: placed_apart_def)
qed

lemma placeCardinals_padding:
  "placeCardinals center scale det cs = (prims, det') \<Longrightarrow> padding det' = padding det"
proof (induction cs arbitrary: det prims det')
  case Nil
  then show ?case by simp
next
  case (Cons c rest)
  obtain label az where c: "c = (label, az)" by (cases c)
  define det1 where "det1 = place det
      (Fin (center + val (p_x (projectAzimuthalEquidistant (SNum (- 5)) (SNum az) DEFAULT_PROJECTION_CONFIG)) * scale))
      (Fin (center + val (p_y (projectAzimuthalEquidistant (SNum (- 5)) (SNum az) DEFAULT_PROJECTION_CONFIG)) * scale))
      label AMiddle 14"
  obtain others det2 where r: "placeCardinals center scale det1 rest = (others, det2)" by fastforce
  have "det' = det2" using Cons.prems c r by (simp add: Let_def det1_def)
  moreover have "padding det1 = padding det" by (simp add: det1_def place_def Let_def)
  ultimately show ?case using Cons.IH[OF r] by simp
qed

lemma cardinalsStep_padding:
  "padding (labelCollision (cardinalsStep options center scale st)) = padding (labelCollision st)"
proof -
  obtain prims det where pl: "placeCardinals center scale (labelCollision st) cardinals = (prims, det)"
    by fastforce
  from placeCardinals_padding[OF pl] pl show ?thesis
    by (simp add: cardinalsStep_def Let_def)
qed

lemma degreeRingStep_apart:
  assumes p: "padding (labelCollision st) = 8"
    and n: "map_of (st_layers st) DegreeRing = None"
    and l: "map_of (st_layers (degreeRingStep options center scale st)) DegreeRing = Some layer"
  shows "sorted_wrt (\<lambda>a b. \<not> intersects a b) (labelBoxes 8 (primitives layer))"
proof -
  obtain ticks det where pl:
    "degreeRingLoop center scale (labelCollision st) (map (\<lambda>k. 2 * k) [0..<180]) = (ticks, det)"
    by fastforce
  note a = degreeRingLoop_apart[OF pl p]
  have "labelBoxes 8 (primitives layer) = labelBoxes 8 ticks"
    using l pl n
    by (auto simp: degreeRingStep_def layers_set_lookup Let_def labelBoxes_append createCircle_def
          split: if_splits)
  with a show ?thesis by (simp add: placed_apart_def)
qed

lemma final_label_layers:
  assumes b: "buildState ext stars observer options v = Inr (ps, st)"
    and k: "(ty, fontSize) \<in> {(ConstellationNames, 11), (StarNames, 9), (Planets, 9), (DegreeRing, 8)}"
    and l: "map_of (st_layers st) ty = Some layer"
  shows "sorted_wrt (\<lambda>a b. \<not> intersects a b) (labelBoxes fontSize (primitives layer))"
proof -
  define center where "center = v / 2"
  define scale where "scale = v / 2 * (91 / 100)"
  define ring where "ring = scale * (96 / 100)"
  define st3 where "st3 = starGlowStep options (filterStars center ring ps)
         (starsStep (filterStars center ring ps)
           (topoStep options center scale
              \<lparr> st_layers = [], labelCollision = \<lparr> placedLabels = [], padding = 8 \<rparr> \<rparr>))"
  from b obtain st4 st5 st7 st9 where
    s4: "constellationsStep ext observer options center scale ring st3 = Inr st4"
    and s5: "constellationNamesStep ext observer options center scale ring st4 = Inr st5"
    and s7: "planetsStep ext observer options center scale ring
               (starNamesStep options center ring ps st5) = Inr st7"
    and s9: "gridStep ext observer options center scale (horizonStep options center scale st7) = Inr st9"
    and s12: "metadataStep ext observer options center v
               (degreeRingStep options center scale (cardinalsStep options center scale st9)) = Inr st"
    unfolding center_def scale_def ring_def st3_def by (rule buildState_InrD)
  define st6 where "st6 = starNamesStep options center ring ps st5"
  define st10 where "st10 = cardinalsStep options center scale st9"
  define st11 where "st11 = degreeRingStep options center scale st10"
  have none3: "map_of (st_layers st3) k' = None"
    if "k' \<in> {ConstellationNames, StarNames, Planets, DegreeRing}" for k'
    using that by (auto simp: st3_def starGlowStep_frame starsStep_frame topoStep_frame)
  have none4: "map_of (st_layers st4) k' = None"
    if "k' \<in> {ConstellationNames, StarNames, Planets, DegreeRing}" for k'
    using that constellationsStep_frame[OF s4, of k'] none3[of k'] by auto
  have none5: "map_of (st_layers st5) k' = None" if "k' \<in> {StarNames, Planets, DegreeRing}" for k'
    using that constellationNamesStep_frame[OF s5, of k'] none4[of k'] by auto
  have none6: "map_of (st_layers st6) k' = None" if "k' \<in> {Planets, DegreeRing}" for k'
    using that none5[of k'] by (auto simp: st6_def starNamesStep_frame)
  have none7: "map_of (st_layers st7) DegreeRing = None"
    using planetsStep_frame[OF s7[folded st6_def], of DegreeRing] none6[of DegreeRing] by simp
  have none10: "map_of (st_layers st10) DegreeRing = None"
    using gridStep_frame[OF s9, of DegreeRing] none7
    by (simp add: st10_def cardinalsStep_frame horizonStep_frame)
  have p3: "padding (labelCollision st3) = 8"
    by (simp add: st3_def starGlowStep_det starsStep_det topoStep_det)
  have p4: "padding (labelCollision st4) = 8"
    using constellationsStep_det[OF s4] p3 by simp
  have p5: "padding (labelCollision st5) = 8"
    by (rule constellationNamesStep_apart(1)[OF s5 p4 none4]) simp
  have p6: "padding (labelCollision st6) = 8"
    unfolding st6_def by (rule starNamesStep_apart(1)[OF p5 none5]) simp
  have p7: "padding (labelCollision st7) = 8"
    by (rule planetsStep_apart(1)[OF s7[folded st6_def] p6 none6]) simp
  have p10: "padding (labelCollision st10) = 8"
    using gridStep_det[OF s9] p7 by (simp add: st10_def cardinalsStep_padding horizonStep_det)
  have after11: "map_of (st_layers st) k' = map_of (st_layers st11) k'" if "k' \<noteq> Metadata" for k'
    using metadataStep_frame[OF s12[folded st10_def st11_def] that] .
  have after7: "map_of (st_layers st) k' = map_of (st_layers st7) k'"
    if "k' \<in> {ConstellationNames, StarNames, Planets}" for k'
  proof -
    have "map_of (st_layers st) k' = map_of (st_layers st9) k'"
      using that after11[of k'] by (auto simp: st11_def st10_def degreeRingStep_frame cardinalsStep_frame)
    also have "\<dots> = map_of (st_layers st7) k'"
      using that gridStep_frame[OF s9, of k'] by (auto simp: horizonStep_frame)
    finally show ?thesis .
  qed
  from k consider (cn) "ty = ConstellationNames" "fontSize = 11" | (sn) "ty = StarNames" "fontSize = 9"
    | (pl) "ty = Planets" "fontSize = 9" | (dr) "ty = DegreeRing" "fontSize = 8"
    by auto
  then show ?thesis
  proof cases
    case cn
    have "map_of (st_layers st) ConstellationNames = map_of (st_layers st5) ConstellationNames"
      using after7[of ConstellationNames] planetsStep_frame[OF s7, of ConstellationNames]
      by (simp add: starNamesStep_frame)
    with l cn have "map_of (st_layers st5) ConstellationNames = Some layer" by simp
    from constellationNamesStep_apart(2)[OF s5 p4 none4 this] cn show ?thesis by simp
  next
    case sn
    have "map_of (st_layers st) StarNames = map_of (st_layers st6) StarNames"
      using after7[of StarNames] planetsStep_frame[OF s7, of StarNames]
      by (simp add: st6_def)
    with l sn have "map_of (st_layers (starNamesStep options center ring ps st5)) StarNames = Some layer"
      by (simp add: st6_def)
    from starNamesStep_apart(2)[OF p5 none5 this] sn show ?thesis by simp
  next
    case pl
    from l pl after7[of Planets] have "map_of (st_layers st7) Planets = Some layer" by simp
    from planetsStep_apart(2)[OF s7[folded st6_def] p6 none6 this] pl show ?thesis by simp
  next
    case dr
    from l dr after11[of DegreeRing]
    have "map_of (st_layers (degreeRingStep options center scale st10)) DegreeRing = Some layer"
      by (simp add: st11_def)
    from degreeRingStep_apart[OF p10 none10 this] dr show ?thesis by simp
  qed
qed

text \<open>
  Claim C9, amended: within a geometry built by buildStarMapGeometry, no two text
  primitives of the same class placed with tryPlace (constellation names with font size 11,
  star names with 9, planet labels with 9, degree-ring labels with 8) have intersecting
  estimated bounding boxes, for the detector's padding of 8. The cardinal labels, which are
  placed without a test, are not covered.
\<close>

theorem placed_labels_do_not_overlap:
  assumes "buildStarMapGeometry ext stars observer options v = Inr g"
    and "(ty, fontSize) \<in> {(ConstellationNames, 11), (StarNames, 9), (Planets, 9), (DegreeRing, 8)}"
    and "layers_get g ty = Some layer"
    and "i < j" and "j < length (labelBoxes fontSize (primitives layer))"
  shows "\<not> intersects (labelBoxes fontSize (primitives layer) ! i)
                      (labelBoxes fontSize (primitives layer) ! j)"
proof -
  from assms(1) obtain ps st where b: "buildState ext stars observer options v = Inr (ps, st)"
    and l: "layers g = st_layers st"
    by (rule buildStarMapGeometry_InrD)
  from assms(3) l have "map_of (st_layers st) ty = Some layer" by (simp add: layers_get_def)
  from final_label_layers[OF b assms(2) this] assms(4,5) show ?thesis
    by (simp add: sorted_wrt_iff_nth_less)
qed

section \<open>Layers that cannot be empty\<close>

lemma set_update_subset: "set (AList.update k v al) \<subseteq> insert (k, v) (set al)"
  by (induction al) auto

lemma nonempty_layers_set:
  assumes "nonempty_layers ls" "prims \<noteq> [] \<or> ty = Stars"
  shows "nonempty_layers (layers_set ty prims ls)"
proof -
  have "set (layers_set ty prims ls)
          \<subseteq> insert (ty, \<lparr> layer_type = ty, primitives = prims, layer_visible = True \<rparr>) (set ls)"
    unfolding layers_set_def by (rule set_update_subset)
  with assms show ?thesis unfolding nonempty_layers_def by fastforce
qed

lemma topoStep_nonempty:
  "nonempty_layers (st_layers st) \<Longrightarrow> nonempty_layers (st_layers (topoStep options center scale st))"
  by (simp add: topoStep_def Let_def nonempty_layers_set)

lemma starsStep_nonempty:
  "nonempty_layers (st_layers st) \<Longrightarrow> nonempty_layers (st_layers (starsStep fs st))"
  by (simp add: starsStep_def nonempty_layers_set)

lemma starGlowStep_nonempty:
  "nonempty_layers (st_layers st) \<Longrightarrow> nonempty_layers (st_layers (starGlowStep options fs st))"
  by (simp add: starGlowStep_def Let_def nonempty_layers_set)

lemma constellationsStep_nonempty:
  "constellationsStep ext observer options center scale ring st = Inr st' \<Longrightarrow>
     nonempty_layers (st_layers st) \<Longrightarrow> nonempty_layers (st_layers st')"
  by (auto simp: constellationsStep_def bindE_Inr_iff nonempty_layers_set split: if_splits)

lemma constellationNamesStep_nonempty:
  "constellationNamesStep ext observer options center scale ring st = Inr st' \<Longrightarrow>
     nonempty_layers (st_layers st) \<Longrightarrow> nonempty_layers (st_layers st')"
  by (auto simp: constellationNamesStep_def bindE_Inr_iff Let_def split_beta nonempty_layers_set
        split: if_splits)

lemma starNamesStep_nonempty:
  "nonempty_layers (st_layers st) \<Longrightarrow>
     nonempty_layers (st_layers (starNamesStep options center ring ps st))"
  by (simp add: starNamesStep_def Let_def split_beta nonempty_layers_set)

lemma planetsStep_nonempty:
  "planetsStep ext observer options center scale ring st = Inr st' \<Longrightarrow>
     nonempty_layers (st_layers st) \<Longrightarrow> nonempty_layers (st_layers st')"
  by (auto simp: planetsStep_def bindE_Inr_iff Let_def split_beta nonempty_layers_set
        split: if_splits)

lemma horizonStep_nonempty:
  "nonempty_layers (st_layers st) \<Longrightarrow> nonempty_layers (st_layers (horizonStep options center scale st))"
  by (simp add: horizonStep_def Let_def nonempty_layers_set)

lemma equatorialGrid_nonempty:
  "equatorialGrid ext observer center scale poleAlt poleAz = Inr prims \<Longrightarrow> prims \<noteq> []"
  by (auto simp: equatorialGrid_def bindE_Inr_iff Let_def)

lemma gridStep_nonempty:
  "gridStep ext observer options center scale st = Inr st' \<Longrightarrow>
     nonempty_layers (st_layers st) \<Longrightarrow> nonempty_layers (st_layers st')"
  by (auto simp: gridStep_def bindE_Inr_iff altAzGrid_def nonempty_layers_set
        dest: equatorialGrid_nonempty split: if_splits)

lemma placeCardinals_nonempty:
  "placeCardinals center scale det (c # cs) = (prims, det') \<Longrightarrow> prims \<noteq> []"
  by (cases c) (auto simp: Let_def split_beta)

lemma cardinalsStep_nonempty:
  "nonempty_layers (st_layers st) \<Longrightarrow>
     nonempty_layers (st_layers (cardinalsStep options center scale st))"
proof -
  assume a: "nonempty_layers (st_layers st)"
  obtain prims det where p: "placeCardinals center scale (labelCollision st) cardinals = (prims, det)"
    by fastforce
  then have "prims \<noteq> []" unfolding cardinals_def by (rule placeCardinals_nonempty)
  with a p show ?thesis by (simp add: cardinalsStep_def nonempty_layers_set)
qed

lemma degreeRingStep_nonempty:
  "nonempty_layers (st_layers st) \<Longrightarrow>
     nonempty_layers (st_layers (degreeRingStep options center scale st))"
  by (simp add: degreeRingStep_def Let_def split_beta nonempty_layers_set)

lemma metadataStep_nonempty:
  "metadataStep ext observer options center v st = Inr st' \<Longrightarrow>
     nonempty_layers (st_layers st) \<Longrightarrow> nonempty_layers (st_layers st')"
  by (auto simp: metadataStep_def bindE_Inr_iff Let_def nonempty_layers_set split: if_splits)

lemma buildState_nonempty:
  assumes "buildState ext stars observer options v = Inr (ps, st)"
  shows "nonempty_layers (st_layers st)"
proof -
  from assms obtain st4 st5 st7 st9 where
    s4: "constellationsStep ext observer options (v / 2) (v / 2 * (91 / 100)) (v / 2 * (91 / 100) * (96 / 100))
       (starGlowStep options (filterStars (v / 2) (v / 2 * (91 / 100) * (96 / 100)) ps)
         (starsStep (filterStars (v / 2) (v / 2 * (91 / 100) * (96 / 100)) ps)
           (topoStep options (v / 2) (v / 2 * (91 / 100))
              \<lparr> st_layers = [], labelCollision = \<lparr> placedLabels = [], padding = 8 \<rparr> \<rparr>))) = Inr st4"
    and s5: "constellationNamesStep ext observer options (v / 2) (v / 2 * (91 / 100)) (v / 2 * (91 / 100) * (96 / 100)) st4 = Inr st5"
    and s7: "planetsStep ext observer options (v / 2) (v / 2 * (91 / 100)) (v / 2 * (91 / 100) * (96 / 100))
       (starNamesStep options (v / 2) (v / 2 * (91 / 100) * (96 / 100)) ps st5) = Inr st7"
    and s9: "gridStep ext observer options (v / 2) (v / 2 * (91 / 100)) (horizonStep options (v / 2) (v / 2 * (91 / 100)) st7) = Inr st9"
    and s12: "metadataStep ext observer options (v / 2) v
       (degreeRingStep options (v / 2) (v / 2 * (91 / 100)) (cardinalsStep options (v / 2) (v / 2 * (91 / 100)) st9)) = Inr st"
    by (rule buildState_InrD)
  have "nonempty_layers (st_layers \<lparr> st_layers = [], labelCollision = \<lparr> placedLabels = [], padding = 8 \<rparr> \<rparr>)"
    by (simp add: nonempty_layers_def)
  then have "nonempty_layers (st_layers st4)"
    by (intro constellationsStep_nonempty[OF s4] starGlowStep_nonempty starsStep_nonempty
          topoStep_nonempty)
  then have "nonempty_layers (st_layers st5)" by (rule constellationNamesStep_nonempty[OF s5])
  then have "nonempty_layers (st_layers st7)"
    by (intro planetsStep_nonempty[OF s7] starNamesStep_nonempty)
  then have "nonempty_layers (st_layers st9)"
    by (intro gridStep_nonempty[OF s9] horizonStep_nonempty)
  then show ?thesis
    by (intro metadataStep_nonempty[OF s12] degreeRingStep_nonempty cardinalsStep_nonempty)
qed

lemma other_layers_nonempty:
  assumes "buildStarMapGeometry ext stars observer options v = Inr g"
    and "layers_get g ty = Some layer" and "ty \<noteq> Stars"
  shows "primitives layer \<noteq> []"
proof -
  from assms(1) obtain ps st where b: "buildState ext stars observer options v = Inr (ps, st)"
    and l: "layers g = st_layers st"
    by (rule buildStarMapGeometry_InrD)
  from assms(2) l have "(ty, layer) \<in> set (st_layers st)"
    by (simp add: layers_get_def map_of_SomeD)
  with buildState_nonempty[OF b] assms(3) show ?thesis
    by (auto simp: nonempty_layers_def)
qed

section \<open>The builder on sample inputs\<close>

lemmas build_defs =
  buildStarMapGeometry_def buildState_def topoStep_def filterStars_def starsStep_def
  starPrimitives_def starGlowStep_def constellationsStep_def constellationNamesStep_def
  starNamesStep_def planetsStep_def horizonStep_def gridStep_def cardinalsStep_def
  degreeRingStep_def metadataStep_def layers_set_def

lemmas label_defs =
  tryPlace_def canPlace_def place_def estimateBoundingBox_def intersects_def
  createText_def createCircle_def createLine_def ustr_def

lemma distanceFromCenter_axis:
  "distanceFromCenter c c y = \<bar>y - c\<bar>"
  "distanceFromCenter c x c = \<bar>x - c\<bar>"
  by (simp_all add: distanceFromCenter_def Let_def)

lemma trig_three_halves_pi:
  "sin (3 * pi / 2) = - 1" "cos (3 * pi / 2) = 0"
  using sin_3over2_pi cos_3over2_pi by (simp_all add: mult.commute)

lemma sampleExternals_simps:
  "MakeTime sampleExternals d = Inr ()"
  "AstroObserver sampleExternals lat lon el = Inr ()"
  "Horizon sampleExternals t ob raHours decl = Inr \<lparr> altitude = decl, azimuth = raHours * 15 \<rparr>"
  "Equator sampleExternals Mercury t ob = Inr \<lparr> eq_ra = 12, eq_dec = 10 \<rparr>"
  "Equator sampleExternals Venus t ob = Inr \<lparr> eq_ra = 6, eq_dec = 30 \<rparr>"
  "Equator sampleExternals Mars t ob = Inl (Thrown (ustr ''Mars''))"
  "Equator sampleExternals Jupiter t ob = Inr \<lparr> eq_ra = 0, eq_dec = - 20 \<rparr>"
  "Equator sampleExternals Saturn t ob = Inr \<lparr> eq_ra = 12, eq_dec = 10 \<rparr>"
  "constellationData sampleExternals =
         [\<lparr> cn_name = ustr ''Tri'',
            cn_lines = [[\<lparr> rd_ra = 0, rd_dec = 60 \<rparr>, \<lparr> rd_ra = 90, rd_dec = 60 \<rparr>,
                         \<lparr> rd_ra = 180, rd_dec = - 10 \<rparr>, \<lparr> rd_ra = 180, rd_dec = 2 \<rparr>,
                         \<lparr> rd_ra = 270, rd_dec = 60 \<rparr>]] \<rparr>]"
  by (simp_all add: sampleExternals_def)

lemma raDecToAltAz_sample:
  "raDecToAltAz sampleExternals ra decl observer = Inr \<lparr> altitude = decl, azimuth = ra \<rparr>"
  by (simp add: raDecToAltAz_def sampleExternals_simps Let_def)

lemma strictExternals_simps:
  "MakeTime strictExternals d = (if d = InvalidDate then Inl (Thrown (ustr ''date'')) else Inr ())"
  "AstroObserver strictExternals lat lon el =
     (if lat < - 90 \<or> lat > 90 then Inl (Thrown (ustr ''latitude'')) else Inr ())"
  by (simp_all add: strictExternals_def)

lemma eval_strict_empty:
  "buildStarMapGeometry strictExternals [] badObserver noOptions 500 =
     Inr \<lparr> layers = [(Stars, \<lparr> layer_type = Stars, primitives = [], layer_visible = True \<rparr>)],
           bounds = \<lparr> b_width = 500, b_height = 500, centerX = 250, centerY = 250,
                      b_radius = 455 / 2 \<rparr>,
           metadata = \<lparr> starCount = 0, visibleStarCount = 0, timestamp = InvalidDate,
                        location = formatLocation strictExternals badObserver \<rparr> \<rparr>"
  by (simp add: build_defs noOptions_def badObserver_def Let_def)

lemma eval_strict_stars:
  "buildStarMapGeometry strictExternals sampleStars badObserver noOptions 500 =
     Inl (Thrown (ustr ''latitude''))"
  by (simp add: build_defs noOptions_def badObserver_def sampleStars_def Let_def
        raDecToAltAz_def strictExternals_simps)

lemma eval_sample_empty:
  "buildStarMapGeometry sampleExternals [] greenwich noOptions 500 =
     Inr \<lparr> layers = [(Stars, \<lparr> layer_type = Stars, primitives = [], layer_visible = True \<rparr>)],
           bounds = \<lparr> b_width = 500, b_height = 500, centerX = 250, centerY = 250,
                      b_radius = 455 / 2 \<rparr>,
           metadata = \<lparr> starCount = 0, visibleStarCount = 0, timestamp = DateAt 0,
                        location = formatLocation sampleExternals greenwich \<rparr> \<rparr>"
  by (simp add: build_defs noOptions_def greenwich_def Let_def)

lemma eval_cardinals:
  "buildStarMapGeometry sampleExternals [] greenwich cardinalsOnly 1 =
     Inr \<lparr> layers =
             [(Stars, \<lparr> layer_type = Stars, primitives = [], layer_visible = True \<rparr>),
              (Cardinals, \<lparr> layer_type = Cardinals,
                 primitives =
                   [Text (Fin (1 / 2)) (Fin (71 / 3600)) (ustr ''N'') AMiddle BMiddle,
                    Text (Fin (3529 / 3600)) (Fin (1 / 2)) (ustr ''E'') AMiddle BMiddle,
                    Text (Fin (1 / 2)) (Fin (3529 / 3600)) (ustr ''S'') AMiddle BMiddle,
                    Text (Fin (71 / 3600)) (Fin (1 / 2)) (ustr ''W'') AMiddle BMiddle],
                 layer_visible = True \<rparr>)],
           bounds = \<lparr> b_width = 1, b_height = 1, centerX = 1 / 2, centerY = 1 / 2,
                      b_radius = 91 / 200 \<rparr>,
           metadata = \<lparr> starCount = 0, visibleStarCount = 0, timestamp = DateAt 0,
                        location = formatLocation sampleExternals greenwich \<rparr> \<rparr>"
  by (simp add: build_defs noOptions_def cardinalsOnly_def greenwich_def Let_def cardinals_def
       project_default label_defs trig_three_halves_pi)

lemma eval_planets_layer:
  "buildStarMapGeometry sampleExternals [] greenwich planetsOnly 500 =
     Inr \<lparr> layers =
             [(Stars, \<lparr> layer_type = Stars, primitives = [], layer_visible = True \<rparr>),
              (Planets, \<lparr> layer_type = Planets,
                 primitives =
                   [Circle (Fin 250) (Fin (4070 / 9)) (Fin 3) (Some 0),
                    Text (Fin 255) (Fin (4025 / 9)) (ustr ''Mercury'') AStart BMiddle,
                    Circle (Fin (1205 / 3)) (Fin 250) (Fin 3) (Some 0),
                    Text (Fin (1220 / 3)) (Fin 245) (ustr ''Venus'') AStart BMiddle,
                    Circle (Fin 250) (Fin (4070 / 9)) (Fin 3) (Some 0)],
                 layer_visible = True \<rparr>)],
           bounds = \<lparr> b_width = 500, b_height = 500, centerX = 250, centerY = 250,
                      b_radius = 455 / 2 \<rparr>,
           metadata = \<lparr> starCount = 0, visibleStarCount = 0, timestamp = DateAt 0,
                        location = formatLocation sampleExternals greenwich \<rparr> \<rparr>"
  by (simp add: build_defs noOptions_def planetsOnly_def greenwich_def Let_def
       project_default label_defs getPlanetPositions_def planetBodies_def sampleExternals_simps
       distanceFromCenter_axis)

lemma sample_total:
  "\<exists>g. buildStarMapGeometry sampleExternals stars observer noOptions v = Inr g"
  "\<exists>g. buildStarMapGeometry sampleExternals stars observer constellationsOnly v = Inr g"
  "\<exists>g. buildStarMapGeometry sampleExternals stars observer planetsOnly v = Inr g"
  by (rule buildStarMapGeometry_total;
      simp add: raDecToAltAz_sample noOptions_def constellationsOnly_def planetsOnly_def)+

text \<open>
  Claim C5 on a sample: of four catalog stars, one passes both tests.
\<close>

theorem visibility_filter_witness:
  "\<exists>g ps. buildStarMapGeometry sampleExternals sampleStars greenwich noOptions 500 = Inr g
     \<and> projectStars sampleExternals greenwich noOptions (500 / 2) (500 / 2 * (91 / 100)) sampleStars
         = Inr ps
     \<and> map ps_hip ps = [1]
     \<and> (\<forall>p\<in>set ps. 0 < ps_altitude p \<and> ps_magnitude p \<le> 6)
     \<and> visibleStarCount (metadata g) = 1"
proof -
  obtain g where g: "buildStarMapGeometry sampleExternals sampleStars greenwich noOptions 500 = Inr g"
    using sample_total(1) by blast
  have f: "filter (spec_visible sampleExternals greenwich noOptions) sampleStars
             = [\<lparr> cs_hip = 1, cs_ra = 0, cs_dec = 45, cs_mag = 1, cs_name = None \<rparr>]"
    by (simp add: spec_visible_def raDecToAltAz_sample sampleStars_def noOptions_def)
  have l: "magnitudeLimit noOptions = 6" by (simp add: noOptions_def)
  from visibility_filter[OF g] show ?thesis unfolding f l using g by auto
qed

text \<open>
  Claim C7 on a sample polyline of five vertices: one segment qualifies; one crosses the horizon, one starts below it and one ends outside the ring, and these three are dropped.
\<close>

theorem constellation_segments_witness:
  "\<exists>g. buildStarMapGeometry sampleExternals [] greenwich constellationsOnly 500 = Inr g
     \<and> (case layers_get g Constellations of None \<Rightarrow> [] | Some layer \<Rightarrow> primitives layer)
         = [createLine (Fin 250) (Fin (1045 / 6)) (Fin (1955 / 6)) (Fin 250)]"
proof -
  obtain g where g: "buildStarMapGeometry sampleExternals [] greenwich constellationsOnly 500 = Inr g"
    using sample_total(2) by blast
  have s: "List.map_filter (spec_segment sampleExternals greenwich (500 / 2) (500 / 2 * (91 / 100)))
             (spec_vertexPairs (constellationData sampleExternals))
           = [createLine (Fin 250) (Fin (1045 / 6)) (Fin (1955 / 6)) (Fin 250)]"
    by (simp add: spec_vertexPairs_def sampleExternals_simps spec_segment_def raDecToAltAz_sample
          spec_plot_def project_default distanceFromCenter_axis map_filter_simps
          trig_three_halves_pi)
  have c: "showConstellations constellationsOnly" by (simp add: constellationsOnly_def noOptions_def)
  from constellation_segments[OF g] show ?thesis unfolding s using g c by auto
qed

text \<open>
  Claim C10 on a sample: five bodies, of which one is below the horizon and one cannot be resolved.
\<close>

theorem planets_above_horizon_witness:
  "\<exists>g layer pls. buildStarMapGeometry sampleExternals [] greenwich planetsOnly 500 = Inr g
     \<and> layers_get g Planets = Some layer \<and> length (primitives layer) = 5
     \<and> getPlanetPositions sampleExternals greenwich = Inr pls
     \<and> map pl_name pls = [ustr ''Mercury'', ustr ''Venus'', ustr ''Saturn'']
     \<and> (\<forall>p\<in>set pls. 0 < altitude p)
     \<and> (\<forall>prim\<in>set (primitives layer). \<exists>p\<in>set pls. 0 < altitude p \<and>
            (prim = spec_planetMarker (500 / 2) (500 / 2 * (91 / 100)) p
             \<or> prim = spec_planetLabel (500 / 2) (500 / 2 * (91 / 100)) p))"
proof -
  define g where "g = \<lparr> layers =
             [(Stars, \<lparr> layer_type = Stars, primitives = [], layer_visible = True \<rparr>),
              (Planets, \<lparr> layer_type = Planets,
                 primitives =
                   [Circle (Fin 250) (Fin (4070 / 9)) (Fin 3) (Some 0),
                    Text (Fin 255) (Fin (4025 / 9)) (ustr ''Mercury'') AStart BMiddle,
                    Circle (Fin (1205 / 3)) (Fin 250) (Fin 3) (Some 0),
                    Text (Fin (1220 / 3)) (Fin 245) (ustr ''Venus'') AStart BMiddle,
                    Circle (Fin 250) (Fin (4070 / 9)) (Fin 3) (Some 0)],
                 layer_visible = True \<rparr>)],
           bounds = \<lparr> b_width = 500, b_height = 500, centerX = 250, centerY = 250,
                      b_radius = 455 / 2 \<rparr>,
           metadata = \<lparr> starCount = 0, visibleStarCount = 0, timestamp = DateAt 0,
                        location = formatLocation sampleExternals greenwich \<rparr> \<rparr>"
  have g: "buildStarMapGeometry sampleExternals [] greenwich planetsOnly 500 = Inr g"
    unfolding g_def by (rule eval_planets_layer)
  obtain layer where l: "layers_get g Planets = Some layer" and n: "length (primitives layer) = 5"
    by (simp add: g_def layers_get_def)
  have pls: "getPlanetPositions sampleExternals greenwich =
          Inr [\<lparr> altitude = 10, azimuth = 180, pl_name = ustr ''Mercury'', pl_magnitude = 0 \<rparr>,
               \<lparr> altitude = 30, azimuth = 90, pl_name = ustr ''Venus'', pl_magnitude = - 4 \<rparr>,
               \<lparr> altitude = 10, azimuth = 180, pl_name = ustr ''Saturn'', pl_magnitude = 0 \<rparr>]"
    by (simp add: getPlanetPositions_def planetBodies_def sampleExternals_simps)
  from planets_above_horizon[OF g] l pls n g show ?thesis by fastforce
qed

text \<open>
  Claim C8 on a sample: the provider throws for Mars; the positions of Mercury, Venus and
  Saturn are returned (Jupiter is below the horizon) and their markers are in the planets
  layer of the geometry, whose stars layer and metadata are those of the build without
  planets.
\<close>

theorem planet_failure_omits_one_body_witness:
  "\<exists>pls g g0.
       buildStarMapGeometry sampleExternals sampleStars greenwich noOptions 500 = Inr g0
     \<and> Equator sampleExternals Mars () () = Inl (Thrown (ustr ''Mars''))
     \<and> pls = [\<lparr> altitude = 10, azimuth = 180, pl_name = ustr ''Mercury'', pl_magnitude = 0 \<rparr>,
               \<lparr> altitude = 30, azimuth = 90, pl_name = ustr ''Venus'', pl_magnitude = - 4 \<rparr>,
               \<lparr> altitude = 10, azimuth = 180, pl_name = ustr ''Saturn'', pl_magnitude = 0 \<rparr>]
     \<and> getPlanetPositions sampleExternals greenwich = Inr pls
     \<and> buildStarMapGeometry sampleExternals sampleStars greenwich planetsOnly 500 = Inr g
     \<and> bounds g = bounds g0 \<and> metadata g = metadata g0
     \<and> layers_get g Stars = layers_get g0 Stars
     \<and> filter is_Circle (spec_layerPrimitives g Planets)
          = [Circle (Fin 250) (Fin (4070 / 9)) (Fin 3) (Some 0),
             Circle (Fin (1205 / 3)) (Fin 250) (Fin 3) (Some 0),
             Circle (Fin 250) (Fin (4070 / 9)) (Fin 3) (Some 0)]"
proof -
  have o: "planetsOnly \<lparr> showPlanets := False \<rparr> = noOptions"
    by (simp add: planetsOnly_def noOptions_def)
  obtain g0 where g0: "buildStarMapGeometry sampleExternals sampleStars greenwich noOptions 500 = Inr g0"
    using sample_total(1) by blast
  have sp: "showPlanets planetsOnly" by (simp add: planetsOnly_def noOptions_def)
  have pls: "List.map_filter (spec_bodyPosition sampleExternals () ())
               (filter (\<lambda>entry. fst entry \<noteq> Mars) planetBodies)
     = [\<lparr> altitude = 10, azimuth = 180, pl_name = ustr ''Mercury'', pl_magnitude = 0 \<rparr>,
        \<lparr> altitude = 30, azimuth = 90, pl_name = ustr ''Venus'', pl_magnitude = - 4 \<rparr>,
        \<lparr> altitude = 10, azimuth = 180, pl_name = ustr ''Saturn'', pl_magnitude = 0 \<rparr>]"
    by (simp add: planetBodies_def List.map_filter_simps spec_bodyPosition_def sampleExternals_simps)
  have ms: "map (spec_planetMarker (500 / 2) (500 / 2 * (91 / 100)))
              (filter (spec_insideRing (500 / 2) (500 / 2 * (91 / 100)))
         [\<lparr> altitude = 10, azimuth = 180, pl_name = ustr ''Mercury'', pl_magnitude = 0 \<rparr>,
          \<lparr> altitude = 30, azimuth = 90, pl_name = ustr ''Venus'', pl_magnitude = - 4 \<rparr>,
          \<lparr> altitude = 10, azimuth = 180, pl_name = ustr ''Saturn'', pl_magnitude = 0 \<rparr>])
      = [Circle (Fin 250) (Fin (4070 / 9)) (Fin 3) (Some 0),
         Circle (Fin (1205 / 3)) (Fin 250) (Fin 3) (Some 0),
         Circle (Fin 250) (Fin (4070 / 9)) (Fin 3) (Some 0)]"
    by (simp add: spec_planetMarker_def spec_insideRing_def spec_plot_def Let_def project_default
          distanceFromCenter_axis createCircle_def)
  have rest: "buildStarMapGeometry sampleExternals sampleStars greenwich
                 (planetsOnly \<lparr> showPlanets := False \<rparr>) 500 = Inr g0"
    using g0 by (simp only: o)
  have fail: "bindE (Equator sampleExternals Mars () ())
                 (\<lambda>equ. Horizon sampleExternals () () (eq_ra equ) (eq_dec equ))
                = Inl (Thrown (ustr ''Mars''))"
    by (simp add: sampleExternals_simps)
  have mk: "MakeTime sampleExternals (date greenwich) = Inr ()"
    and ao: "AstroObserver sampleExternals (latitude greenwich) (longitude greenwich)
               (elevation greenwich) = Inr ()"
    by (simp_all add: sampleExternals_simps)
  from planet_failure_omits_one_body[OF mk ao fail rest]
  obtain pls' g where
    p: "pls' = List.map_filter (spec_bodyPosition sampleExternals () ())
               (filter (\<lambda>entry. fst entry \<noteq> Mars) planetBodies)"
    and gp: "getPlanetPositions sampleExternals greenwich = Inr pls'"
    and g: "buildStarMapGeometry sampleExternals sampleStars greenwich planetsOnly 500 = Inr g"
    and same: "bounds g = bounds g0" "metadata g = metadata g0"
    and frame: "\<forall>k. k \<noteq> Planets \<longrightarrow>
            (k \<noteq> DegreeRing \<longrightarrow> layers_get g k = layers_get g0 k)
          \<and> (layers_get g k = None \<longleftrightarrow> layers_get g0 k = None)"
    and circles: "showPlanets planetsOnly \<longrightarrow>
          filter is_Circle (spec_layerPrimitives g Planets)
            = map (spec_planetMarker (500 / 2) (500 / 2 * (91 / 100)))
                (filter (spec_insideRing (500 / 2) (500 / 2 * (91 / 100))) pls')"
    by blast
  have stars: "layers_get g Stars = layers_get g0 Stars" using frame by simp
  have c: "filter is_Circle (spec_layerPrimitives g Planets)
          = [Circle (Fin 250) (Fin (4070 / 9)) (Fin 3) (Some 0),
             Circle (Fin (1205 / 3)) (Fin 250) (Fin 3) (Some 0),
             Circle (Fin 250) (Fin (4070 / 9)) (Fin 3) (Some 0)]"
    using circles sp unfolding p pls ms by simp
  show ?thesis
    by (intro exI[of _ pls'] exI[of _ g] exI[of _ g0] conjI g0 gp g same stars c)
       (simp_all add: sampleExternals_simps p pls)
qed


text \<open>
  Claim C3, amended, on a sample: the observer is out of range; a provider that accepts it gives a geometry, a provider that validates the latitude throws.
\<close>

theorem observer_not_validated_witness:
  "(\<exists>g. buildStarMapGeometry sampleExternals sampleStars badObserver noOptions 500 = Inr g
       \<and> timestamp (metadata g) = InvalidDate
       \<and> location (metadata g) = formatLocation sampleExternals badObserver)
   \<and> buildStarMapGeometry strictExternals sampleStars badObserver noOptions 500
       = Inl (Thrown (ustr ''latitude''))
   \<and> AstroObserver strictExternals (latitude badObserver) (longitude badObserver)
        (elevation badObserver) = Inl (Thrown (ustr ''latitude''))"
proof -
  have tot: "\<forall>ra decl. \<exists>c. raDecToAltAz sampleExternals ra decl badObserver = Inr c"
    by (simp add: raDecToAltAz_sample)
  have d: "showMapDate noOptions \<longrightarrow> date badObserver \<noteq> InvalidDate"
    by (simp add: noOptions_def)
  obtain g where g: "buildStarMapGeometry sampleExternals sampleStars badObserver noOptions 500 = Inr g"
    using observer_not_validated[of sampleExternals sampleStars badObserver noOptions 500] tot d
    by blast
  have m: "timestamp (metadata g) = date badObserver
        \<and> location (metadata g) = formatLocation sampleExternals badObserver"
    using observer_not_validated[of sampleExternals sampleStars badObserver noOptions 500 _ g] g
    by blast
  have e: "buildStarMapGeometry strictExternals sampleStars badObserver noOptions 500
       = Inl (Thrown (ustr ''latitude''))"
    by (rule eval_strict_stars)
  have a: "AstroObserver strictExternals (latitude badObserver) (longitude badObserver)
        (elevation badObserver) = Inl (Thrown (ustr ''latitude''))"
    by (simp add: strictExternals_simps badObserver_def)
  from g m e a show ?thesis by (auto simp: badObserver_def)
qed

text \<open>
  Claim C9, amended, on a sample: the labels of Mercury and Venus are placed, the label of Saturn is rejected.
\<close>

theorem placed_labels_do_not_overlap_witness:
  "\<exists>g layer. buildStarMapGeometry sampleExternals [] greenwich planetsOnly 500 = Inr g
     \<and> layers_get g Planets = Some layer
     \<and> length (labelBoxes 9 (primitives layer)) = 2
     \<and> \<not> intersects (labelBoxes 9 (primitives layer) ! 0) (labelBoxes 9 (primitives layer) ! 1)"
proof -
  define layer where "layer = \<lparr> layer_type = Planets,
                 primitives =
                   [Circle (Fin 250) (Fin (4070 / 9)) (Fin 3) (Some 0),
                    Text (Fin 255) (Fin (4025 / 9)) (ustr ''Mercury'') AStart BMiddle,
                    Circle (Fin (1205 / 3)) (Fin 250) (Fin 3) (Some 0),
                    Text (Fin (1220 / 3)) (Fin 245) (ustr ''Venus'') AStart BMiddle,
                    Circle (Fin 250) (Fin (4070 / 9)) (Fin 3) (Some 0)],
                 layer_visible = True \<rparr>"
  define g where "g = \<lparr> layers =
             [(Stars, \<lparr> layer_type = Stars, primitives = [], layer_visible = True \<rparr>),
              (Planets, layer)],
           bounds = \<lparr> b_width = 500, b_height = 500, centerX = 250, centerY = 250,
                      b_radius = 455 / 2 \<rparr>,
           metadata = \<lparr> starCount = 0, visibleStarCount = 0, timestamp = DateAt 0,
                        location = formatLocation sampleExternals greenwich \<rparr> \<rparr>"
  have g: "buildStarMapGeometry sampleExternals [] greenwich planetsOnly 500 = Inr g"
    unfolding g_def layer_def by (rule eval_planets_layer)
  have l: "layers_get g Planets = Some layer" by (simp add: g_def layers_get_def)
  have n: "length (labelBoxes 9 (primitives layer)) = 2" by (simp add: layer_def)
  have "\<not> intersects (labelBoxes 9 (primitives layer) ! 0) (labelBoxes 9 (primitives layer) ! 1)"
    by (rule placed_labels_do_not_overlap[OF g _ l]) (simp_all add: n)
  with g l n show ?thesis by blast
qed

text \<open>
  Claim C9, as stated for every priority class, fails for the cardinal labels: with the
  default viewport size of 1 the boxes of N and E (24.4 wide, 32.8 high) intersect.
\<close>

theorem cardinal_labels_overlap_counterexample:
  "case buildStarMapGeometry sampleExternals [] greenwich cardinalsOnly 1 of
     Inl e \<Rightarrow> False
   | Inr g \<Rightarrow>
       (case layers_get g Cardinals of
          None \<Rightarrow> False
        | Some layer \<Rightarrow>
            intersects (labelBoxes 14 (primitives layer) ! 0) (labelBoxes 14 (primitives layer) ! 1))"
  by (simp add: eval_cardinals layers_get_def label_defs)

text \<open>
  Claim C3, as stated, fails: for an observer with latitude 100, longitude 200 and an
  invalid date, which validateObserver reports as invalid, the builder returns a geometry
  (here with an empty catalog and every option off, so that no external call is made; the
  provider is one that would throw for this observer).
\<close>

theorem invalid_observer_accepted_counterexample:
  "\<not> valid (validateObserver badObserver)
   \<and> buildStarMapGeometry strictExternals [] badObserver noOptions 500 =
     Inr \<lparr> layers = [(Stars, \<lparr> layer_type = Stars, primitives = [], layer_visible = True \<rparr>)],
           bounds = \<lparr> b_width = 500, b_height = 500, centerX = 250, centerY = 250,
                      b_radius = 455 / 2 \<rparr>,
           metadata = \<lparr> starCount = 0, visibleStarCount = 0, timestamp = InvalidDate,
                        location = formatLocation strictExternals badObserver \<rparr> \<rparr>"
proof (intro conjI)
  show "\<not> valid (validateObserver badObserver)"
    by (simp add: validateObserver_def badObserver_def Let_def)
qed (rule eval_strict_empty)

text \<open>
  Claim C4 at the input that fails it: with an empty catalog and every option off, the
  builder returns a geometry whose layers map has the key stars with an empty primitives
  list.
\<close>

theorem empty_stars_layer_emitted:
  "buildStarMapGeometry sampleExternals [] greenwich noOptions 500 =
     Inr \<lparr> layers = [(Stars, \<lparr> layer_type = Stars, primitives = [], layer_visible = True \<rparr>)],
           bounds = \<lparr> b_width = 500, b_height = 500, centerX = 250, centerY = 250,
                      b_radius = 455 / 2 \<rparr>,
           metadata = \<lparr> starCount = 0, visibleStarCount = 0, timestamp = DateAt 0,
                        location = formatLocation sampleExternals greenwich \<rparr> \<rparr>"
  by (rule eval_sample_empty)

lemma eval_names_state:
  "buildState sampleExternals [lowStar] greenwich namesAndCardinals 500 =
     Inr ([\<lparr> ps_hip = 1, ps_x = 250, ps_y = 271 / 8, ps_altitude = 9 / 2,
              ps_azimuth = 0, ps_magnitude = 2, ps_radius = Fin 1,
              ps_name = Some (ustr ''A'') \<rparr>],
          \<lparr> st_layers =
             [(Stars, \<lparr> layer_type = Stars,
                  primitives = [Circle (Fin 250) (Fin (271 / 8)) (Fin 1) (Some 1)],
                  layer_visible = True \<rparr>),
              (StarNames, \<lparr> layer_type = StarNames,
                  primitives = [Text (Fin 259) (Fin (247 / 8)) (ustr ''A'') AStart BMiddle],
                  layer_visible = True \<rparr>),
              (Cardinals, \<lparr> layer_type = Cardinals,
                  primitives =
                    [Text (Fin 250) (Fin (355 / 36)) (ustr ''N'') AMiddle BMiddle,
                     Text (Fin (17645 / 36)) (Fin 250) (ustr ''E'') AMiddle BMiddle,
                     Text (Fin 250) (Fin (17645 / 36)) (ustr ''S'') AMiddle BMiddle,
                     Text (Fin (355 / 36)) (Fin 250) (ustr ''W'') AMiddle BMiddle],
                  layer_visible = True \<rparr>)],
            labelCollision =
               \<lparr> placedLabels =
                  [estimateBoundingBox \<lparr> placedLabels = [], padding = 8 \<rparr>
                     (Fin 259) (Fin (247 / 8)) (ustr ''A'') AStart 9,
                   estimateBoundingBox \<lparr> placedLabels = [], padding = 8 \<rparr>
                     (Fin 250) (Fin (355 / 36)) (ustr ''N'') AMiddle 14,
                   estimateBoundingBox \<lparr> placedLabels = [], padding = 8 \<rparr>
                     (Fin (17645 / 36)) (Fin 250) (ustr ''E'') AMiddle 14,
                   estimateBoundingBox \<lparr> placedLabels = [], padding = 8 \<rparr>
                     (Fin 250) (Fin (17645 / 36)) (ustr ''S'') AMiddle 14,
                   estimateBoundingBox \<lparr> placedLabels = [], padding = 8 \<rparr>
                     (Fin (355 / 36)) (Fin 250) (ustr ''W'') AMiddle 14],
                 padding = 8 \<rparr> \<rparr>)"
  by (simp add: build_defs noOptions_def namesAndCardinals_def greenwich_def lowStar_def Let_def
       cardinals_def project_default label_defs raDecToAltAz_sample brightStars_def
       magnitudeToRadius_def distanceFromCenter_axis trig_three_halves_pi)

text \<open>
  Claim C1 at an input that fails it: with star names and cardinals enabled and one named
  star low in the north, the label of the star is the first box of the detector, before
  the four cardinal boxes, and it is in the star-names layer although its box intersects
  the box of the cardinal N.
\<close>

theorem star_name_placed_before_cardinals:
  "(case buildState sampleExternals [lowStar] greenwich namesAndCardinals 500 of
      Inl e \<Rightarrow> False
    | Inr (ps, st) \<Rightarrow>
        map_of (st_layers st) StarNames =
          Some \<lparr> layer_type = StarNames,
                 primitives = [Text (Fin 259) (Fin (247 / 8)) (ustr ''A'') AStart BMiddle],
                 layer_visible = True \<rparr>
        \<and> placedLabels (labelCollision st) =
            [estimateBoundingBox \<lparr> placedLabels = [], padding = 8 \<rparr>
               (Fin 259) (Fin (247 / 8)) (ustr ''A'') AStart 9,
             estimateBoundingBox \<lparr> placedLabels = [], padding = 8 \<rparr>
               (Fin 250) (Fin (355 / 36)) (ustr ''N'') AMiddle 14,
             estimateBoundingBox \<lparr> placedLabels = [], padding = 8 \<rparr>
               (Fin (17645 / 36)) (Fin 250) (ustr ''E'') AMiddle 14,
             estimateBoundingBox \<lparr> placedLabels = [], padding = 8 \<rparr>
               (Fin 250) (Fin (17645 / 36)) (ustr ''S'') AMiddle 14,
             estimateBoundingBox \<lparr> placedLabels = [], padding = 8 \<rparr>
               (Fin (355 / 36)) (Fin 250) (ustr ''W'') AMiddle 14])
   \<and> intersects
        (estimateBoundingBox \<lparr> placedLabels = [], padding = 8 \<rparr>
           (Fin 259) (Fin (247 / 8)) (ustr ''A'') AStart 9)
        (estimateBoundingBox \<lparr> placedLabels = [], padding = 8 \<rparr>
           (Fin 250) (Fin (355 / 36)) (ustr ''N'') AMiddle 14)"
  by (simp add: eval_names_state) (simp add: label_defs)

end
